theory Spec2Isabelle
  imports Complex_Main
begin

unbundle bit_operations_syntax

section \<open>Electricity demand prediction: the model predictors\<close>

text \<open>
  A shallow embedding of \<^verbatim>\<open>src/lib/model-predictor.py\<close> (class ModelPredictor),
  \<^verbatim>\<open>src/lib/advanced-model-predictor.py\<close> (class AdvancedModelPredictor and main) and
  \<^verbatim>\<open>src/lib/model-predictor-simple.py\<close> (hash_string, generate_prediction).

  Python strings are \<open>string\<close>, Python ints are \<open>int\<close>, Python floats are idealised as
  \<open>real\<close> (no NaN, no infinities, no binary rounding error), exceptions are values of the
  datatype \<open>exn\<close> returned on the left of a sum. Everything the program takes from its
  surroundings (the file system, joblib, the interpreter's string hash, the clock, the
  random generator, strptime) is a field of the record \<open>world\<close>; what the process mutates
  (the model cache, the positions in the clock and random streams) is the record \<open>proc\<close>.
\<close>

subsection \<open>Strings and paths\<close>

definition lower_char :: "char \<Rightarrow> char" where
  "lower_char c =
     (let n = (of_char c :: nat) in if 65 \<le> n \<and> n \<le> 90 then char_of (n + 32) else c)"

text \<open>\<^verbatim>\<open>str.lower()\<close> on the ASCII letters.\<close>

definition lower :: "string \<Rightarrow> string" where
  "lower s = map lower_char s"

text \<open>\<^verbatim>\<open>os.path.join(a, b)\<close> of posixpath, for two components.\<close>

definition os_path_join :: "string \<Rightarrow> string \<Rightarrow> string" where
  "os_path_join a b =
     (if b \<noteq> [] \<and> hd b = CHR ''/'' then b
      else if a = [] \<or> last a = CHR ''/'' then a @ b
      else a @ ''/'' @ b)"

subsection \<open>Region name normaliser and model locator\<close>

text \<open>The dict \<^verbatim>\<open>state_mapping\<close> of \<^verbatim>\<open>_get_model_path\<close>, the same in both classes.\<close>

definition state_mapping :: "(string \<times> string) list" where
  "state_mapping =
     [(''Dadra & Nagar Haveli (DNH)'', ''DNH''),
      (''Himachal Pradesh (HP)'', ''HP''),
      (''Jammu & Kashmir (J&K)'', ''J&K''),
      (''Madhya Pradesh (MP)'', ''MP''),
      (''Puducherry (Pondy)'', ''Pondy''),
      (''Uttar Pradesh (UP)'', ''UP'')]"

text \<open>\<^verbatim>\<open>model_state = state_mapping.get(state, state)\<close>\<close>

definition model_state :: "string \<Rightarrow> string" where
  "model_state state = (case map_of state_mapping state of None \<Rightarrow> state | Some c \<Rightarrow> c)"

definition get_model_path :: "string \<Rightarrow> string \<Rightarrow> string \<Rightarrow> string" where
  "get_model_path models_dir state model_type =
     (if model_type = ''LSTM''
      then os_path_join models_dir (model_state state @ ''_lstm_model.h5'')
      else os_path_join models_dir
             (model_state state @ ''_'' @ lower model_type @ ''_model.joblib''))"

subsection \<open>Calendar: the part of Python's datetime the predictors use\<close>

text \<open>
  A \<^verbatim>\<open>datetime\<close> is its proleptic Gregorian ordinal (\<^verbatim>\<open>toordinal()\<close>, day 1 is
  0001-01-01) and the time of day in microseconds. The calendar fields are computed from
  the ordinal the way \<^verbatim>\<open>datetime.py\<close> does.
\<close>

record datetime =
  ordinal :: int
  micros :: int

definition MAXORDINAL :: int where
  "MAXORDINAL = 3652059"

definition US_PER_DAY :: int where
  "US_PER_DAY = 86400000000"

definition is_leap :: "int \<Rightarrow> bool" where
  "is_leap y = (y mod 4 = 0 \<and> (y mod 100 \<noteq> 0 \<or> y mod 400 = 0))"

definition days_before_year :: "int \<Rightarrow> int" where
  "days_before_year y = (let y1 = y - 1 in y1 * 365 + y1 div 4 - y1 div 100 + y1 div 400)"

definition DAYS_IN_MONTH :: "int \<Rightarrow> int" where
  "DAYS_IN_MONTH m =
     (if m = 2 then 28 else if m = 4 \<or> m = 6 \<or> m = 9 \<or> m = 11 then 30 else 31)"

definition DAYS_BEFORE_MONTH :: "int \<Rightarrow> int" where
  "DAYS_BEFORE_MONTH m = (\<Sum>k \<leftarrow> [1..m - 1]. DAYS_IN_MONTH k)"

definition days_before_month :: "int \<Rightarrow> int \<Rightarrow> int" where
  "days_before_month y m = DAYS_BEFORE_MONTH m + (if 2 < m \<and> is_leap y then 1 else 0)"

definition ymd2ord :: "int \<Rightarrow> int \<Rightarrow> int \<Rightarrow> int" where
  "ymd2ord y m d = days_before_year y + days_before_month y m + d"

text \<open>\<^verbatim>\<open>_ord2ymd\<close>: the year, month and day of an ordinal.\<close>

definition ord2ymd :: "int \<Rightarrow> int \<times> int \<times> int" where
  "ord2ymd n0 =
     (let n = n0 - 1;
          n400 = n div 146097; n = n mod 146097;
          n100 = n div 36524; n = n mod 36524;
          n4 = n div 1461; n = n mod 1461;
          n1 = n div 365; n = n mod 365;
          year = n400 * 400 + 1 + n100 * 100 + n4 * 4 + n1
      in if n1 = 4 \<or> n100 = 4 then (year - 1, 12, 31)
         else
           let leapyear = (n1 = 3 \<and> (n4 \<noteq> 24 \<or> n100 = 3));
               month = (n + 50) div 32;
               preceding = DAYS_BEFORE_MONTH month + (if 2 < month \<and> leapyear then 1 else 0)
           in if n < preceding
              then let month' = month - 1;
                       preceding' = preceding
                         - (DAYS_IN_MONTH month' + (if month' = 2 \<and> leapyear then 1 else 0))
                   in (year, month', n - preceding' + 1)
              else (year, month, n - preceding + 1))"

definition dt_year :: "datetime \<Rightarrow> int" where
  "dt_year t = fst (ord2ymd (ordinal t))"

definition dt_month :: "datetime \<Rightarrow> int" where
  "dt_month t = fst (snd (ord2ymd (ordinal t)))"

definition dt_day :: "datetime \<Rightarrow> int" where
  "dt_day t = snd (snd (ord2ymd (ordinal t)))"

text \<open>\<^verbatim>\<open>weekday()\<close>, Monday is 0.\<close>

definition weekday :: "datetime \<Rightarrow> int" where
  "weekday t = (ordinal t + 6) mod 7"

text \<open>\<^verbatim>\<open>timetuple().tm_yday\<close>\<close>

definition tm_yday :: "datetime \<Rightarrow> int" where
  "tm_yday t = days_before_month (dt_year t) (dt_month t) + dt_day t"

definition isoweek1monday :: "int \<Rightarrow> int" where
  "isoweek1monday year =
     (let firstday = ymd2ord year 1 1;
          firstweekday = (firstday + 6) mod 7;
          week1monday = firstday - firstweekday
      in if 3 < firstweekday then week1monday + 7 else week1monday)"

text \<open>\<^verbatim>\<open>isocalendar()\<close>: ISO year, week and weekday.\<close>

definition isocalendar :: "datetime \<Rightarrow> int \<times> int \<times> int" where
  "isocalendar t =
     (let year = dt_year t;
          week1monday = isoweek1monday year;
          today = ymd2ord year (dt_month t) (dt_day t);
          week = (today - week1monday) div 7;
          day = (today - week1monday) mod 7
      in if week < 0
         then let week1monday' = isoweek1monday (year - 1)
              in (year - 1, (today - week1monday') div 7 + 1, (today - week1monday') mod 7 + 1)
         else if 52 \<le> week \<and> isoweek1monday (year + 1) \<le> today
         then (year + 1, 1, day + 1)
         else (year, week + 1, day + 1))"

subsection \<open>Exceptions\<close>

datatype exn =
    FileNotFoundError string
  | RuntimeError string
  | ValueError string
  | ImportError string
  | AttributeError string
  | OverflowError string

text \<open>\<^verbatim>\<open>str(e)\<close>\<close>

fun str_exn :: "exn \<Rightarrow> string" where
  "str_exn (FileNotFoundError m) = m"
| "str_exn (RuntimeError m) = m"
| "str_exn (ValueError m) = m"
| "str_exn (ImportError m) = m"
| "str_exn (AttributeError m) = m"
| "str_exn (OverflowError m) = m"

text \<open>
  \<^verbatim>\<open>dt + timedelta(days=n)\<close> and \<^verbatim>\<open>dt - timedelta(days=n)\<close>: the time of day is kept,
  and a result outside years 1 to 9999 raises OverflowError.
\<close>

definition add_days :: "datetime \<Rightarrow> int \<Rightarrow> exn + datetime" where
  "add_days t n =
     (let d = ordinal t + n
      in if 0 < d \<and> d \<le> MAXORDINAL then Inr (t\<lparr>ordinal := d\<rparr>)
         else Inl (OverflowError ''date value out of range''))"

definition sub_days :: "datetime \<Rightarrow> int \<Rightarrow> exn + datetime" where
  "sub_days t n = add_days t (- n)"

text \<open>\<^verbatim>\<open>(a - b).days\<close>: the day count of the normalised timedelta (a floor).\<close>

definition timedelta_days :: "datetime \<Rightarrow> datetime \<Rightarrow> int" where
  "timedelta_days a b =
     ((ordinal a * US_PER_DAY + micros a) - (ordinal b * US_PER_DAY + micros b)) div US_PER_DAY"

subsection \<open>The surroundings and the process state\<close>

text \<open>
  A loaded model is either the placeholder string \<^verbatim>\<open>f"LSTM_MODEL_{state}"\<close> or an object
  that joblib deserialised, named by a handle.
\<close>

datatype model = PyStr string | Artifact nat

text \<open>
  \<^item> \<open>path_exists\<close> is \<^verbatim>\<open>os.path.exists\<close>;
  \<^item> \<open>joblib_load\<close> is \<^verbatim>\<open>joblib.load\<close>: \<open>Inl\<close> the text of the exception it raises,
    \<open>Inr\<close> the handle of the object;
  \<^item> \<open>has_predict h\<close> is \<^verbatim>\<open>hasattr(model, 'predict')\<close> and \<open>model_predict h fs\<close> is
    \<^verbatim>\<open>model.predict(features)[0]\<close>, \<open>None\<close> when that raises;
  \<^item> \<open>py_hash\<close> is the interpreter's \<^verbatim>\<open>hash\<close> on strings, fixed within one process;
  \<^item> \<open>strptime\<close> is \<^verbatim>\<open>datetime.strptime(s, '%Y-%m-%d')\<close>: \<open>Inl\<close> the text of the
    ValueError, \<open>Inr\<close> the ordinal of the parsed date (its time of day is 00:00);
  \<^item> \<open>clock\<close> lists the successive readings of \<^verbatim>\<open>datetime.now()\<close>;
  \<^item> \<open>std_normal\<close> lists the successive standard normal draws behind
    \<^verbatim>\<open>np.random.normal\<close>, \<open>uniform\<close> the draws of \<^verbatim>\<open>np.random.random()\<close>;
  \<^item> \<open>TENSORFLOW_AVAILABLE\<close> and \<open>JOBLIB_AVAILABLE\<close> are the import flags of
    advanced-model-predictor.py;
  \<^item> \<open>parse_request\<close> is \<^verbatim>\<open>json.loads(sys.argv[1])\<close> with the five field reads of main,
    \<open>json_dumps_error\<close> the text of the exception \<^verbatim>\<open>json.dumps(result)\<close> raises, if any.
\<close>

record request =
  req_state :: string
  req_lat :: real
  req_lon :: real
  req_prediction_date :: string
  req_model_type :: string

record series_point =
  date :: int
  usage :: real

text \<open>
  The \<open>date\<close> of a series point is the calendar date (as an ordinal) that the source
  renders with \<^verbatim>\<open>strftime('%Y-%m-%d')\<close>.
\<close>

text \<open>
  The result dict. \<open>features_used\<close> is \<^verbatim>\<open>features.tolist()\<close> (a list of one row) in the
  two classes and a flat list in model-predictor-simple.py; the dict of
  AdvancedModelPredictor has the further key \<^verbatim>\<open>model_loaded\<close>.
\<close>

record 'f prediction =
  predicted_usage :: real
  model_type :: string
  historical_data :: "series_point list"
  forecast_data :: "series_point list"
  features_used :: 'f

record aprediction = "real list list prediction" +
  model_loaded :: bool

record world =
  path_exists :: "string \<Rightarrow> bool"
  joblib_load :: "string \<Rightarrow> string + nat"
  has_predict :: "nat \<Rightarrow> bool"
  model_predict :: "nat \<Rightarrow> real list list \<Rightarrow> real option"
  py_hash :: "string \<Rightarrow> int"
  strptime :: "string \<Rightarrow> string + int"
  clock :: "nat \<Rightarrow> datetime"
  std_normal :: "nat \<Rightarrow> real"
  uniform :: "nat \<Rightarrow> real"
  TENSORFLOW_AVAILABLE :: bool
  JOBLIB_AVAILABLE :: bool
  parse_request :: "string \<Rightarrow> string + request"
  json_dumps_error :: "aprediction \<Rightarrow> string option"

text \<open>
  The predictor object (\<open>models_dir\<close>, \<open>loaded_models\<close>, \<open>model_cache\<close>) and the
  process-wide positions in the random and clock streams.
\<close>

record proc =
  models_dir :: string
  loaded_models :: "string \<rightharpoonup> model"
  model_cache :: "string \<rightharpoonup> model"
  rng_pos :: nat
  clock_pos :: nat

text \<open>\<^verbatim>\<open>np.random.normal(loc, scale)\<close> at stream position \<open>k\<close>.\<close>

definition random_normal :: "world \<Rightarrow> nat \<Rightarrow> real \<Rightarrow> real \<Rightarrow> real" where
  "random_normal w k loc scale = loc + scale * std_normal w k"

text \<open>\<^verbatim>\<open>datetime.strptime(prediction_date, '%Y-%m-%d')\<close>\<close>

definition parse_date :: "world \<Rightarrow> string \<Rightarrow> exn + datetime" where
  "parse_date w s =
     (case strptime w s of
        Inl msg \<Rightarrow> Inl (ValueError msg)
      | Inr d \<Rightarrow> Inr \<lparr>ordinal = d, micros = 0\<rparr>)"

text \<open>
  \<^verbatim>\<open>round(x, 2)\<close>: the nearest multiple of 0.01, a tie going to the even one.
\<close>

definition round_half_even :: "real \<Rightarrow> int" where
  "round_half_even y =
     (let f = \<lfloor>y\<rfloor>; d = y - of_int f
      in if d < 1 / 2 then f else if 1 / 2 < d then f + 1
         else if even f then f else f + 1)"

definition round2 :: "real \<Rightarrow> real" where
  "round2 x = of_int (round_half_even (x * 100)) / 100"

text \<open>\<^verbatim>\<open>20 * np.sin(2 * np.pi * day_of_year / 365.25)\<close>\<close>

definition seasonality :: "int \<Rightarrow> real" where
  "seasonality day_of_year = 20 * sin (2 * pi * of_int day_of_year / 365.25)"

text \<open>
  \<^verbatim>\<open>state_seed = hash(state) % 1000; base_usage = 100 + (state_seed % 50)\<close>
  (Python's \<^verbatim>\<open>%\<close> with a positive modulus is the floor remainder, as \<open>mod\<close> on \<open>int\<close>).
\<close>

definition base_usage :: "world \<Rightarrow> string \<Rightarrow> int" where
  "base_usage w state = (let state_seed = py_hash w state mod 1000 in 100 + (state_seed mod 50))"

subsection \<open>ModelPredictor (model-predictor.py)\<close>

text \<open>\<^verbatim>\<open>ModelPredictor._load_model\<close>\<close>

definition load_model :: "world \<Rightarrow> string \<Rightarrow> string \<Rightarrow> proc \<Rightarrow> (exn + model) \<times> proc" where
  "load_model w state mtype p =
     (let model_path = get_model_path (models_dir p) state mtype
      in if \<not> path_exists w model_path
         then (Inl (FileNotFoundError (''Model not found: '' @ model_path)), p)
         else
           let cache_key = state @ ''_'' @ mtype
           in case model_cache p cache_key of
                Some m \<Rightarrow> (Inr m, p)
              | None \<Rightarrow>
                  if mtype = ''LSTM''
                  then let m = PyStr (''LSTM_MODEL_'' @ state)
                       in (Inr m, p\<lparr>model_cache := (model_cache p)(cache_key \<mapsto> m)\<rparr>)
                  else
                    case joblib_load w model_path of
                      Inl msg \<Rightarrow>
                        (Inl (RuntimeError
                               (''Failed to load model '' @ model_path @ '': '' @ msg)), p)
                    | Inr h \<Rightarrow>
                        (Inr (Artifact h),
                         p\<lparr>model_cache := (model_cache p)(cache_key \<mapsto> Artifact h)\<rparr>))"

text \<open>\<^verbatim>\<open>ModelPredictor._prepare_features\<close>: twelve features, as one row.\<close>

definition prepare_features ::
  "world \<Rightarrow> string \<Rightarrow> real \<Rightarrow> real \<Rightarrow> string \<Rightarrow> exn + real list list" where
  "prepare_features w state lat lon prediction_date =
     (case parse_date w prediction_date of
        Inl e \<Rightarrow> Inl e
      | Inr pred_date \<Rightarrow>
          Inr [[of_int (dt_year pred_date), of_int (dt_month pred_date),
                of_int (dt_day pred_date), of_int (weekday pred_date),
                of_int (tm_yday pred_date),
                lat, lon,
                sin (2 * pi * of_int (tm_yday pred_date) / 365.25),
                cos (2 * pi * of_int (tm_yday pred_date) / 365.25),
                sin (2 * pi * of_int (dt_month pred_date) / 12),
                cos (2 * pi * of_int (dt_month pred_date) / 12),
                of_int (py_hash w state mod 1000)]])"

text \<open>
  \<^verbatim>\<open>trend = i * 0.1\<close>, the trend line of the historical loop of both classes, where
  \<open>i\<close> is the number of days before today.
\<close>

definition historical_trend :: "int \<Rightarrow> real" where
  "historical_trend i = of_int i * 0.1"

text \<open>
  The body of the loop of \<^verbatim>\<open>_generate_historical_data\<close> for one \<open>i\<close>, with the
  random draw at position \<open>k\<close>.
\<close>

definition historical_point ::
  "world \<Rightarrow> int \<Rightarrow> datetime \<Rightarrow> int \<Rightarrow> nat \<Rightarrow> exn + series_point" where
  "historical_point w base today i k =
     (case sub_days today i of
        Inl e \<Rightarrow> Inl e
      | Inr d \<Rightarrow>
          let day_of_year = tm_yday d;
              trend = historical_trend i;
              noise = random_normal w k 0 5;
              usage = of_int base + trend + seasonality day_of_year + noise;
              usage = max 0 usage
          in Inr \<lparr>date = ordinal d, usage = round2 usage\<rparr>)"

text \<open>
  A \<^verbatim>\<open>for i in ...\<close> loop that appends one point per \<open>i\<close> and draws one random number
  per iteration; an exception leaves the loop with the draws made so far consumed.
\<close>

fun series_loop ::
  "(int \<Rightarrow> nat \<Rightarrow> exn + series_point) \<Rightarrow> int list \<Rightarrow> nat \<Rightarrow> series_point list
     \<Rightarrow> (exn + series_point list) \<times> nat" where
  "series_loop body [] k acc = (Inr acc, k)"
| "series_loop body (i # is) k acc =
     (case body i k of
        Inl e \<Rightarrow> (Inl e, k)
      | Inr pt \<Rightarrow> series_loop body is (Suc k) (acc @ [pt]))"

text \<open>\<^verbatim>\<open>range(days, 0, -1)\<close> and \<^verbatim>\<open>range(1, n + 1)\<close>\<close>

definition range_down :: "int \<Rightarrow> int list" where
  "range_down days = rev [1..days]"

definition range_up :: "int \<Rightarrow> int list" where
  "range_up n = [1..n]"

text \<open>\<^verbatim>\<open>ModelPredictor._generate_historical_data\<close>\<close>

definition generate_historical_data ::
  "world \<Rightarrow> string \<Rightarrow> int \<Rightarrow> proc \<Rightarrow> (exn + series_point list) \<times> proc" where
  "generate_historical_data w state days p =
     (let today = clock w (clock_pos p);
          p1 = p\<lparr>clock_pos := Suc (clock_pos p)\<rparr>;
          base = base_usage w state;
          (r, k) = series_loop (historical_point w base today) (range_down days) (rng_pos p1) []
      in (r, p1\<lparr>rng_pos := k\<rparr>))"

definition forecast_point ::
  "world \<Rightarrow> int \<Rightarrow> datetime \<Rightarrow> int \<Rightarrow> nat \<Rightarrow> exn + series_point" where
  "forecast_point w base pred_date i k =
     (case add_days pred_date i of
        Inl e \<Rightarrow> Inl e
      | Inr d \<Rightarrow>
          let day_of_year = tm_yday d;
              trend = of_int i * 0.1;
              noise = random_normal w k 0 3;
              usage = of_int base + trend + seasonality day_of_year + noise;
              usage = max 0 usage
          in Inr \<lparr>date = ordinal d, usage = round2 usage\<rparr>)"

text \<open>\<^verbatim>\<open>ModelPredictor._generate_forecast_data\<close>\<close>

definition generate_forecast_data ::
  "world \<Rightarrow> string \<Rightarrow> string \<Rightarrow> int \<Rightarrow> proc \<Rightarrow> (exn + series_point list) \<times> proc" where
  "generate_forecast_data w state prediction_date days_ahead p =
     (case parse_date w prediction_date of
        Inl e \<Rightarrow> (Inl e, p)
      | Inr pred_date \<Rightarrow>
          let base = base_usage w state;
              (r, k) = series_loop (forecast_point w base pred_date) (range_up days_ahead)
                         (rng_pos p) []
          in (r, p\<lparr>rng_pos := k\<rparr>))"

text \<open>
  The branches of \<^verbatim>\<open>predict\<close> for ARIMA, LSTM and Prophet are the same statements with
  the noise scale 5, 3 and 4: the value before \<^verbatim>\<open>max(0, ...)\<close>.
\<close>

definition seasonal_value :: "world \<Rightarrow> string \<Rightarrow> string \<Rightarrow> real \<Rightarrow> nat \<Rightarrow> exn + real" where
  "seasonal_value w state prediction_date scale k =
     (let base = base_usage w state
      in case parse_date w prediction_date of
           Inl e \<Rightarrow> Inl e
         | Inr pred_date \<Rightarrow>
             let day_of_year = tm_yday pred_date;
                 trend = 0.1;
                 noise = random_normal w k 0 scale
             in Inr (of_int base + trend + seasonality day_of_year + noise))"

text \<open>\<^verbatim>\<open>model.predict(features)[0]\<close>; the placeholder string has no \<^verbatim>\<open>predict\<close>.\<close>

definition call_predict :: "world \<Rightarrow> model \<Rightarrow> real list list \<Rightarrow> real option" where
  "call_predict w m features =
     (case m of PyStr _ \<Rightarrow> None | Artifact h \<Rightarrow> model_predict w h features)"

text \<open>
  The \<^verbatim>\<open>if model_type == ...\<close> chain of \<^verbatim>\<open>ModelPredictor.predict\<close>: the value of
  \<^verbatim>\<open>predicted_usage\<close> after it, and the position in the random stream.
\<close>

definition point_prediction ::
  "world \<Rightarrow> string \<Rightarrow> string \<Rightarrow> string \<Rightarrow> model \<Rightarrow> real list list \<Rightarrow> nat
     \<Rightarrow> (exn + real) \<times> nat" where
  "point_prediction w state prediction_date mtype m features k =
     (if mtype = ''ARIMA'' then
        (case seasonal_value w state prediction_date 5 k of
           Inl e \<Rightarrow> (Inl e, k) | Inr v \<Rightarrow> (Inr (max 0 v), Suc k))
      else if mtype = ''XGBoost'' then
        (case call_predict w m features of
           Some y \<Rightarrow> (Inr (max 0 y), k)
         | None \<Rightarrow>
             (Inr (max 0 (of_int (base_usage w state) + random_normal w k 0 10)), Suc k))
      else if mtype = ''LSTM'' then
        (case seasonal_value w state prediction_date 3 k of
           Inl e \<Rightarrow> (Inl e, k) | Inr v \<Rightarrow> (Inr (max 0 v), Suc k))
      else if mtype = ''Prophet'' then
        (case seasonal_value w state prediction_date 4 k of
           Inl e \<Rightarrow> (Inl e, k) | Inr v \<Rightarrow> (Inr (max 0 v), Suc k))
      else (Inl (ValueError (''Unsupported model type: '' @ mtype)), k))"

text \<open>\<^verbatim>\<open>except Exception as e: raise RuntimeError(f"Prediction failed: {str(e)}")\<close>\<close>

definition prediction_failed :: "exn \<Rightarrow> exn" where
  "prediction_failed e = RuntimeError (''Prediction failed: '' @ str_exn e)"

text \<open>\<^verbatim>\<open>ModelPredictor.predict\<close>\<close>

definition predict ::
  "world \<Rightarrow> string \<Rightarrow> real \<Rightarrow> real \<Rightarrow> string \<Rightarrow> string \<Rightarrow> proc
     \<Rightarrow> (exn + real list list prediction) \<times> proc" where
  "predict w state lat lon prediction_date mtype p =
     (case load_model w state mtype p of
        (Inl e, p1) \<Rightarrow> (Inl (prediction_failed e), p1)
      | (Inr m, p1) \<Rightarrow>
     (case prepare_features w state lat lon prediction_date of
        Inl e \<Rightarrow> (Inl (prediction_failed e), p1)
      | Inr features \<Rightarrow>
     (case point_prediction w state prediction_date mtype m features (rng_pos p1) of
        (Inl e, k) \<Rightarrow> (Inl (prediction_failed e), p1\<lparr>rng_pos := k\<rparr>)
      | (Inr predicted, k) \<Rightarrow>
     (case generate_historical_data w state 90 (p1\<lparr>rng_pos := k\<rparr>) of
        (Inl e, p2) \<Rightarrow> (Inl (prediction_failed e), p2)
      | (Inr hist, p2) \<Rightarrow>
     (case parse_date w prediction_date of
        Inl e \<Rightarrow> (Inl (prediction_failed e), p2)
      | Inr pred_date \<Rightarrow>
          let now = clock w (clock_pos p2);
              p3 = p2\<lparr>clock_pos := Suc (clock_pos p2)\<rparr>;
              days_ahead = timedelta_days pred_date now
          in
     (case generate_forecast_data w state prediction_date (max 1 days_ahead) p3 of
        (Inl e, p4) \<Rightarrow> (Inl (prediction_failed e), p4)
      | (Inr fc, p4) \<Rightarrow>
          (Inr \<lparr>predicted_usage = round2 predicted,
                model_type = mtype,
                historical_data = hist,
                forecast_data = fc,
                features_used = features\<rparr>, p4)))))))"

text \<open>\<^verbatim>\<open>ModelPredictor.get_available_models\<close>\<close>

definition get_available_models :: "world \<Rightarrow> proc \<Rightarrow> string \<Rightarrow> string list" where
  "get_available_models w p state =
     filter (\<lambda>mtype. path_exists w (get_model_path (models_dir p) state mtype))
       [''ARIMA'', ''XGBoost'', ''LSTM'', ''Prophet'']"

subsection \<open>AdvancedModelPredictor (advanced-model-predictor.py)\<close>

text \<open>\<^verbatim>\<open>AdvancedModelPredictor._load_model\<close>; its cache is \<open>loaded_models\<close>.\<close>

definition aload_model :: "world \<Rightarrow> string \<Rightarrow> string \<Rightarrow> proc \<Rightarrow> (exn + model) \<times> proc" where
  "aload_model w state mtype p =
     (let model_path = get_model_path (models_dir p) state mtype
      in if \<not> path_exists w model_path
         then (Inl (FileNotFoundError (''Model not found: '' @ model_path)), p)
         else
           let cache_key = state @ ''_'' @ mtype
           in case loaded_models p cache_key of
                Some m \<Rightarrow> (Inr m, p)
              | None \<Rightarrow>
                  if mtype = ''LSTM''
                  then if \<not> TENSORFLOW_AVAILABLE w
                       then (Inl (RuntimeError
                                   (''Failed to load model '' @ model_path @ '': ''
                                    @ ''TensorFlow not available for LSTM models'')), p)
                       else let m = PyStr (''LSTM_MODEL_'' @ state)
                            in (Inr m, p\<lparr>loaded_models := (loaded_models p)(cache_key \<mapsto> m)\<rparr>)
                  else if \<not> JOBLIB_AVAILABLE w
                       then (Inl (RuntimeError
                                   (''Failed to load model '' @ model_path @ '': ''
                                    @ ''joblib not available for model loading'')), p)
                  else
                    case joblib_load w model_path of
                      Inl msg \<Rightarrow>
                        (Inl (RuntimeError
                               (''Failed to load model '' @ model_path @ '': '' @ msg)), p)
                    | Inr h \<Rightarrow>
                        (Inr (Artifact h),
                         p\<lparr>loaded_models := (loaded_models p)(cache_key \<mapsto> Artifact h)\<rparr>))"

text \<open>\<^verbatim>\<open>AdvancedModelPredictor._prepare_features\<close>: fifteen features, as one row.\<close>

definition aprepare_features ::
  "world \<Rightarrow> string \<Rightarrow> real \<Rightarrow> real \<Rightarrow> string \<Rightarrow> exn + real list list" where
  "aprepare_features w state lat lon prediction_date =
     (case parse_date w prediction_date of
        Inl e \<Rightarrow> Inl e
      | Inr pred_date \<Rightarrow>
          Inr [[of_int (dt_year pred_date), of_int (dt_month pred_date),
                of_int (dt_day pred_date), of_int (weekday pred_date),
                of_int (tm_yday pred_date),
                lat, lon,
                sin (2 * pi * of_int (tm_yday pred_date) / 365.25),
                cos (2 * pi * of_int (tm_yday pred_date) / 365.25),
                sin (2 * pi * of_int (dt_month pred_date) / 12),
                cos (2 * pi * of_int (dt_month pred_date) / 12),
                of_int (py_hash w state mod 1000),
                of_int (fst (snd (isocalendar pred_date))),
                of_int (snd (snd (isocalendar pred_date))),
                of_int (ordinal pred_date - ymd2ord (dt_year pred_date) 1 1)]])"

text \<open>
  The loop bodies of the advanced class round first and clamp after:
  \<^verbatim>\<open>usage = max(0, round(usage, 2))\<close>.
\<close>

definition ahistorical_point ::
  "world \<Rightarrow> int \<Rightarrow> datetime \<Rightarrow> int \<Rightarrow> nat \<Rightarrow> exn + series_point" where
  "ahistorical_point w base today i k =
     (case sub_days today i of
        Inl e \<Rightarrow> Inl e
      | Inr d \<Rightarrow>
          let day_of_year = tm_yday d;
              trend = historical_trend i;
              noise = random_normal w k 0 5;
              usage = of_int base + trend + seasonality day_of_year + noise;
              usage = max 0 (round2 usage)
          in Inr \<lparr>date = ordinal d, usage = usage\<rparr>)"

definition agenerate_historical_data ::
  "world \<Rightarrow> string \<Rightarrow> int \<Rightarrow> proc \<Rightarrow> (exn + series_point list) \<times> proc" where
  "agenerate_historical_data w state days p =
     (let today = clock w (clock_pos p);
          p1 = p\<lparr>clock_pos := Suc (clock_pos p)\<rparr>;
          base = base_usage w state;
          (r, k) = series_loop (ahistorical_point w base today) (range_down days) (rng_pos p1) []
      in (r, p1\<lparr>rng_pos := k\<rparr>))"

definition aforecast_point ::
  "world \<Rightarrow> int \<Rightarrow> datetime \<Rightarrow> int \<Rightarrow> nat \<Rightarrow> exn + series_point" where
  "aforecast_point w base pred_date i k =
     (case add_days pred_date i of
        Inl e \<Rightarrow> Inl e
      | Inr d \<Rightarrow>
          let day_of_year = tm_yday d;
              trend = of_int i * 0.1;
              noise = random_normal w k 0 3;
              usage = of_int base + trend + seasonality day_of_year + noise;
              usage = max 0 (round2 usage)
          in Inr \<lparr>date = ordinal d, usage = usage\<rparr>)"

definition agenerate_forecast_data ::
  "world \<Rightarrow> string \<Rightarrow> string \<Rightarrow> int \<Rightarrow> proc \<Rightarrow> (exn + series_point list) \<times> proc" where
  "agenerate_forecast_data w state prediction_date days_ahead p =
     (case parse_date w prediction_date of
        Inl e \<Rightarrow> (Inl e, p)
      | Inr pred_date \<Rightarrow>
          let base = base_usage w state;
              (r, k) = series_loop (aforecast_point w base pred_date) (range_up days_ahead)
                         (rng_pos p) []
          in (r, p\<lparr>rng_pos := k\<rparr>))"

text \<open>
  \<^verbatim>\<open>hasattr(model, 'predict')\<close> and then \<^verbatim>\<open>model.predict(features)[0]\<close>; without the
  attribute the branch raises AttributeError itself, which its own \<^verbatim>\<open>except\<close> catches.
\<close>

definition acall_predict :: "world \<Rightarrow> model \<Rightarrow> real list list \<Rightarrow> real option" where
  "acall_predict w m features =
     (case m of
        PyStr _ \<Rightarrow> None
      | Artifact h \<Rightarrow> if has_predict w h then model_predict w h features else None)"

text \<open>The \<^verbatim>\<open>if model_type == ...\<close> chain of \<^verbatim>\<open>AdvancedModelPredictor.predict\<close>.\<close>

definition apoint_prediction ::
  "world \<Rightarrow> string \<Rightarrow> string \<Rightarrow> string \<Rightarrow> model \<Rightarrow> real list list \<Rightarrow> nat
     \<Rightarrow> (exn + real) \<times> nat" where
  "apoint_prediction w state prediction_date mtype m features k =
     (if mtype = ''ARIMA'' then
        (case seasonal_value w state prediction_date 5 k of
           Inl e \<Rightarrow> (Inl e, k) | Inr v \<Rightarrow> (Inr (max 0 (round2 v)), Suc k))
      else if mtype = ''XGBoost'' then
        (case acall_predict w m features of
           Some y \<Rightarrow> (Inr (max 0 (round2 y)), k)
         | None \<Rightarrow>
             (Inr (max 0 (round2 (of_int (base_usage w state) + random_normal w k 0 10))),
              Suc k))
      else if mtype = ''LSTM'' then
        (case seasonal_value w state prediction_date 3 k of
           Inl e \<Rightarrow> (Inl e, k) | Inr v \<Rightarrow> (Inr (max 0 (round2 v)), Suc k))
      else if mtype = ''Prophet'' then
        (case seasonal_value w state prediction_date 4 k of
           Inl e \<Rightarrow> (Inl e, k) | Inr v \<Rightarrow> (Inr (max 0 (round2 v)), Suc k))
      else (Inl (ValueError (''Unsupported model type: '' @ mtype)), k))"

text \<open>\<^verbatim>\<open>AdvancedModelPredictor.predict\<close>\<close>

definition apredict ::
  "world \<Rightarrow> string \<Rightarrow> real \<Rightarrow> real \<Rightarrow> string \<Rightarrow> string \<Rightarrow> proc
     \<Rightarrow> (exn + aprediction) \<times> proc" where
  "apredict w state lat lon prediction_date mtype p =
     (case aload_model w state mtype p of
        (Inl e, p1) \<Rightarrow> (Inl (prediction_failed e), p1)
      | (Inr m, p1) \<Rightarrow>
     (case aprepare_features w state lat lon prediction_date of
        Inl e \<Rightarrow> (Inl (prediction_failed e), p1)
      | Inr features \<Rightarrow>
     (case apoint_prediction w state prediction_date mtype m features (rng_pos p1) of
        (Inl e, k) \<Rightarrow> (Inl (prediction_failed e), p1\<lparr>rng_pos := k\<rparr>)
      | (Inr predicted, k) \<Rightarrow>
     (case agenerate_historical_data w state 90 (p1\<lparr>rng_pos := k\<rparr>) of
        (Inl e, p2) \<Rightarrow> (Inl (prediction_failed e), p2)
      | (Inr hist, p2) \<Rightarrow>
     (case parse_date w prediction_date of
        Inl e \<Rightarrow> (Inl (prediction_failed e), p2)
      | Inr pred_date \<Rightarrow>
          let now = clock w (clock_pos p2);
              p3 = p2\<lparr>clock_pos := Suc (clock_pos p2)\<rparr>;
              days_ahead = timedelta_days pred_date now
          in
     (case agenerate_forecast_data w state prediction_date (max 1 days_ahead) p3 of
        (Inl e, p4) \<Rightarrow> (Inl (prediction_failed e), p4)
      | (Inr fc, p4) \<Rightarrow>
          (Inr \<lparr>predicted_usage = predicted,
                model_type = mtype,
                historical_data = hist,
                forecast_data = fc,
                features_used = features,
                model_loaded = True\<rparr>, p4)))))))"

text \<open>
  \<^verbatim>\<open>main\<close> of advanced-model-predictor.py: what is printed on standard output and the
  exit code. A fresh predictor has the directory \<^verbatim>\<open>"models"\<close> and an empty cache.
\<close>

datatype 'r stdout = Error_object string | Result_object 'r

definition new_predictor :: "nat \<Rightarrow> nat \<Rightarrow> proc" where
  "new_predictor k c =
     \<lparr>models_dir = ''models'', loaded_models = Map.empty, model_cache = Map.empty,
      rng_pos = k, clock_pos = c\<rparr>"

definition main :: "world \<Rightarrow> string list \<Rightarrow> aprediction stdout \<times> nat" where
  "main w argv =
     (if length argv \<noteq> 2 then (Error_object ''Invalid arguments'', 1)
      else
        case parse_request w (argv ! 1) of
          Inl msg \<Rightarrow> (Error_object msg, 1)
        | Inr input_data \<Rightarrow>
            (case fst (apredict w (req_state input_data) (req_lat input_data)
                         (req_lon input_data) (req_prediction_date input_data)
                         (req_model_type input_data) (new_predictor 0 0)) of
               Inl e \<Rightarrow> (Error_object (str_exn e), 1)
             | Inr result \<Rightarrow>
                 (case json_dumps_error w result of
                    Some msg \<Rightarrow> (Error_object msg, 1)
                  | None \<Rightarrow> (Result_object result, 0))))"

subsection \<open>The simplified predictor (model-predictor-simple.py)\<close>

text \<open>
  \<^verbatim>\<open>hash_string\<close>. Python's ints are unbounded, so \<^verbatim>\<open>hash_val & hash_val\<close> leaves the
  value as it is.
\<close>

definition hash_step :: "int \<Rightarrow> char \<Rightarrow> int" where
  "hash_step hash_val c =
     (let hash_val = (push_bit 5 hash_val - hash_val) + of_char c
      in hash_val AND hash_val)"

definition hash_string :: "string \<Rightarrow> int" where
  "hash_string s = \<bar>foldl hash_step 0 s\<bar>"

definition model_adjustments :: "(string \<times> real) list" where
  "model_adjustments = [(''ARIMA'', 0), (''XGBoost'', 5), (''LSTM'', - 2), (''Prophet'', 3)]"

text \<open>\<^verbatim>\<open>base_usage = 100 + (state_seed % 50)\<close> with \<^verbatim>\<open>state_seed = hash_string(state)\<close>\<close>

definition sbase_usage :: "string \<Rightarrow> int" where
  "sbase_usage state = (let state_seed = hash_string state in 100 + (state_seed mod 50))"

text \<open>\<^verbatim>\<open>trend = (90 - i) * 0.1\<close>, the trend line of the historical loop here.\<close>

definition shistorical_trend :: "int \<Rightarrow> real" where
  "shistorical_trend i = of_int (90 - i) * 0.1"

text \<open>The bodies of the two loops of \<^verbatim>\<open>generate_prediction\<close>.\<close>

definition shistorical_point ::
  "world \<Rightarrow> int \<Rightarrow> datetime \<Rightarrow> int \<Rightarrow> nat \<Rightarrow> exn + series_point" where
  "shistorical_point w base today i k =
     (case sub_days today i of
        Inl e \<Rightarrow> Inl e
      | Inr d \<Rightarrow>
          let day_of_year_hist = tm_yday d;
              seasonality_hist = seasonality day_of_year_hist;
              trend = shistorical_trend i;
              noise = (uniform w k - 0.5) * 10;
              usage = of_int base + trend + seasonality_hist + noise;
              usage = max 0 (round2 (usage + 300))
          in Inr \<lparr>date = ordinal d, usage = usage\<rparr>)"

definition sforecast_point ::
  "world \<Rightarrow> int \<Rightarrow> datetime \<Rightarrow> int \<Rightarrow> nat \<Rightarrow> exn + series_point" where
  "sforecast_point w base pred_date i k =
     (case add_days pred_date i of
        Inl e \<Rightarrow> Inl e
      | Inr d \<Rightarrow>
          let day_of_year_forecast = tm_yday d;
              seasonality_forecast = seasonality day_of_year_forecast;
              trend_forecast = of_int i * 0.1;
              noise_forecast = (uniform w k - 0.5) * 5;
              usage = of_int base + trend_forecast + seasonality_forecast + noise_forecast;
              usage = max 0 (round2 (usage + 300))
          in Inr \<lparr>date = ordinal d, usage = usage\<rparr>)"

text \<open>\<^verbatim>\<open>generate_prediction\<close>; it catches nothing, an exception leaves it as raised.\<close>

definition generate_prediction ::
  "world \<Rightarrow> string \<Rightarrow> real \<Rightarrow> real \<Rightarrow> string \<Rightarrow> string \<Rightarrow> proc
     \<Rightarrow> (exn + real list prediction) \<times> proc" where
  "generate_prediction w state lat lon prediction_date mtype p =
     (case parse_date w prediction_date of
        Inl e \<Rightarrow> (Inl e, p)
      | Inr pred_date \<Rightarrow>
          let today = clock w (clock_pos p);
              p1 = p\<lparr>clock_pos := Suc (clock_pos p)\<rparr>;
              days_ahead = timedelta_days pred_date today;
              base = sbase_usage state;
              day_of_year = tm_yday pred_date;
              month = dt_month pred_date;
              day_of_week = weekday pred_date;
              seasonal = seasonality day_of_year;
              monthly_pattern = 10 * sin (2 * pi * of_int month / 12);
              weekly_pattern = 5 * sin (2 * pi * of_int day_of_week / 7);
              lat_adjustment = (lat - 20) * 0.5;
              lon_adjustment = (lon - 78) * 0.3;
              model_adjustment =
                (case map_of model_adjustments mtype of None \<Rightarrow> 0 | Some a \<Rightarrow> a);
              predicted = of_int base + seasonal + monthly_pattern + weekly_pattern
                          + lat_adjustment + lon_adjustment + model_adjustment
                          + (uniform w (rng_pos p1) - 0.5) * 10;
              predicted = max 0 (round2 (predicted + 300))
          in
     (case series_loop (shistorical_point w base today) (range_down 90)
             (Suc (rng_pos p1)) [] of
        (Inl e, k2) \<Rightarrow> (Inl e, p1\<lparr>rng_pos := k2\<rparr>)
      | (Inr hist, k2) \<Rightarrow>
     (case series_loop (sforecast_point w base pred_date) (range_up (max 1 days_ahead))
             k2 [] of
        (Inl e, k3) \<Rightarrow> (Inl e, p1\<lparr>rng_pos := k3\<rparr>)
      | (Inr fc, k3) \<Rightarrow>
          (Inr \<lparr>predicted_usage = predicted,
                model_type = mtype,
                historical_data = hist,
                forecast_data = fc,
                features_used =
                  [of_int (dt_year pred_date), of_int month, of_int (dt_day pred_date),
                   of_int day_of_week, of_int day_of_year, lat, lon]\<rparr>,
           p1\<lparr>rng_pos := k3\<rparr>))))"

subsection \<open>The calls a process makes on one predictor\<close>

text \<open>
  A process calls \<^verbatim>\<open>_load_model\<close> and \<^verbatim>\<open>predict\<close> on its predictor any number of times,
  each call in the surroundings of its moment (files may appear and disappear between
  calls). \<open>run_call\<close> is the state of the predictor after one such call on a
  ModelPredictor, whether the call returned or raised, \<open>arun_call\<close> the same on an
  AdvancedModelPredictor; \<open>fold run_call calls p\<close> is the state after the calls of a list,
  in order.
\<close>

datatype call =
    Load_model world string string
  | Predict world string real real string string

fun run_call :: "call \<Rightarrow> proc \<Rightarrow> proc" where
  "run_call (Load_model w state mtype) p = snd (load_model w state mtype p)"
| "run_call (Predict w state lat lon prediction_date mtype) p
     = snd (predict w state lat lon prediction_date mtype p)"

fun arun_call :: "call \<Rightarrow> proc \<Rightarrow> proc" where
  "arun_call (Load_model w state mtype) p = snd (aload_model w state mtype p)"
| "arun_call (Predict w state lat lon prediction_date mtype) p
     = snd (apredict w state lat lon prediction_date mtype p)"

subsection \<open>The formula of the specification, and the examples' surroundings\<close>

text \<open>
  The specification's Seasonal Synthesizer, in its words:
  \<open>baseUsage + trend + seasonality + noise\<close>, floored at 0 and rounded to 2 decimal places.
\<close>

definition spec_usage :: "real \<Rightarrow> real \<Rightarrow> real \<Rightarrow> real \<Rightarrow> real" where
  "spec_usage base trend seasonal noise = round2 (max 0 (base + trend + seasonal + noise))"

text \<open>The value a call returned, \<open>None\<close> when it raised.\<close>

definition result_of :: "(exn + 'a) \<times> proc \<Rightarrow> 'a option" where
  "result_of x = (case fst x of Inl e \<Rightarrow> None | Inr r \<Rightarrow> Some r)"

text \<open>
  A concrete world for the examples: the artifacts of Goa are stored, every artifact loads
  and predicts 250, the interpreter hashes every string to -7412, two dates parse
  (2024-12-01 is day 739221, 2024-01-11 is day 738896), the clock stands at noon of
  2024-01-01 (day 738886), and the random draws are all 0.
\<close>

definition example_files :: "string list" where
  "example_files =
     [''models/Goa_arima_model.joblib'', ''models/Goa_xgboost_model.joblib'',
      ''models/Goa_lstm_model.h5'', ''models/Goa_prophet_model.joblib'',
      ''models/Goa_unsupported_model.joblib'']"

definition example_strptime :: "string \<Rightarrow> string + int" where
  "example_strptime s =
     (if s = ''2024-12-01'' then Inr 739221
      else if s = ''2024-01-11'' then Inr 738896
      else Inl ''time data does not match format'')"

definition example_request :: request where
  "example_request =
     \<lparr>req_state = ''Goa'', req_lat = 15.3, req_lon = 74.1,
      req_prediction_date = ''2024-12-01'', req_model_type = ''Unsupported''\<rparr>"

definition example_world :: world where
  "example_world =
     \<lparr>path_exists = (\<lambda>path. path \<in> set example_files),
      joblib_load = (\<lambda>path. Inr 0),
      has_predict = (\<lambda>h. True),
      model_predict = (\<lambda>h features. Some 250),
      py_hash = (\<lambda>s. - 7412),
      strptime = example_strptime,
      clock = (\<lambda>n. \<lparr>ordinal = 738886, micros = 43200000000\<rparr>),
      std_normal = (\<lambda>n. 0),
      uniform = (\<lambda>n. 1 / 2),
      TENSORFLOW_AVAILABLE = True,
      JOBLIB_AVAILABLE = True,
      parse_request = (\<lambda>s. if s = ''REQUEST'' then Inr example_request
                            else Inl ''Expecting value''),
      json_dumps_error = (\<lambda>r. None)\<rparr>"

text \<open>The same world with an empty artifact store.\<close>

definition empty_store_world :: world where
  "empty_store_world = example_world\<lparr>path_exists := (\<lambda>path. False)\<rparr>"

text \<open>The same world where joblib fails on every file.\<close>

definition broken_joblib_world :: world where
  "broken_joblib_world = example_world\<lparr>joblib_load := (\<lambda>path. Inl ''invalid load key'')\<rparr>"

text \<open>The same world without TensorFlow.\<close>

definition no_tensorflow_world :: world where
  "no_tensorflow_world = example_world\<lparr>TENSORFLOW_AVAILABLE := False\<rparr>"

text \<open>
  The same world where each normal draw cancels the seasonal term of day-of-year \<open>d\<close>
  at noise scale \<open>s\<close>.
\<close>

definition cancelling_world :: "int \<Rightarrow> real \<Rightarrow> world" where
  "cancelling_world d s = example_world\<lparr>std_normal := (\<lambda>n. - seasonality d / s)\<rparr>"

definition example_proc :: proc where
  "example_proc = new_predictor 0 0"

text \<open>
  Calls made between two loads of the XGBoost artifact of Goa: a load of another key, a
  prediction, and a load of the same key while the store is empty.
\<close>

definition example_calls :: "call list" where
  "example_calls =
     [Load_model example_world ''Goa'' ''ARIMA'',
      Predict example_world ''Goa'' 15.3 74.1 ''2024-12-01'' ''LSTM'',
      Load_model empty_store_world ''Goa'' ''XGBoost'']"

section \<open>Properties\<close>

subsection \<open>Base usage\<close>

lemma base_usage_eq: "base_usage w region = 100 + ((py_hash w region mod 1000) mod 50)"
  by (simp add: base_usage_def)

lemma hash_step_eq: "hash_step h c = 31 * h + of_char c"
  by (simp add: hash_step_def push_bit_eq_mult)

lemma sbase_usage_eq: "sbase_usage region = 100 + ((hash_string region mod 1000) mod 50)"
proof -
  have "(50::int) dvd 1000" by simp
  then have "(hash_string region mod 1000) mod 50 = hash_string region mod 50"
    by (rule mod_mod_cancel)
  then show ?thesis by (simp add: sbase_usage_def)
qed

text \<open>
  C10. For every region string the base usage is the integer
  \<open>100 + ((hash mod 1000) mod 50)\<close>, between 100 and 149, in both classes (with the
  interpreter's hash) and in the simplified predictor (with \<open>hash_string\<close>, where the
  source omits \<open>mod 1000\<close>, which changes nothing since 50 divides 1000). It is a function
  of the region string and the hash alone: the file system, the clock and the random
  streams do not enter. So the noise-free part of a synthesized value is at least 100 plus
  the trend and seasonality terms.
\<close>

theorem base_usage_range:
  "base_usage w region = 100 + ((py_hash w region mod 1000) mod 50)
   \<and> 100 \<le> base_usage w region \<and> base_usage w region \<le> 149
   \<and> sbase_usage region = 100 + ((hash_string region mod 1000) mod 50)
   \<and> 100 \<le> sbase_usage region \<and> sbase_usage region \<le> 149
   \<and> base_usage (w\<lparr>path_exists := ex, clock := c, std_normal := z, uniform := u\<rparr>) region
       = base_usage w region
   \<and> 100 + trend + seasonality d \<le> of_int (base_usage w region) + trend + seasonality d
   \<and> 100 + trend + seasonality d \<le> of_int (sbase_usage region) + trend + seasonality d"
proof -
  have a: "100 \<le> base_usage w region" "base_usage w region \<le> 149"
    by (simp_all add: base_usage_def)
  have b: "100 \<le> sbase_usage region" "sbase_usage region \<le> 149"
    by (simp_all add: sbase_usage_def)
  have c: "base_usage (w\<lparr>path_exists := ex, clock := c, std_normal := z, uniform := u\<rparr>) region
       = base_usage w region"
    by (simp add: base_usage_def)
  have d: "(100::real) \<le> of_int (base_usage w region)" using a(1) by linarith
  have e: "(100::real) \<le> of_int (sbase_usage region)" using b(1) by linarith
  show ?thesis using a b c d e base_usage_eq sbase_usage_eq by simp
qed

subsection \<open>The series loop\<close>

lemma series_loop_Inr:
  "series_loop body xs k acc = (Inr pts, k') \<Longrightarrow>
     length pts = length acc + length xs \<and> k' = k + length xs \<and> take (length acc) pts = acc
     \<and> (\<forall>j < length xs. body (xs ! j) (k + j) = Inr (pts ! (length acc + j)))"
proof (induction xs arbitrary: k acc)
  case Nil
  then show ?case by simp
next
  case (Cons i xs)
  from Cons.prems obtain pt where pt: "body i k = Inr pt"
    and rest: "series_loop body xs (Suc k) (acc @ [pt]) = (Inr pts, k')"
    by (auto split: sum.splits)
  note ih = Cons.IH [OF rest]
  have len: "length pts = length acc + length (i # xs)" using ih by simp
  have k': "k' = k + length (i # xs)" using ih by simp
  have tk: "take (Suc (length acc)) pts = acc @ [pt]" using ih by simp
  have tk': "take (length acc) pts = acc"
  proof -
    have "take (length acc) (take (Suc (length acc)) pts) = take (length acc) (acc @ [pt])"
      using tk by simp
    then show ?thesis by (simp add: min_def)
  qed
  have hd: "pts ! length acc = pt"
  proof -
    have "take (Suc (length acc)) pts ! length acc = (acc @ [pt]) ! length acc"
      using tk by simp
    then show ?thesis by simp
  qed
  have body: "\<forall>j < length (i # xs). body ((i # xs) ! j) (k + j) = Inr (pts ! (length acc + j))"
  proof (intro allI impI)
    fix j assume j: "j < length (i # xs)"
    show "body ((i # xs) ! j) (k + j) = Inr (pts ! (length acc + j))"
    proof (cases j)
      case 0
      then show ?thesis using pt hd by simp
    next
      case (Suc j')
      then have "j' < length xs" using j by simp
      then have "body (xs ! j') (Suc k + j') = Inr (pts ! (length (acc @ [pt]) + j'))"
        using ih by blast
      then show ?thesis using Suc by simp
    qed
  qed
  from len k' tk' body show ?case by blast
qed

lemma series_loop_points:
  assumes "series_loop body xs k [] = (Inr pts, k')"
  shows "length pts = length xs" and "k' = k + length xs"
    and "\<And>j. j < length xs \<Longrightarrow> body (xs ! j) (k + j) = Inr (pts ! j)"
  using series_loop_Inr [OF assms] by simp_all

lemma series_loop_succeeds:
  "(\<And>i n. i \<in> set xs \<Longrightarrow> \<exists>pt. body i n = Inr pt) \<Longrightarrow>
     \<exists>pts. series_loop body xs k acc = (Inr pts, k + length xs)"
proof (induction xs arbitrary: k acc)
  case Nil
  then show ?case by simp
next
  case (Cons i xs)
  from Cons.prems [of i k] obtain pt where pt: "body i k = Inr pt" by auto
  have "\<exists>pts. series_loop body xs (Suc k) (acc @ [pt]) = (Inr pts, Suc k + length xs)"
    by (rule Cons.IH) (simp add: Cons.prems)
  then show ?case using pt by simp
qed

subsection \<open>Region name normaliser\<close>

lemma model_state_unmapped:
  "state \<notin> fst ` set state_mapping \<Longrightarrow> model_state state = state"
proof -
  assume "state \<notin> fst ` set state_mapping"
  then have "map_of state_mapping state = None"
    by (simp only: map_of_eq_None_iff not_False_eq_True)
  then show ?thesis by (simp add: model_state_def)
qed

lemma model_state_codes:
  "c \<in> snd ` set state_mapping \<Longrightarrow> model_state c = c"
  by (auto simp: model_state_def state_mapping_def)

text \<open>
  C9. The region name normaliser is idempotent; every label that is not a key of the
  six-entry table is a fixed point, and each of the six codes the table produces
  (DNH, HP, J&K, MP, Pondy, UP) is a fixed point.
\<close>

theorem normalize_idempotent:
  "model_state (model_state x) = model_state x
   \<and> (x \<notin> fst ` set state_mapping \<longrightarrow> model_state x = x)
   \<and> snd ` set state_mapping = {''DNH'', ''HP'', ''J&K'', ''MP'', ''Pondy'', ''UP''}
   \<and> (\<forall>c \<in> snd ` set state_mapping. model_state c = c)"
proof -
  have idem: "model_state (model_state x) = model_state x"
  proof (cases "map_of state_mapping x")
    case None
    then show ?thesis by (simp add: model_state_def)
  next
    case (Some c)
    then have "(x, c) \<in> set state_mapping" by (rule map_of_SomeD)
    then have "c \<in> snd ` set state_mapping" by (rule image_eqI [rotated, where f=snd]) simp
    then have "model_state c = c" by (rule model_state_codes)
    with Some show ?thesis by (simp add: model_state_def)
  qed
  have codes: "snd ` set state_mapping = {''DNH'', ''HP'', ''J&K'', ''MP'', ''Pondy'', ''UP''}"
    by (simp add: state_mapping_def)
  have unmapped: "x \<notin> fst ` set state_mapping \<longrightarrow> model_state x = x"
    using model_state_unmapped by (rule impI)
  have fixed: "\<forall>c \<in> snd ` set state_mapping. model_state c = c"
    using model_state_codes by (rule ballI)
  from idem unmapped codes fixed show ?thesis by (intro conjI)
qed

theorem normalize_idempotent_witness:
  "model_state (model_state ''Madhya Pradesh (MP)'') = model_state ''Madhya Pradesh (MP)''
   \<and> model_state ''Madhya Pradesh (MP)'' = ''MP''
   \<and> ''Goa'' \<notin> fst ` set state_mapping \<and> model_state ''Goa'' = ''Goa''
   \<and> ''MP'' \<in> snd ` set state_mapping \<and> model_state ''MP'' = ''MP''"
proof -
  have a: "''Goa'' \<notin> fst ` set state_mapping" by (simp add: state_mapping_def)
  have b: "''MP'' \<in> snd ` set state_mapping" by (simp add: state_mapping_def)
  have c: "model_state ''Madhya Pradesh (MP)'' = ''MP''"
    by (simp add: model_state_def state_mapping_def)
  note at_mp = normalize_idempotent [of "''Madhya Pradesh (MP)''"]
  note at_goa = normalize_idempotent [of "''Goa''"]
  have d: "model_state (model_state ''Madhya Pradesh (MP)'') = model_state ''Madhya Pradesh (MP)''"
    using at_mp by (rule conjunct1)
  have e: "model_state ''Goa'' = ''Goa''"
    using at_goa [THEN conjunct2, THEN conjunct1] a by (rule mp)
  have f: "model_state ''MP'' = ''MP''"
    using at_mp [THEN conjunct2, THEN conjunct2, THEN conjunct2] b by (rule bspec)
  from d c a e b f show ?thesis by (intro conjI)
qed

subsection \<open>Rounding, dates and the generated series\<close>

lemma round_half_even_of_int: "round_half_even (of_int n) = n"
  by (simp add: round_half_even_def)

lemma round_half_even_ge_floor: "\<lfloor>y\<rfloor> \<le> round_half_even y"
  by (simp add: round_half_even_def Let_def)

lemma round_half_even_nonneg: "0 \<le> y \<Longrightarrow> 0 \<le> round_half_even y"
proof -
  assume "0 \<le> y"
  then have "0 \<le> \<lfloor>y\<rfloor>" by simp
  then show ?thesis using round_half_even_ge_floor [of y] by linarith
qed

lemma round_half_even_nonpos: "y \<le> 0 \<Longrightarrow> round_half_even y \<le> 0"
proof (cases "y = 0")
  case True
  then show ?thesis by (simp add: round_half_even_def)
next
  case False
  assume "y \<le> 0"
  with False have "y < 0" by simp
  then have "\<lfloor>y\<rfloor> < 0" by (simp only: floor_less_zero)
  then have "\<lfloor>y\<rfloor> + 1 \<le> 0" by linarith
  moreover have "round_half_even y \<le> \<lfloor>y\<rfloor> + 1"
    by (simp add: round_half_even_def Let_def)
  ultimately show ?thesis by linarith
qed

lemma round2_nonneg: "0 \<le> x \<Longrightarrow> 0 \<le> round2 x"
  by (simp add: round2_def round_half_even_nonneg)

lemma round2_nonpos: "x \<le> 0 \<Longrightarrow> round2 x \<le> 0"
proof -
  assume "x \<le> 0"
  then have "x * 100 \<le> 0" by simp
  then have "round_half_even (x * 100) \<le> 0" by (rule round_half_even_nonpos)
  then have "(of_int (round_half_even (x * 100)) :: real) \<le> 0" by simp
  then show ?thesis by (simp add: round2_def divide_le_0_iff)
qed

lemma round2_zero: "round2 0 = 0"
  by (simp add: round2_def round_half_even_def)

lemma round2_idem: "round2 (round2 x) = round2 x"
  by (simp add: round2_def round_half_even_of_int)

lemma max_round2: "max 0 (round2 x) = round2 (max 0 x)"
proof (cases "0 \<le> x")
  case True
  then show ?thesis using round2_nonneg [of x] by (simp add: max_def)
next
  case False
  then have "x \<le> 0" by simp
  then show ?thesis using round2_nonpos [of x] by (simp add: max_def round2_zero)
qed

lemma round2_max_nonneg: "0 \<le> round2 (max 0 x)"
  by (rule round2_nonneg) simp

lemma add_days_Inr: "add_days t n = Inr d \<Longrightarrow> d = t\<lparr>ordinal := ordinal t + n\<rparr>"
  by (auto simp: add_days_def Let_def split: if_splits)

lemma sub_days_Inr: "sub_days t n = Inr d \<Longrightarrow> d = t\<lparr>ordinal := ordinal t - n\<rparr>"
  by (auto simp: sub_days_def dest: add_days_Inr)

lemma add_days_succeeds:
  "0 < ordinal t + n \<Longrightarrow> ordinal t + n \<le> MAXORDINAL \<Longrightarrow> \<exists>d. add_days t n = Inr d"
  by (simp add: add_days_def)

lemma historical_point_Inr:
  "historical_point w base today i k = Inr pt \<Longrightarrow>
     date pt = ordinal today - i
     \<and> usage pt = spec_usage (of_int base) (historical_trend i)
                    (seasonality (tm_yday (today\<lparr>ordinal := ordinal today - i\<rparr>)))
                    (5 * std_normal w k)"
  by (auto simp: historical_point_def spec_usage_def random_normal_def Let_def
           split: sum.splits dest!: sub_days_Inr)

lemma ahistorical_point_eq: "ahistorical_point = historical_point"
  by (intro ext) (simp add: ahistorical_point_def historical_point_def max_round2 Let_def split: sum.splits)

lemma forecast_point_Inr:
  "forecast_point w base pred_date i k = Inr pt \<Longrightarrow>
     date pt = ordinal pred_date + i
     \<and> usage pt = spec_usage (of_int base) (of_int i * 0.1)
                    (seasonality (tm_yday (pred_date\<lparr>ordinal := ordinal pred_date + i\<rparr>)))
                    (3 * std_normal w k)"
  by (auto simp: forecast_point_def spec_usage_def random_normal_def Let_def
           split: sum.splits dest!: add_days_Inr)

lemma aforecast_point_eq: "aforecast_point = forecast_point"
  by (intro ext) (simp add: aforecast_point_def forecast_point_def max_round2 Let_def split: sum.splits)

lemma agenerate_historical_data_eq: "agenerate_historical_data = generate_historical_data"
  by (intro ext) (simp add: agenerate_historical_data_def generate_historical_data_def ahistorical_point_eq)

lemma agenerate_forecast_data_eq: "agenerate_forecast_data = generate_forecast_data"
  by (intro ext) (simp add: agenerate_forecast_data_def generate_forecast_data_def aforecast_point_eq split: sum.splits)

lemma shistorical_point_Inr:
  "shistorical_point w base today i k = Inr pt \<Longrightarrow>
     date pt = ordinal today - i
     \<and> usage pt = spec_usage (of_int base + 300) (shistorical_trend i)
                    (seasonality (tm_yday (today\<lparr>ordinal := ordinal today - i\<rparr>)))
                    ((uniform w k - 0.5) * 10)"
  by (auto simp: shistorical_point_def spec_usage_def max_round2 Let_def add_ac
           split: sum.splits dest!: sub_days_Inr)

lemma length_range_down: "length (range_down days) = nat days"
  by (simp add: range_down_def)

lemma length_range_up: "length (range_up n) = nat n"
  by (simp add: range_up_def)

lemma nth_range_up: "j < nat n \<Longrightarrow> range_up n ! j = 1 + int j"
  by (simp add: range_up_def)

lemma nth_range_down: "j < nat days \<Longrightarrow> range_down days ! j = days - int j"
proof -
  assume j: "j < nat days"
  then have "rev [1..days] ! j = [1..days] ! (length [1..days] - Suc j)"
    by (simp add: rev_nth)
  also have "\<dots> = [1..days] ! (nat days - Suc j)" by simp
  also have "\<dots> = 1 + int (nat days - Suc j)"
  proof (rule nth_upto)
    show "1 + int (nat days - Suc j) \<le> days" using j by linarith
  qed
  also have "\<dots> = days - int j" using j by linarith
  finally show ?thesis by (simp add: range_down_def)
qed

lemma set_range_down: "set (range_down days) = {1..days}"
  by (simp add: range_down_def)

lemma set_range_up: "set (range_up n) = {1..n}"
  by (simp add: range_up_def)

lemma generate_historical_data_Inr:
  assumes "generate_historical_data w state days p = (Inr hist, p')"
  shows "length hist = nat days"
    and "p' = p\<lparr>clock_pos := Suc (clock_pos p), rng_pos := rng_pos p + nat days\<rparr>"
    and "\<And>j. j < nat days \<Longrightarrow>
           historical_point w (base_usage w state) (clock w (clock_pos p)) (days - int j)
             (rng_pos p + j) = Inr (hist ! j)"
proof -
  obtain k where loop: "series_loop (historical_point w (base_usage w state) (clock w (clock_pos p)))
                  (range_down days) (rng_pos p) [] = (Inr hist, k)"
    and p': "p' = p\<lparr>clock_pos := Suc (clock_pos p), rng_pos := k\<rparr>"
    using assms by (auto simp: generate_historical_data_def Let_def split: prod.splits)
  note pts = series_loop_points [OF loop]
  show "length hist = nat days" using pts(1) by (simp add: length_range_down)
  show "p' = p\<lparr>clock_pos := Suc (clock_pos p), rng_pos := rng_pos p + nat days\<rparr>"
    using p' pts(2) by (simp add: length_range_down)
  show "\<And>j. j < nat days \<Longrightarrow>
           historical_point w (base_usage w state) (clock w (clock_pos p)) (days - int j)
             (rng_pos p + j) = Inr (hist ! j)"
    using pts(3) by (simp add: length_range_down nth_range_down)
qed

lemma generate_forecast_data_Inr:
  assumes "generate_forecast_data w state prediction_date n p = (Inr fc, p')"
  shows "\<exists>t. strptime w prediction_date = Inr t"
    and "length fc = nat n"
    and "p' = p\<lparr>rng_pos := rng_pos p + nat n\<rparr>"
    and "\<And>j t. j < nat n \<Longrightarrow> strptime w prediction_date = Inr t \<Longrightarrow>
           forecast_point w (base_usage w state) \<lparr>ordinal = t, micros = 0\<rparr> (1 + int j)
             (rng_pos p + j) = Inr (fc ! j)"
proof -
  obtain t k where t: "strptime w prediction_date = Inr t"
    and loop: "series_loop (forecast_point w (base_usage w state) \<lparr>ordinal = t, micros = 0\<rparr>)
                  (range_up n) (rng_pos p) [] = (Inr fc, k)"
    and p': "p' = p\<lparr>rng_pos := k\<rparr>"
    using assms
    by (auto simp: generate_forecast_data_def parse_date_def Let_def split: prod.splits sum.splits)
  note pts = series_loop_points [OF loop]
  show "\<exists>t. strptime w prediction_date = Inr t" using t by blast
  show "length fc = nat n" using pts(1) by (simp add: length_range_up)
  show "p' = p\<lparr>rng_pos := rng_pos p + nat n\<rparr>"
    using p' pts(2) by (simp add: length_range_up)
  show "\<And>j t. j < nat n \<Longrightarrow> strptime w prediction_date = Inr t \<Longrightarrow>
           forecast_point w (base_usage w state) \<lparr>ordinal = t, micros = 0\<rparr> (1 + int j)
             (rng_pos p + j) = Inr (fc ! j)"
    using pts(3) t by (simp add: length_range_up nth_range_up)
qed

lemma generate_historical_data_succeeds:
  assumes "days < ordinal (clock w (clock_pos p))" and "ordinal (clock w (clock_pos p)) \<le> MAXORDINAL"
  shows "\<exists>hist p'. generate_historical_data w state days p = (Inr hist, p')"
proof -
  have "\<exists>pt. historical_point w (base_usage w state) (clock w (clock_pos p)) i n = Inr pt"
    if "i \<in> set (range_down days)" for i n
  proof -
    from that have "1 \<le> i" "i \<le> days" by (simp_all add: set_range_down)
    then have "0 < ordinal (clock w (clock_pos p)) + - i"
      and "ordinal (clock w (clock_pos p)) + - i \<le> MAXORDINAL"
      using assms by linarith+
    then obtain d where "add_days (clock w (clock_pos p)) (- i) = Inr d"
      using add_days_succeeds by blast
    then show ?thesis by (simp add: historical_point_def sub_days_def Let_def)
  qed
  then have "\<exists>pts. series_loop (historical_point w (base_usage w state) (clock w (clock_pos p)))
            (range_down days) (rng_pos p) [] = (Inr pts, rng_pos p + length (range_down days))"
    by (rule series_loop_succeeds)
  then show ?thesis by (auto simp: generate_historical_data_def Let_def)
qed

lemma generate_forecast_data_succeeds:
  assumes "strptime w prediction_date = Inr t" and "0 \<le> t" and "t + n \<le> MAXORDINAL"
  shows "\<exists>fc p'. generate_forecast_data w state prediction_date n p = (Inr fc, p')"
proof -
  have "\<exists>pt. forecast_point w (base_usage w state) \<lparr>ordinal = t, micros = 0\<rparr> i k = Inr pt"
    if "i \<in> set (range_up n)" for i k
  proof -
    from that have "1 \<le> i" "i \<le> n" by (simp_all add: set_range_up)
    then have "0 < ordinal \<lparr>ordinal = t, micros = 0\<rparr> + i"
      and "ordinal \<lparr>ordinal = t, micros = 0\<rparr> + i \<le> MAXORDINAL"
      using assms by simp_all
    then obtain d where "add_days \<lparr>ordinal = t, micros = 0\<rparr> i = Inr d"
      using add_days_succeeds by blast
    then show ?thesis by (simp add: forecast_point_def Let_def)
  qed
  then have "\<exists>pts. series_loop (forecast_point w (base_usage w state) \<lparr>ordinal = t, micros = 0\<rparr>)
            (range_up n) (rng_pos p) [] = (Inr pts, rng_pos p + length (range_up n))"
    by (rule series_loop_succeeds)
  then show ?thesis using assms(1)
    by (auto simp: generate_forecast_data_def parse_date_def Let_def)
qed

subsection \<open>What a successful prediction went through, and when a prediction succeeds\<close>

lemma load_model_Inr:
  assumes "load_model w state mtype p = (Inr m, p1)"
  shows "path_exists w (get_model_path (models_dir p) state mtype)"
    and "model_cache p1 (state @ ''_'' @ mtype) = Some m"
    and "rng_pos p1 = rng_pos p" and "clock_pos p1 = clock_pos p"
    and "models_dir p1 = models_dir p"
  using assms
  by (auto simp: load_model_def Let_def split: if_splits option.splits sum.splits)

lemma aload_model_Inr:
  assumes "aload_model w state mtype p = (Inr m, p1)"
  shows "path_exists w (get_model_path (models_dir p) state mtype)"
    and "loaded_models p1 (state @ ''_'' @ mtype) = Some m"
    and "rng_pos p1 = rng_pos p" and "clock_pos p1 = clock_pos p"
    and "models_dir p1 = models_dir p"
  using assms
  by (auto simp: aload_model_def Let_def split: if_splits option.splits sum.splits)

lemma prepare_features_Inr:
  "prepare_features w state lat lon prediction_date = Inr fs \<Longrightarrow>
     \<exists>t. strptime w prediction_date = Inr t"
  by (auto simp: prepare_features_def parse_date_def split: sum.splits)

lemma predict_Inr:
  assumes "predict w state lat lon prediction_date mtype p = (Inr r, p')"
  obtains m p1 features v k hist p2 t fc where
    "load_model w state mtype p = (Inr m, p1)"
    "prepare_features w state lat lon prediction_date = Inr features"
    "point_prediction w state prediction_date mtype m features (rng_pos p1) = (Inr v, k)"
    "generate_historical_data w state 90 (p1\<lparr>rng_pos := k\<rparr>) = (Inr hist, p2)"
    "strptime w prediction_date = Inr t"
    "generate_forecast_data w state prediction_date
       (max 1 (timedelta_days \<lparr>ordinal = t, micros = 0\<rparr> (clock w (clock_pos p2))))
       (p2\<lparr>clock_pos := Suc (clock_pos p2)\<rparr>) = (Inr fc, p')"
    "r = \<lparr>predicted_usage = round2 v, model_type = mtype, historical_data = hist,
          forecast_data = fc, features_used = features\<rparr>"
  using assms unfolding predict_def parse_date_def Let_def
  by (auto split: prod.splits sum.splits)

lemma apredict_Inr:
  assumes "apredict w state lat lon prediction_date mtype p = (Inr r, p')"
  obtains m p1 features v k hist p2 t fc where
    "aload_model w state mtype p = (Inr m, p1)"
    "aprepare_features w state lat lon prediction_date = Inr features"
    "apoint_prediction w state prediction_date mtype m features (rng_pos p1) = (Inr v, k)"
    "generate_historical_data w state 90 (p1\<lparr>rng_pos := k\<rparr>) = (Inr hist, p2)"
    "strptime w prediction_date = Inr t"
    "generate_forecast_data w state prediction_date
       (max 1 (timedelta_days \<lparr>ordinal = t, micros = 0\<rparr> (clock w (clock_pos p2))))
       (p2\<lparr>clock_pos := Suc (clock_pos p2)\<rparr>) = (Inr fc, p')"
    "r = \<lparr>predicted_usage = v, model_type = mtype, historical_data = hist,
          forecast_data = fc, features_used = features, model_loaded = True\<rparr>"
  using assms unfolding apredict_def parse_date_def Let_def
    agenerate_historical_data_eq agenerate_forecast_data_eq
  by (auto split: prod.splits sum.splits)

lemma load_model_succeeds:
  assumes "path_exists w (get_model_path (models_dir p) state mtype)"
    and "model_cache p (state @ ''_'' @ mtype) \<noteq> None \<or> mtype = ''LSTM''
         \<or> (\<exists>h. joblib_load w (get_model_path (models_dir p) state mtype) = Inr h)"
  shows "\<exists>m p1. load_model w state mtype p = (Inr m, p1)"
  using assms by (auto simp: load_model_def Let_def split: option.splits)

lemma aload_model_succeeds:
  assumes "path_exists w (get_model_path (models_dir p) state mtype)"
    and "loaded_models p (state @ ''_'' @ mtype) \<noteq> None
         \<or> (mtype = ''LSTM'' \<and> TENSORFLOW_AVAILABLE w)
         \<or> (mtype \<noteq> ''LSTM'' \<and> JOBLIB_AVAILABLE w
             \<and> (\<exists>h. joblib_load w (get_model_path (models_dir p) state mtype) = Inr h))"
  shows "\<exists>m p1. aload_model w state mtype p = (Inr m, p1)"
  using assms by (auto simp: aload_model_def Let_def split: option.splits)

lemma seasonal_value_Inr:
  "strptime w prediction_date = Inr t \<Longrightarrow>
     seasonal_value w state prediction_date scale k =
       Inr (of_int (base_usage w state) + 0.1
            + seasonality (tm_yday \<lparr>ordinal = t, micros = 0\<rparr>) + scale * std_normal w k)"
  by (simp add: seasonal_value_def parse_date_def random_normal_def Let_def)

lemma point_prediction_succeeds:
  assumes "strptime w prediction_date = Inr t"
    and "mtype \<in> {''ARIMA'', ''XGBoost'', ''LSTM'', ''Prophet''}"
  shows "\<exists>v k. point_prediction w state prediction_date mtype m features n = (Inr v, k)"
  using assms
  by (auto simp: point_prediction_def seasonal_value_Inr split: option.splits)

lemma apoint_prediction_succeeds:
  assumes "strptime w prediction_date = Inr t"
    and "mtype \<in> {''ARIMA'', ''XGBoost'', ''LSTM'', ''Prophet''}"
  shows "\<exists>v k. apoint_prediction w state prediction_date mtype m features n = (Inr v, k)"
  using assms
  by (auto simp: apoint_prediction_def seasonal_value_Inr split: option.splits)

lemma predict_succeeds:
  assumes path: "path_exists w (get_model_path (models_dir p) state mtype)"
    and load: "model_cache p (state @ ''_'' @ mtype) \<noteq> None \<or> mtype = ''LSTM''
         \<or> (\<exists>h. joblib_load w (get_model_path (models_dir p) state mtype) = Inr h)"
    and date: "strptime w prediction_date = Inr t"
    and family: "mtype \<in> {''ARIMA'', ''XGBoost'', ''LSTM'', ''Prophet''}"
    and today: "90 < ordinal (clock w (clock_pos p))"
               "ordinal (clock w (clock_pos p)) \<le> MAXORDINAL"
    and target: "0 \<le> t"
      "t + max 1 (timedelta_days \<lparr>ordinal = t, micros = 0\<rparr> (clock w (Suc (clock_pos p))))
         \<le> MAXORDINAL"
  shows "\<exists>r p'. predict w state lat lon prediction_date mtype p = (Inr r, p')"
proof -
  from load_model_succeeds [OF path load]
  obtain m p1 where l: "load_model w state mtype p = (Inr m, p1)" by blast
  note p1 = load_model_Inr [OF l]
  obtain features where f: "prepare_features w state lat lon prediction_date = Inr features"
    using date by (simp add: prepare_features_def parse_date_def)
  from point_prediction_succeeds [OF date family]
  obtain v k where v: "point_prediction w state prediction_date mtype m features (rng_pos p1)
                         = (Inr v, k)" by blast
  have "\<exists>hist p2. generate_historical_data w state 90 (p1\<lparr>rng_pos := k\<rparr>) = (Inr hist, p2)"
    by (rule generate_historical_data_succeeds) (simp_all add: p1 today)
  then obtain hist p2 where
    h: "generate_historical_data w state 90 (p1\<lparr>rng_pos := k\<rparr>) = (Inr hist, p2)" by blast
  have c2: "clock_pos p2 = Suc (clock_pos p)"
    using generate_historical_data_Inr(2) [OF h] p1 by simp
  have "\<exists>fc p4. generate_forecast_data w state prediction_date
       (max 1 (timedelta_days \<lparr>ordinal = t, micros = 0\<rparr> (clock w (clock_pos p2))))
       (p2\<lparr>clock_pos := Suc (clock_pos p2)\<rparr>) = (Inr fc, p4)"
    using date target unfolding c2 by (rule generate_forecast_data_succeeds)
  then obtain fc p4 where fc: "generate_forecast_data w state prediction_date
       (max 1 (timedelta_days \<lparr>ordinal = t, micros = 0\<rparr> (clock w (clock_pos p2))))
       (p2\<lparr>clock_pos := Suc (clock_pos p2)\<rparr>) = (Inr fc, p4)" by blast
  show ?thesis
    unfolding predict_def using l f v h date fc by (simp add: parse_date_def Let_def)
qed

lemma apredict_succeeds:
  assumes path: "path_exists w (get_model_path (models_dir p) state mtype)"
    and load: "loaded_models p (state @ ''_'' @ mtype) \<noteq> None
         \<or> (mtype = ''LSTM'' \<and> TENSORFLOW_AVAILABLE w)
         \<or> (mtype \<noteq> ''LSTM'' \<and> JOBLIB_AVAILABLE w
             \<and> (\<exists>h. joblib_load w (get_model_path (models_dir p) state mtype) = Inr h))"
    and date: "strptime w prediction_date = Inr t"
    and family: "mtype \<in> {''ARIMA'', ''XGBoost'', ''LSTM'', ''Prophet''}"
    and today: "90 < ordinal (clock w (clock_pos p))"
               "ordinal (clock w (clock_pos p)) \<le> MAXORDINAL"
    and target: "0 \<le> t"
      "t + max 1 (timedelta_days \<lparr>ordinal = t, micros = 0\<rparr> (clock w (Suc (clock_pos p))))
         \<le> MAXORDINAL"
  shows "\<exists>r p'. apredict w state lat lon prediction_date mtype p = (Inr r, p')"
proof -
  from aload_model_succeeds [OF path load]
  obtain m p1 where l: "aload_model w state mtype p = (Inr m, p1)" by blast
  note p1 = aload_model_Inr [OF l]
  obtain features where f: "aprepare_features w state lat lon prediction_date = Inr features"
    using date by (simp add: aprepare_features_def parse_date_def)
  from apoint_prediction_succeeds [OF date family]
  obtain v k where v: "apoint_prediction w state prediction_date mtype m features (rng_pos p1)
                         = (Inr v, k)" by blast
  have "\<exists>hist p2. generate_historical_data w state 90 (p1\<lparr>rng_pos := k\<rparr>) = (Inr hist, p2)"
    by (rule generate_historical_data_succeeds) (simp_all add: p1 today)
  then obtain hist p2 where
    h: "generate_historical_data w state 90 (p1\<lparr>rng_pos := k\<rparr>) = (Inr hist, p2)" by blast
  have c2: "clock_pos p2 = Suc (clock_pos p)"
    using generate_historical_data_Inr(2) [OF h] p1 by simp
  have "\<exists>fc p4. generate_forecast_data w state prediction_date
       (max 1 (timedelta_days \<lparr>ordinal = t, micros = 0\<rparr> (clock w (clock_pos p2))))
       (p2\<lparr>clock_pos := Suc (clock_pos p2)\<rparr>) = (Inr fc, p4)"
    using date target unfolding c2 by (rule generate_forecast_data_succeeds)
  then obtain fc p4 where fc: "generate_forecast_data w state prediction_date
       (max 1 (timedelta_days \<lparr>ordinal = t, micros = 0\<rparr> (clock w (clock_pos p2))))
       (p2\<lparr>clock_pos := Suc (clock_pos p2)\<rparr>) = (Inr fc, p4)" by blast
  show ?thesis
    unfolding apredict_def agenerate_historical_data_eq agenerate_forecast_data_eq
    using l f v h date fc by (simp add: parse_date_def Let_def)
qed

text \<open>The historical series of a successful call, for either class.\<close>

lemma historical_dates:
  assumes "generate_historical_data w state 90 p = (Inr hist, p2)"
  shows "length hist = 90"
    and "map date hist = [ordinal (clock w (clock_pos p)) - 90 .. ordinal (clock w (clock_pos p)) - 1]"
proof -
  note g = generate_historical_data_Inr [OF assms]
  show len: "length hist = 90" using g(1) by simp
  show "map date hist = [ordinal (clock w (clock_pos p)) - 90 .. ordinal (clock w (clock_pos p)) - 1]"
  proof (rule nth_equalityI)
    show "length (map date hist)
          = length [ordinal (clock w (clock_pos p)) - 90 .. ordinal (clock w (clock_pos p)) - 1]"
      using len by simp
  next
    fix j assume "j < length (map date hist)"
    then have j: "j < 90" using len by simp
    then have "historical_point w (base_usage w state) (clock w (clock_pos p)) (90 - int j)
             (rng_pos p + j) = Inr (hist ! j)" using g(3) [of j] by simp
    then have "date (hist ! j) = ordinal (clock w (clock_pos p)) - (90 - int j)"
      using historical_point_Inr by blast
    moreover have "[ordinal (clock w (clock_pos p)) - 90 .. ordinal (clock w (clock_pos p)) - 1] ! j
                   = ordinal (clock w (clock_pos p)) - 90 + int j"
      using j by (intro nth_upto) linarith
    ultimately show "map date hist ! j
        = [ordinal (clock w (clock_pos p)) - 90 .. ordinal (clock w (clock_pos p)) - 1] ! j"
      using j len by simp
  qed
qed

lemma strictly_increasing_upto: "sorted_wrt (<) [i..j::int]"
  by (simp add: strict_sorted_iff)

lemma historical_shape:
  assumes "generate_historical_data w state 90 p = (Inr hist, p2)"
  shows "length hist = 90
     \<and> map date hist = [ordinal (clock w (clock_pos p)) - 90 .. ordinal (clock w (clock_pos p)) - 1]
     \<and> sorted_wrt (<) (map date hist)
     \<and> (\<forall>j. Suc j < 90 \<longrightarrow> date (hist ! Suc j) = date (hist ! j) + 1)
     \<and> date (last hist) = ordinal (clock w (clock_pos p)) - 1"
proof -
  let ?today = "ordinal (clock w (clock_pos p))"
  note d = historical_dates [OF assms]
  have nth: "date (hist ! j) = ?today - 90 + int j" if "j < 90" for j
  proof -
    have "map date hist ! j = [?today - 90 .. ?today - 1] ! j" using d(2) by simp
    moreover have "[?today - 90 .. ?today - 1] ! j = ?today - 90 + int j"
      using that by (intro nth_upto) linarith
    ultimately show ?thesis using that d(1) by simp
  qed
  have sorted: "sorted_wrt (<) (map date hist)"
    unfolding d(2) by (rule strictly_increasing_upto)
  have step: "\<forall>j. Suc j < 90 \<longrightarrow> date (hist ! Suc j) = date (hist ! j) + 1"
    using nth by simp
  have "hist \<noteq> []" using d(1) by auto
  then have "last hist = hist ! 89" using d(1) by (simp add: last_conv_nth)
  then have last: "date (last hist) = ?today - 1" using nth [of 89] by simp
  from d sorted step last show ?thesis by blast
qed

subsection \<open>The example world\<close>

lemma example_lower:
  "lower ''ARIMA'' = ''arima''" "lower ''XGBoost'' = ''xgboost''"
  "lower ''Unsupported'' = ''unsupported''"
  by code_simp+

lemma example_paths:
  "get_model_path ''models'' ''Goa'' ''ARIMA'' = ''models/Goa_arima_model.joblib''"
  "get_model_path ''models'' ''Goa'' ''XGBoost'' = ''models/Goa_xgboost_model.joblib''"
  "get_model_path ''models'' ''Goa'' ''LSTM'' = ''models/Goa_lstm_model.h5''"
  "get_model_path ''models'' ''Goa'' ''Unsupported'' = ''models/Goa_unsupported_model.joblib''"
  by (simp_all add: get_model_path_def os_path_join_def model_state_def state_mapping_def
        example_lower)

lemma example_proc_fields:
  "models_dir example_proc = ''models''" "model_cache example_proc = Map.empty"
  "loaded_models example_proc = Map.empty" "rng_pos example_proc = 0"
  "clock_pos example_proc = 0"
  by (simp_all add: example_proc_def new_predictor_def)

lemma example_world_fields:
  "path_exists example_world path = (path \<in> set example_files)"
  "joblib_load example_world path = Inr 0"
  "strptime example_world = example_strptime"
  "clock example_world n = \<lparr>ordinal = 738886, micros = 43200000000\<rparr>"
  "std_normal example_world n = 0"
  "py_hash example_world s = - 7412"
  "TENSORFLOW_AVAILABLE example_world" "JOBLIB_AVAILABLE example_world"
  by (simp_all add: example_world_def)

lemma example_days_ahead:
  "timedelta_days \<lparr>ordinal = 739221, micros = 0\<rparr> \<lparr>ordinal = 738886, micros = 43200000000\<rparr> = 334"
  "timedelta_days \<lparr>ordinal = 738896, micros = 0\<rparr> \<lparr>ordinal = 738886, micros = 43200000000\<rparr> = 9"
  by (simp_all add: timedelta_days_def US_PER_DAY_def)

lemma example_predict_succeeds:
  "\<exists>r p'. predict example_world ''Goa'' 15.3 74.1 ''2024-12-01'' ''ARIMA'' example_proc = (Inr r, p')"
proof (rule predict_succeeds)
  show "path_exists example_world (get_model_path (models_dir example_proc) ''Goa'' ''ARIMA'')"
    by (simp add: example_proc_fields example_paths example_world_fields example_files_def)
  show "model_cache example_proc (''Goa'' @ ''_'' @ ''ARIMA'') \<noteq> None \<or> ''ARIMA'' = ''LSTM''
      \<or> (\<exists>h. joblib_load example_world (get_model_path (models_dir example_proc) ''Goa'' ''ARIMA'')
             = Inr h)"
    by (simp add: example_world_fields)
  show "strptime example_world ''2024-12-01'' = Inr 739221"
    by (simp add: example_world_fields example_strptime_def)
  show "''ARIMA'' \<in> {''ARIMA'', ''XGBoost'', ''LSTM'', ''Prophet''}" by simp
  show "90 < ordinal (clock example_world (clock_pos example_proc))"
    by (simp add: example_world_fields)
  show "ordinal (clock example_world (clock_pos example_proc)) \<le> MAXORDINAL"
    by (simp add: example_world_fields MAXORDINAL_def)
  show "(0::int) \<le> 739221" by simp
  show "739221 + max 1 (timedelta_days \<lparr>ordinal = 739221, micros = 0\<rparr>
           (clock example_world (Suc (clock_pos example_proc)))) \<le> MAXORDINAL"
    by (simp add: example_world_fields example_days_ahead MAXORDINAL_def)
qed

lemma example_apredict_succeeds:
  "\<exists>r p'. apredict example_world ''Goa'' 15.3 74.1 ''2024-12-01'' ''ARIMA'' example_proc = (Inr r, p')"
proof (rule apredict_succeeds)
  show "path_exists example_world (get_model_path (models_dir example_proc) ''Goa'' ''ARIMA'')"
    by (simp add: example_proc_fields example_paths example_world_fields example_files_def)
  show "loaded_models example_proc (''Goa'' @ ''_'' @ ''ARIMA'') \<noteq> None
      \<or> (''ARIMA'' = ''LSTM'' \<and> TENSORFLOW_AVAILABLE example_world)
      \<or> (''ARIMA'' \<noteq> ''LSTM'' \<and> JOBLIB_AVAILABLE example_world
         \<and> (\<exists>h. joblib_load example_world (get_model_path (models_dir example_proc) ''Goa'' ''ARIMA'')
             = Inr h))"
    by (simp add: example_world_fields)
  show "strptime example_world ''2024-12-01'' = Inr 739221"
    by (simp add: example_world_fields example_strptime_def)
  show "''ARIMA'' \<in> {''ARIMA'', ''XGBoost'', ''LSTM'', ''Prophet''}" by simp
  show "90 < ordinal (clock example_world (clock_pos example_proc))"
    by (simp add: example_world_fields)
  show "ordinal (clock example_world (clock_pos example_proc)) \<le> MAXORDINAL"
    by (simp add: example_world_fields MAXORDINAL_def)
  show "(0::int) \<le> 739221" by simp
  show "739221 + max 1 (timedelta_days \<lparr>ordinal = 739221, micros = 0\<rparr>
           (clock example_world (Suc (clock_pos example_proc)))) \<le> MAXORDINAL"
    by (simp add: example_world_fields example_days_ahead MAXORDINAL_def)
qed

subsection \<open>The historical series\<close>

lemma predict_clock:
  assumes "load_model w state mtype p = (Inr m, p1)"
  shows "clock_pos (p1\<lparr>rng_pos := k\<rparr>) = clock_pos p"
  using load_model_Inr(4) [OF assms] by simp

lemma apredict_clock:
  assumes "aload_model w state mtype p = (Inr m, p1)"
  shows "clock_pos (p1\<lparr>rng_pos := k\<rparr>) = clock_pos p"
  using aload_model_Inr(4) [OF assms] by simp

text \<open>
  C6. A prediction that returns a result, from either class, carries a historical series of
  exactly 90 points; their dates are the 90 consecutive days that end the day before
  today (the day the clock shows when the series is generated), in strictly increasing
  order.
\<close>

theorem historical_series_90_days:
  "(predict w state lat lon prediction_date mtype p = (Inr r, p') \<longrightarrow>
      length (historical_data r) = 90
      \<and> map date (historical_data r)
          = [ordinal (clock w (clock_pos p)) - 90 .. ordinal (clock w (clock_pos p)) - 1]
      \<and> sorted_wrt (<) (map date (historical_data r))
      \<and> (\<forall>j. Suc j < 90 \<longrightarrow>
            date (historical_data r ! Suc j) = date (historical_data r ! j) + 1)
      \<and> date (last (historical_data r)) = ordinal (clock w (clock_pos p)) - 1)
   \<and> (apredict w state lat lon prediction_date mtype p = (Inr ar, ap') \<longrightarrow>
      length (historical_data ar) = 90
      \<and> map date (historical_data ar)
          = [ordinal (clock w (clock_pos p)) - 90 .. ordinal (clock w (clock_pos p)) - 1]
      \<and> sorted_wrt (<) (map date (historical_data ar))
      \<and> (\<forall>j. Suc j < 90 \<longrightarrow>
            date (historical_data ar ! Suc j) = date (historical_data ar ! j) + 1)
      \<and> date (last (historical_data ar)) = ordinal (clock w (clock_pos p)) - 1)"
proof (intro conjI impI)
  assume a: "predict w state lat lon prediction_date mtype p = (Inr r, p')"
  from a obtain m p1 k hist p2
    where l: "load_model w state mtype p = (Inr m, p1)"
      and h: "generate_historical_data w state 90 (p1\<lparr>rng_pos := k\<rparr>) = (Inr hist, p2)"
      and r: "historical_data r = hist"
    by (rule predict_Inr) simp
  note s = historical_shape [OF h, unfolded predict_clock [OF l], folded r]
  show "length (historical_data r) = 90" using s by blast
  show "map date (historical_data r)
          = [ordinal (clock w (clock_pos p)) - 90 .. ordinal (clock w (clock_pos p)) - 1]"
    using s by blast
  show "sorted_wrt (<) (map date (historical_data r))" using s by blast
  show "\<forall>j. Suc j < 90 \<longrightarrow> date (historical_data r ! Suc j) = date (historical_data r ! j) + 1"
    using s by blast
  show "date (last (historical_data r)) = ordinal (clock w (clock_pos p)) - 1" using s by blast
next
  assume a: "apredict w state lat lon prediction_date mtype p = (Inr ar, ap')"
  from a obtain m p1 k hist p2
    where l: "aload_model w state mtype p = (Inr m, p1)"
      and h: "generate_historical_data w state 90 (p1\<lparr>rng_pos := k\<rparr>) = (Inr hist, p2)"
      and r: "historical_data ar = hist"
    by (rule apredict_Inr) simp
  note s = historical_shape [OF h, unfolded apredict_clock [OF l], folded r]
  show "length (historical_data ar) = 90" using s by blast
  show "map date (historical_data ar)
          = [ordinal (clock w (clock_pos p)) - 90 .. ordinal (clock w (clock_pos p)) - 1]"
    using s by blast
  show "sorted_wrt (<) (map date (historical_data ar))" using s by blast
  show "\<forall>j. Suc j < 90 \<longrightarrow> date (historical_data ar ! Suc j) = date (historical_data ar ! j) + 1"
    using s by blast
  show "date (last (historical_data ar)) = ordinal (clock w (clock_pos p)) - 1" using s by blast
qed

theorem historical_series_90_days_witness:
  "\<exists>r p' ar ap'.
     predict example_world ''Goa'' 15.3 74.1 ''2024-12-01'' ''ARIMA'' example_proc = (Inr r, p')
     \<and> apredict example_world ''Goa'' 15.3 74.1 ''2024-12-01'' ''ARIMA'' example_proc = (Inr ar, ap')
     \<and> length (historical_data r) = 90
     \<and> map date (historical_data r) = [738796 .. 738885]
     \<and> date (last (historical_data r)) = 738885
     \<and> length (historical_data ar) = 90
     \<and> map date (historical_data ar) = [738796 .. 738885]
     \<and> date (last (historical_data ar)) = 738885"
proof -
  obtain r p' where
    r: "predict example_world ''Goa'' 15.3 74.1 ''2024-12-01'' ''ARIMA'' example_proc = (Inr r, p')"
    using example_predict_succeeds by blast
  obtain ar ap' where
    ar: "apredict example_world ''Goa'' 15.3 74.1 ''2024-12-01'' ''ARIMA'' example_proc = (Inr ar, ap')"
    using example_apredict_succeeds by blast
  note t = historical_series_90_days [of example_world "''Goa''" "15.3" "74.1" "''2024-12-01''"
      "''ARIMA''" example_proc r p' ar ap']
  have today: "ordinal (clock example_world (clock_pos example_proc)) = 738886"
    by (simp add: example_world_fields)
  from t r ar have
    "length (historical_data r) = 90
     \<and> map date (historical_data r) = [738796 .. 738885]
     \<and> date (last (historical_data r)) = 738885
     \<and> length (historical_data ar) = 90
     \<and> map date (historical_data ar) = [738796 .. 738885]
     \<and> date (last (historical_data ar)) = 738885"
    unfolding today by simp
  with r ar show ?thesis by blast
qed

subsection \<open>The forecast series\<close>

lemma forecast_shape:
  assumes g: "generate_forecast_data w state prediction_date n p = (Inr fc, p')"
    and t: "strptime w prediction_date = Inr t"
  shows "length fc = nat n" and "map date fc = [t + 1 .. t + n]"
proof -
  note f = generate_forecast_data_Inr [OF g]
  show len: "length fc = nat n" by (rule f(2))
  show "map date fc = [t + 1 .. t + n]"
  proof (rule nth_equalityI)
    show "length (map date fc) = length [t + 1 .. t + n]" using len by simp
  next
    fix j assume "j < length (map date fc)"
    then have j: "j < nat n" using len by simp
    then have "forecast_point w (base_usage w state) \<lparr>ordinal = t, micros = 0\<rparr> (1 + int j)
             (rng_pos p + j) = Inr (fc ! j)" using f(4) t by blast
    then have "date (fc ! j) = ordinal \<lparr>ordinal = t, micros = 0\<rparr> + (1 + int j)"
      using forecast_point_Inr by blast
    moreover have "[t + 1 .. t + n] ! j = t + 1 + int j"
      using j by (intro nth_upto) linarith
    ultimately show "map date fc ! j = [t + 1 .. t + n] ! j"
      using j len by simp
  qed
qed

lemma days_ahead_past:
  assumes "0 \<le> micros now" and "t \<le> ordinal now"
  shows "max 1 (timedelta_days \<lparr>ordinal = t, micros = 0\<rparr> now) = 1"
proof -
  define x where "x = (t * US_PER_DAY + 0) - (ordinal now * US_PER_DAY + micros now)"
  have pos: "0 < US_PER_DAY" by (simp add: US_PER_DAY_def)
  have "t * US_PER_DAY \<le> ordinal now * US_PER_DAY"
    using assms(2) pos by (simp add: mult_right_mono)
  then have "x \<le> 0" using assms(1) by (simp add: x_def)
  then have "x div US_PER_DAY \<le> 0 div US_PER_DAY" using pos by (rule zdiv_mono1)
  then have "timedelta_days \<lparr>ordinal = t, micros = 0\<rparr> now \<le> 0"
    by (simp add: timedelta_days_def x_def)
  then show ?thesis by simp
qed

lemma predict_forecast:
  assumes a: "predict w state lat lon prediction_date mtype p = (Inr r, p')"
    and t: "strptime w prediction_date = Inr t"
  shows "length (forecast_data r)
           = nat (max 1 (timedelta_days \<lparr>ordinal = t, micros = 0\<rparr> (clock w (Suc (clock_pos p)))))"
    and "map date (forecast_data r)
           = [t + 1 .. t + max 1 (timedelta_days \<lparr>ordinal = t, micros = 0\<rparr>
                                    (clock w (Suc (clock_pos p))))]"
proof -
  from a obtain m p1 k hist p2 t' fc
    where l: "load_model w state mtype p = (Inr m, p1)"
      and h: "generate_historical_data w state 90 (p1\<lparr>rng_pos := k\<rparr>) = (Inr hist, p2)"
      and t': "strptime w prediction_date = Inr t'"
      and f: "generate_forecast_data w state prediction_date
       (max 1 (timedelta_days \<lparr>ordinal = t', micros = 0\<rparr> (clock w (clock_pos p2))))
       (p2\<lparr>clock_pos := Suc (clock_pos p2)\<rparr>) = (Inr fc, p')"
      and r: "forecast_data r = fc"
    by (rule predict_Inr) simp
  have tt: "t' = t" using t t' by simp
  have c2: "clock_pos p2 = Suc (clock_pos p)"
    using generate_historical_data_Inr(2) [OF h] load_model_Inr(4) [OF l] by simp
  note s = forecast_shape [OF f t', unfolded tt c2, folded r]
  show "length (forecast_data r)
           = nat (max 1 (timedelta_days \<lparr>ordinal = t, micros = 0\<rparr> (clock w (Suc (clock_pos p)))))"
    by (rule s(1))
  show "map date (forecast_data r)
           = [t + 1 .. t + max 1 (timedelta_days \<lparr>ordinal = t, micros = 0\<rparr>
                                    (clock w (Suc (clock_pos p))))]"
    by (rule s(2))
qed

lemma apredict_forecast:
  assumes a: "apredict w state lat lon prediction_date mtype p = (Inr r, p')"
    and t: "strptime w prediction_date = Inr t"
  shows "length (forecast_data r)
           = nat (max 1 (timedelta_days \<lparr>ordinal = t, micros = 0\<rparr> (clock w (Suc (clock_pos p)))))"
    and "map date (forecast_data r)
           = [t + 1 .. t + max 1 (timedelta_days \<lparr>ordinal = t, micros = 0\<rparr>
                                    (clock w (Suc (clock_pos p))))]"
proof -
  from a obtain m p1 k hist p2 t' fc
    where l: "aload_model w state mtype p = (Inr m, p1)"
      and h: "generate_historical_data w state 90 (p1\<lparr>rng_pos := k\<rparr>) = (Inr hist, p2)"
      and t': "strptime w prediction_date = Inr t'"
      and f: "generate_forecast_data w state prediction_date
       (max 1 (timedelta_days \<lparr>ordinal = t', micros = 0\<rparr> (clock w (clock_pos p2))))
       (p2\<lparr>clock_pos := Suc (clock_pos p2)\<rparr>) = (Inr fc, p')"
      and r: "forecast_data r = fc"
    by (rule apredict_Inr) simp
  have tt: "t' = t" using t t' by simp
  have c2: "clock_pos p2 = Suc (clock_pos p)"
    using generate_historical_data_Inr(2) [OF h] aload_model_Inr(4) [OF l] by simp
  note s = forecast_shape [OF f t', unfolded tt c2, folded r]
  show "length (forecast_data r)
           = nat (max 1 (timedelta_days \<lparr>ordinal = t, micros = 0\<rparr> (clock w (Suc (clock_pos p)))))"
    by (rule s(1))
  show "map date (forecast_data r)
           = [t + 1 .. t + max 1 (timedelta_days \<lparr>ordinal = t, micros = 0\<rparr>
                                    (clock w (Suc (clock_pos p))))]"
    by (rule s(2))
qed

lemma example_predict_succeeds_jan:
  "\<exists>r p'. predict example_world ''Goa'' 15.3 74.1 ''2024-01-11'' ''ARIMA'' example_proc = (Inr r, p')"
proof (rule predict_succeeds)
  show "path_exists example_world (get_model_path (models_dir example_proc) ''Goa'' ''ARIMA'')"
    by (simp add: example_proc_fields example_paths example_world_fields example_files_def)
  show "model_cache example_proc (''Goa'' @ ''_'' @ ''ARIMA'') \<noteq> None \<or> ''ARIMA'' = ''LSTM''
      \<or> (\<exists>h. joblib_load example_world (get_model_path (models_dir example_proc) ''Goa'' ''ARIMA'')
             = Inr h)"
    by (simp add: example_world_fields)
  show "strptime example_world ''2024-01-11'' = Inr 738896"
    by (simp add: example_world_fields example_strptime_def)
  show "''ARIMA'' \<in> {''ARIMA'', ''XGBoost'', ''LSTM'', ''Prophet''}" by simp
  show "90 < ordinal (clock example_world (clock_pos example_proc))"
    by (simp add: example_world_fields)
  show "ordinal (clock example_world (clock_pos example_proc)) \<le> MAXORDINAL"
    by (simp add: example_world_fields MAXORDINAL_def)
  show "(0::int) \<le> 738896" by simp
  show "738896 + max 1 (timedelta_days \<lparr>ordinal = 738896, micros = 0\<rparr>
           (clock example_world (Suc (clock_pos example_proc)))) \<le> MAXORDINAL"
    by (simp add: example_world_fields example_days_ahead MAXORDINAL_def)
qed

lemma upto_9: "[738897 .. 738905 :: int]
   = [738897, 738898, 738899, 738900, 738901, 738902, 738903, 738904, 738905]"
  by code_simp

text \<open>
  C4, as the source has it. A prediction that returns a result, from either class, carries
  a forecast series of \<open>N\<close> points dated the \<open>N\<close> consecutive days that follow the
  target date (not today), where \<open>N\<close> is the larger of 1 and the whole days from now to
  the midnight that starts the target date. When the target date is not after today's
  date, the series is the single day after the target date.
\<close>

theorem forecast_series_follows_target:
  "(predict w state lat lon prediction_date mtype p = (Inr r, p')
      \<and> strptime w prediction_date = Inr t \<longrightarrow>
      length (forecast_data r)
        = nat (max 1 (timedelta_days \<lparr>ordinal = t, micros = 0\<rparr> (clock w (Suc (clock_pos p)))))
      \<and> 1 \<le> length (forecast_data r)
      \<and> map date (forecast_data r)
        = [t + 1 .. t + max 1 (timedelta_days \<lparr>ordinal = t, micros = 0\<rparr>
                                 (clock w (Suc (clock_pos p))))]
      \<and> (0 \<le> micros (clock w (Suc (clock_pos p))) \<and> t \<le> ordinal (clock w (Suc (clock_pos p)))
           \<longrightarrow> map date (forecast_data r) = [t + 1]))
   \<and> (apredict w state lat lon prediction_date mtype p = (Inr ar, ap')
      \<and> strptime w prediction_date = Inr t \<longrightarrow>
      length (forecast_data ar)
        = nat (max 1 (timedelta_days \<lparr>ordinal = t, micros = 0\<rparr> (clock w (Suc (clock_pos p)))))
      \<and> 1 \<le> length (forecast_data ar)
      \<and> map date (forecast_data ar)
        = [t + 1 .. t + max 1 (timedelta_days \<lparr>ordinal = t, micros = 0\<rparr>
                                 (clock w (Suc (clock_pos p))))]
      \<and> (0 \<le> micros (clock w (Suc (clock_pos p))) \<and> t \<le> ordinal (clock w (Suc (clock_pos p)))
           \<longrightarrow> map date (forecast_data ar) = [t + 1]))"
proof -
  let ?now = "clock w (Suc (clock_pos p))"
  let ?n = "max 1 (timedelta_days \<lparr>ordinal = t, micros = 0\<rparr> ?now)"
  have shape: "length fc = nat ?n \<and> 1 \<le> length fc \<and> map date fc = [t + 1 .. t + ?n]
     \<and> (0 \<le> micros ?now \<and> t \<le> ordinal ?now \<longrightarrow> map date fc = [t + 1])"
    if len: "length fc = nat ?n" and dates: "map date fc = [t + 1 .. t + ?n]"
    for fc :: "series_point list"
  proof -
    have one: "1 \<le> length fc" using len by simp
    have past: "map date fc = [t + 1]" if "0 \<le> micros ?now \<and> t \<le> ordinal ?now"
    proof -
      from that have "?n = 1" using days_ahead_past by blast
      then show ?thesis using dates by simp
    qed
    from len one dates past show ?thesis by blast
  qed
  have A: "predict w state lat lon prediction_date mtype p = (Inr r, p')
      \<and> strptime w prediction_date = Inr t \<longrightarrow>
      length (forecast_data r) = nat ?n \<and> 1 \<le> length (forecast_data r)
      \<and> map date (forecast_data r) = [t + 1 .. t + ?n]
      \<and> (0 \<le> micros ?now \<and> t \<le> ordinal ?now \<longrightarrow> map date (forecast_data r) = [t + 1])"
  proof
    assume h: "predict w state lat lon prediction_date mtype p = (Inr r, p')
      \<and> strptime w prediction_date = Inr t"
    then have p: "predict w state lat lon prediction_date mtype p = (Inr r, p')"
      and t: "strptime w prediction_date = Inr t" by simp_all
    show "length (forecast_data r) = nat ?n \<and> 1 \<le> length (forecast_data r)
      \<and> map date (forecast_data r) = [t + 1 .. t + ?n]
      \<and> (0 \<le> micros ?now \<and> t \<le> ordinal ?now \<longrightarrow> map date (forecast_data r) = [t + 1])"
      using predict_forecast [OF p t] by (rule shape)
  qed
  have B: "apredict w state lat lon prediction_date mtype p = (Inr ar, ap')
      \<and> strptime w prediction_date = Inr t \<longrightarrow>
      length (forecast_data ar) = nat ?n \<and> 1 \<le> length (forecast_data ar)
      \<and> map date (forecast_data ar) = [t + 1 .. t + ?n]
      \<and> (0 \<le> micros ?now \<and> t \<le> ordinal ?now \<longrightarrow> map date (forecast_data ar) = [t + 1])"
  proof
    assume h: "apredict w state lat lon prediction_date mtype p = (Inr ar, ap')
      \<and> strptime w prediction_date = Inr t"
    then have p: "apredict w state lat lon prediction_date mtype p = (Inr ar, ap')"
      and t: "strptime w prediction_date = Inr t" by simp_all
    show "length (forecast_data ar) = nat ?n \<and> 1 \<le> length (forecast_data ar)
      \<and> map date (forecast_data ar) = [t + 1 .. t + ?n]
      \<and> (0 \<le> micros ?now \<and> t \<le> ordinal ?now \<longrightarrow> map date (forecast_data ar) = [t + 1])"
      using apredict_forecast [OF p t] by (rule shape)
  qed
  from A B show ?thesis by (rule conjI)
qed

theorem forecast_series_follows_target_witness:
  "\<exists>r p' ar ap'.
     predict example_world ''Goa'' 15.3 74.1 ''2024-12-01'' ''ARIMA'' example_proc = (Inr r, p')
     \<and> apredict example_world ''Goa'' 15.3 74.1 ''2024-12-01'' ''ARIMA'' example_proc = (Inr ar, ap')
     \<and> strptime example_world ''2024-12-01'' = Inr 739221
     \<and> length (forecast_data r) = 334
     \<and> map date (forecast_data r) = [739222 .. 739555]
     \<and> length (forecast_data ar) = 334
     \<and> map date (forecast_data ar) = [739222 .. 739555]"
proof -
  obtain r p' where
    r: "predict example_world ''Goa'' 15.3 74.1 ''2024-12-01'' ''ARIMA'' example_proc = (Inr r, p')"
    using example_predict_succeeds by blast
  obtain ar ap' where
    ar: "apredict example_world ''Goa'' 15.3 74.1 ''2024-12-01'' ''ARIMA'' example_proc = (Inr ar, ap')"
    using example_apredict_succeeds by blast
  have t: "strptime example_world ''2024-12-01'' = Inr 739221"
    by (simp add: example_world_fields example_strptime_def)
  note th = forecast_series_follows_target [of example_world "''Goa''" "15.3" "74.1"
      "''2024-12-01''" "''ARIMA''" example_proc r p' 739221 ar ap']
  have n: "max 1 (timedelta_days \<lparr>ordinal = 739221, micros = 0\<rparr>
             (clock example_world (Suc (clock_pos example_proc)))) = 334"
    by (simp add: example_world_fields example_days_ahead)
  from th r ar t have
    "length (forecast_data r) = 334
     \<and> map date (forecast_data r) = [739222 .. 739555]
     \<and> length (forecast_data ar) = 334
     \<and> map date (forecast_data ar) = [739222 .. 739555]"
    unfolding n by simp
  with r ar t show ?thesis by blast
qed

text \<open>
  With the clock at noon of 2024-01-01 and the target date 2024-01-11, the forecast series
  is the nine days 2024-01-12 to 2024-01-20 (days 738897 to 738905): it does not start the
  day after today (day 738887), and it has nine points, not ten.
\<close>

theorem forecast_series_counterexample:
  "map_option (map date \<circ> forecast_data)
     (result_of (predict example_world ''Goa'' 15.3 74.1 ''2024-01-11'' ''ARIMA'' example_proc))
     = Some [738897, 738898, 738899, 738900, 738901, 738902, 738903, 738904, 738905]
   \<and> ordinal (clock example_world 0) = 738886
   \<and> ordinal (clock example_world 1) = 738886
   \<and> strptime example_world ''2024-01-11'' = Inr 738896"
proof -
  obtain r p' where
    r: "predict example_world ''Goa'' 15.3 74.1 ''2024-01-11'' ''ARIMA'' example_proc = (Inr r, p')"
    using example_predict_succeeds_jan by blast
  have t: "strptime example_world ''2024-01-11'' = Inr 738896"
    by (simp add: example_world_fields example_strptime_def)
  have n: "max 1 (timedelta_days \<lparr>ordinal = 738896, micros = 0\<rparr>
             (clock example_world (Suc (clock_pos example_proc)))) = 9"
    by (simp add: example_world_fields example_days_ahead)
  have "map date (forecast_data r) = [738897 .. 738905]"
    using predict_forecast(2) [OF r t] unfolding n by simp
  then have "map_option (map date \<circ> forecast_data)
     (result_of (predict example_world ''Goa'' 15.3 74.1 ''2024-01-11'' ''ARIMA'' example_proc))
     = Some [738897, 738898, 738899, 738900, 738901, 738902, 738903, 738904, 738905]"
    using r by (simp add: result_of_def upto_9)
  then show ?thesis using t by (simp add: example_world_fields)
qed

subsection \<open>Usage values\<close>

lemma spec_usage_rounded:
  "0 \<le> spec_usage b t s n \<and> round2 (spec_usage b t s n) = spec_usage b t s n"
  by (simp add: spec_usage_def round2_max_nonneg round2_idem)

lemma point_prediction_nonneg:
  "point_prediction w state prediction_date mtype m features n = (Inr v, k) \<Longrightarrow> 0 \<le> v"
  by (auto simp: point_prediction_def split: if_splits sum.splits option.splits)

lemma apoint_prediction_rounded:
  "apoint_prediction w state prediction_date mtype m features n = (Inr v, k) \<Longrightarrow>
     0 \<le> v \<and> round2 v = v"
  by (auto simp: apoint_prediction_def max_round2 round2_idem round2_max_nonneg
           split: if_splits sum.splits option.splits)

lemma historical_usages:
  assumes "generate_historical_data w state days p = (Inr hist, p')" and "pt \<in> set hist"
  shows "0 \<le> usage pt \<and> round2 (usage pt) = usage pt"
proof -
  note g = generate_historical_data_Inr [OF assms(1)]
  from assms(2) obtain j where j: "j < length hist" and pt: "hist ! j = pt"
    by (auto simp: in_set_conv_nth)
  from j have "j < nat days" using g(1) by simp
  then have "historical_point w (base_usage w state) (clock w (clock_pos p)) (days - int j)
             (rng_pos p + j) = Inr pt" using g(3) pt by simp
  then have "\<exists>b t s n. usage pt = spec_usage b t s n" using historical_point_Inr by blast
  then show ?thesis using spec_usage_rounded by auto
qed

lemma forecast_usages:
  assumes "generate_forecast_data w state prediction_date n p = (Inr fc, p')" and "pt \<in> set fc"
  shows "0 \<le> usage pt \<and> round2 (usage pt) = usage pt"
proof -
  note g = generate_forecast_data_Inr [OF assms(1)]
  from g(1) obtain t where t: "strptime w prediction_date = Inr t" by blast
  from assms(2) obtain j where j: "j < length fc" and pt: "fc ! j = pt"
    by (auto simp: in_set_conv_nth)
  from j have "j < nat n" using g(2) by simp
  then have "forecast_point w (base_usage w state) \<lparr>ordinal = t, micros = 0\<rparr> (1 + int j)
             (rng_pos p + j) = Inr pt" using g(4) t pt by simp
  then have "\<exists>b t s n. usage pt = spec_usage b t s n" using forecast_point_Inr by blast
  then show ?thesis using spec_usage_rounded by auto
qed

lemma predict_usage_facts:
  assumes a: "predict w state lat lon prediction_date mtype p = (Inr r, p')"
  shows "0 \<le> predicted_usage r" and "round2 (predicted_usage r) = predicted_usage r"
    and "pt \<in> set (historical_data r) \<Longrightarrow> 0 \<le> usage pt \<and> round2 (usage pt) = usage pt"
    and "pt \<in> set (forecast_data r) \<Longrightarrow> 0 \<le> usage pt \<and> round2 (usage pt) = usage pt"
proof -
  from a obtain m p1 features v k hist p2 t fc where
    v: "point_prediction w state prediction_date mtype m features (rng_pos p1) = (Inr v, k)"
    and h: "generate_historical_data w state 90 (p1\<lparr>rng_pos := k\<rparr>) = (Inr hist, p2)"
    and f: "generate_forecast_data w state prediction_date
       (max 1 (timedelta_days \<lparr>ordinal = t, micros = 0\<rparr> (clock w (clock_pos p2))))
       (p2\<lparr>clock_pos := Suc (clock_pos p2)\<rparr>) = (Inr fc, p')"
    and r: "r = \<lparr>predicted_usage = round2 v, model_type = mtype, historical_data = hist,
          forecast_data = fc, features_used = features\<rparr>"
    by (rule predict_Inr)
  have pu: "predicted_usage r = round2 v" and hd: "historical_data r = hist"
    and fd: "forecast_data r = fc" using r by simp_all
  have "0 \<le> v" using v by (rule point_prediction_nonneg)
  then show "0 \<le> predicted_usage r" unfolding pu by (rule round2_nonneg)
  show "round2 (predicted_usage r) = predicted_usage r" unfolding pu by (rule round2_idem)
  show "pt \<in> set (historical_data r) \<Longrightarrow> 0 \<le> usage pt \<and> round2 (usage pt) = usage pt"
    unfolding hd by (rule historical_usages [OF h])
  show "pt \<in> set (forecast_data r) \<Longrightarrow> 0 \<le> usage pt \<and> round2 (usage pt) = usage pt"
    unfolding fd by (rule forecast_usages [OF f])
qed

lemma apredict_usage_facts:
  assumes a: "apredict w state lat lon prediction_date mtype p = (Inr r, p')"
  shows "0 \<le> predicted_usage r" and "round2 (predicted_usage r) = predicted_usage r"
    and "pt \<in> set (historical_data r) \<Longrightarrow> 0 \<le> usage pt \<and> round2 (usage pt) = usage pt"
    and "pt \<in> set (forecast_data r) \<Longrightarrow> 0 \<le> usage pt \<and> round2 (usage pt) = usage pt"
proof -
  from a obtain m p1 features v k hist p2 t fc where
    v: "apoint_prediction w state prediction_date mtype m features (rng_pos p1) = (Inr v, k)"
    and h: "generate_historical_data w state 90 (p1\<lparr>rng_pos := k\<rparr>) = (Inr hist, p2)"
    and f: "generate_forecast_data w state prediction_date
       (max 1 (timedelta_days \<lparr>ordinal = t, micros = 0\<rparr> (clock w (clock_pos p2))))
       (p2\<lparr>clock_pos := Suc (clock_pos p2)\<rparr>) = (Inr fc, p')"
    and r: "r = \<lparr>predicted_usage = v, model_type = mtype, historical_data = hist,
          forecast_data = fc, features_used = features, model_loaded = True\<rparr>"
    by (rule apredict_Inr)
  have pu: "predicted_usage r = v" and hd: "historical_data r = hist"
    and fd: "forecast_data r = fc" using r by simp_all
  show "0 \<le> predicted_usage r" unfolding pu using apoint_prediction_rounded [OF v] by simp
  show "round2 (predicted_usage r) = predicted_usage r"
    unfolding pu using apoint_prediction_rounded [OF v] by simp
  show "pt \<in> set (historical_data r) \<Longrightarrow> 0 \<le> usage pt \<and> round2 (usage pt) = usage pt"
    unfolding hd by (rule historical_usages [OF h])
  show "pt \<in> set (forecast_data r) \<Longrightarrow> 0 \<le> usage pt \<and> round2 (usage pt) = usage pt"
    unfolding fd by (rule forecast_usages [OF f])
qed

text \<open>
  C8. In a result of either class (floats idealised as reals, \<open>round2\<close> rounding half to
  even), the predicted usage is non-negative and is its own rounding to 2 decimal places,
  and so is the usage of every point of the historical and of the forecast series.
\<close>

theorem usages_nonnegative_rounded:
  "(predict w state lat lon prediction_date mtype p = (Inr r, p') \<longrightarrow>
      0 \<le> predicted_usage r \<and> round2 (predicted_usage r) = predicted_usage r
      \<and> (\<forall>pt \<in> set (historical_data r) \<union> set (forecast_data r).
            0 \<le> usage pt \<and> round2 (usage pt) = usage pt))
   \<and> (apredict w state lat lon prediction_date mtype p = (Inr ar, ap') \<longrightarrow>
      0 \<le> predicted_usage ar \<and> round2 (predicted_usage ar) = predicted_usage ar
      \<and> (\<forall>pt \<in> set (historical_data ar) \<union> set (forecast_data ar).
            0 \<le> usage pt \<and> round2 (usage pt) = usage pt))"
proof (intro conjI impI ballI)
  assume a: "predict w state lat lon prediction_date mtype p = (Inr r, p')"
  show "0 \<le> predicted_usage r" by (rule predict_usage_facts(1) [OF a])
  show "round2 (predicted_usage r) = predicted_usage r" by (rule predict_usage_facts(2) [OF a])
next
  fix pt
  assume a: "predict w state lat lon prediction_date mtype p = (Inr r, p')"
    and pt: "pt \<in> set (historical_data r) \<union> set (forecast_data r)"
  from pt have "pt \<in> set (historical_data r) \<or> pt \<in> set (forecast_data r)"
    by (simp only: Un_iff)
  then have both: "0 \<le> usage pt \<and> round2 (usage pt) = usage pt"
    using predict_usage_facts(3,4) [OF a] by (rule disjE)
  show "0 \<le> usage pt" using both by (rule conjunct1)
  show "round2 (usage pt) = usage pt" using both by (rule conjunct2)
next
  assume a: "apredict w state lat lon prediction_date mtype p = (Inr ar, ap')"
  show "0 \<le> predicted_usage ar" by (rule apredict_usage_facts(1) [OF a])
  show "round2 (predicted_usage ar) = predicted_usage ar"
    by (rule apredict_usage_facts(2) [OF a])
next
  fix pt
  assume a: "apredict w state lat lon prediction_date mtype p = (Inr ar, ap')"
    and pt: "pt \<in> set (historical_data ar) \<union> set (forecast_data ar)"
  from pt have "pt \<in> set (historical_data ar) \<or> pt \<in> set (forecast_data ar)"
    by (simp only: Un_iff)
  then have both: "0 \<le> usage pt \<and> round2 (usage pt) = usage pt"
    using apredict_usage_facts(3,4) [OF a] by (rule disjE)
  show "0 \<le> usage pt" using both by (rule conjunct1)
  show "round2 (usage pt) = usage pt" using both by (rule conjunct2)
qed

lemma predict_nonempty:
  assumes a: "predict w state lat lon prediction_date mtype p = (Inr r, p')"
  shows "historical_data r \<noteq> []" and "forecast_data r \<noteq> []"
proof -
  from a obtain m p1 features v k hist p2 t fc where
    h: "generate_historical_data w state 90 (p1\<lparr>rng_pos := k\<rparr>) = (Inr hist, p2)"
    and f: "generate_forecast_data w state prediction_date
       (max 1 (timedelta_days \<lparr>ordinal = t, micros = 0\<rparr> (clock w (clock_pos p2))))
       (p2\<lparr>clock_pos := Suc (clock_pos p2)\<rparr>) = (Inr fc, p')"
    and r: "r = \<lparr>predicted_usage = round2 v, model_type = mtype, historical_data = hist,
          forecast_data = fc, features_used = features\<rparr>"
    by (rule predict_Inr)
  have "length hist = 90" using generate_historical_data_Inr(1) [OF h] by simp
  then show "historical_data r \<noteq> []" using r by auto
  have "0 < length fc" using generate_forecast_data_Inr(2) [OF f] by simp
  then show "forecast_data r \<noteq> []" using r by auto
qed

lemma apredict_nonempty:
  assumes a: "apredict w state lat lon prediction_date mtype p = (Inr r, p')"
  shows "historical_data r \<noteq> []" and "forecast_data r \<noteq> []"
proof -
  from a obtain m p1 features v k hist p2 t fc where
    h: "generate_historical_data w state 90 (p1\<lparr>rng_pos := k\<rparr>) = (Inr hist, p2)"
    and f: "generate_forecast_data w state prediction_date
       (max 1 (timedelta_days \<lparr>ordinal = t, micros = 0\<rparr> (clock w (clock_pos p2))))
       (p2\<lparr>clock_pos := Suc (clock_pos p2)\<rparr>) = (Inr fc, p')"
    and r: "r = \<lparr>predicted_usage = v, model_type = mtype, historical_data = hist,
          forecast_data = fc, features_used = features, model_loaded = True\<rparr>"
    by (rule apredict_Inr)
  have "length hist = 90" using generate_historical_data_Inr(1) [OF h] by simp
  then show "historical_data r \<noteq> []" using r by auto
  have "0 < length fc" using generate_forecast_data_Inr(2) [OF f] by simp
  then show "forecast_data r \<noteq> []" using r by auto
qed

theorem usages_nonnegative_rounded_witness:
  "\<exists>r p' ar ap'.
     predict example_world ''Goa'' 15.3 74.1 ''2024-12-01'' ''ARIMA'' example_proc = (Inr r, p')
     \<and> apredict example_world ''Goa'' 15.3 74.1 ''2024-12-01'' ''ARIMA'' example_proc = (Inr ar, ap')
     \<and> 0 \<le> predicted_usage r \<and> round2 (predicted_usage r) = predicted_usage r
     \<and> hd (historical_data r) \<in> set (historical_data r) \<union> set (forecast_data r)
     \<and> 0 \<le> usage (hd (historical_data r))
     \<and> round2 (usage (hd (historical_data r))) = usage (hd (historical_data r))
     \<and> 0 \<le> predicted_usage ar \<and> round2 (predicted_usage ar) = predicted_usage ar
     \<and> hd (forecast_data ar) \<in> set (historical_data ar) \<union> set (forecast_data ar)
     \<and> 0 \<le> usage (hd (forecast_data ar))
     \<and> round2 (usage (hd (forecast_data ar))) = usage (hd (forecast_data ar))"
proof -
  obtain r p' where
    r: "predict example_world ''Goa'' 15.3 74.1 ''2024-12-01'' ''ARIMA'' example_proc = (Inr r, p')"
    using example_predict_succeeds by blast
  obtain ar ap' where
    ar: "apredict example_world ''Goa'' 15.3 74.1 ''2024-12-01'' ''ARIMA'' example_proc = (Inr ar, ap')"
    using example_apredict_succeeds by blast
  have m1: "hd (historical_data r) \<in> set (historical_data r) \<union> set (forecast_data r)"
    using predict_nonempty(1) [OF r] by simp
  have m2: "hd (forecast_data ar) \<in> set (historical_data ar) \<union> set (forecast_data ar)"
    using apredict_nonempty(2) [OF ar] by simp
  note th = usages_nonnegative_rounded [of example_world "''Goa''" "15.3" "74.1"
      "''2024-12-01''" "''ARIMA''" example_proc r p' ar ap']
  note th1 = th [THEN conjunct1, THEN mp, OF r]
  note th2 = th [THEN conjunct2, THEN mp, OF ar]
  have a1: "0 \<le> predicted_usage r" using th1 by (rule conjunct1)
  have a2: "round2 (predicted_usage r) = predicted_usage r"
    using th1 [THEN conjunct2] by (rule conjunct1)
  have a3: "0 \<le> usage (hd (historical_data r))
     \<and> round2 (usage (hd (historical_data r))) = usage (hd (historical_data r))"
    using th1 [THEN conjunct2, THEN conjunct2] m1 by (rule bspec)
  have b1: "0 \<le> predicted_usage ar" using th2 by (rule conjunct1)
  have b2: "round2 (predicted_usage ar) = predicted_usage ar"
    using th2 [THEN conjunct2] by (rule conjunct1)
  have b3: "0 \<le> usage (hd (forecast_data ar))
     \<and> round2 (usage (hd (forecast_data ar))) = usage (hd (forecast_data ar))"
    using th2 [THEN conjunct2, THEN conjunct2] m2 by (rule bspec)
  from r ar a1 a2 m1 a3 b1 b2 m2 b3 show ?thesis
    by (intro exI [of _ r] exI [of _ p'] exI [of _ ar] exI [of _ ap']) (intro conjI; simp)
qed

subsection \<open>The point prediction of ARIMA, LSTM and Prophet\<close>

lemma example_yday:
  "tm_yday \<lparr>ordinal = 739221, micros = 0\<rparr> = 336"
  "tm_yday \<lparr>ordinal = 738796, micros = 43200000000\<rparr> = 276"
  by code_simp+

lemma example_base_usage: "base_usage example_world ''Goa'' = 138"
  by (simp add: base_usage_def example_world_fields)

lemma cancelling_world_fields:
  "path_exists (cancelling_world d s) = path_exists example_world"
  "joblib_load (cancelling_world d s) = joblib_load example_world"
  "strptime (cancelling_world d s) = example_strptime"
  "clock (cancelling_world d s) = clock example_world"
  "py_hash (cancelling_world d s) = py_hash example_world"
  "std_normal (cancelling_world d s) n = - seasonality d / s"
  by (simp_all add: cancelling_world_def example_world_def)

lemma cancelling_predict_succeeds:
  "\<exists>r p'. predict (cancelling_world d s) ''Goa'' 15.3 74.1 ''2024-12-01'' ''ARIMA'' example_proc
     = (Inr r, p')"
proof (rule predict_succeeds)
  show "path_exists (cancelling_world d s)
          (get_model_path (models_dir example_proc) ''Goa'' ''ARIMA'')"
    by (simp add: cancelling_world_fields example_proc_fields example_paths
          example_world_fields example_files_def)
  show "model_cache example_proc (''Goa'' @ ''_'' @ ''ARIMA'') \<noteq> None \<or> ''ARIMA'' = ''LSTM''
      \<or> (\<exists>h. joblib_load (cancelling_world d s)
               (get_model_path (models_dir example_proc) ''Goa'' ''ARIMA'') = Inr h)"
    by (simp add: cancelling_world_fields example_world_fields)
  show "strptime (cancelling_world d s) ''2024-12-01'' = Inr 739221"
    by (simp add: cancelling_world_fields example_strptime_def)
  show "''ARIMA'' \<in> {''ARIMA'', ''XGBoost'', ''LSTM'', ''Prophet''}" by simp
  show "90 < ordinal (clock (cancelling_world d s) (clock_pos example_proc))"
    by (simp add: cancelling_world_fields example_world_fields)
  show "ordinal (clock (cancelling_world d s) (clock_pos example_proc)) \<le> MAXORDINAL"
    by (simp add: cancelling_world_fields example_world_fields MAXORDINAL_def)
  show "(0::int) \<le> 739221" by simp
  show "739221 + max 1 (timedelta_days \<lparr>ordinal = 739221, micros = 0\<rparr>
           (clock (cancelling_world d s) (Suc (clock_pos example_proc)))) \<le> MAXORDINAL"
    by (simp add: cancelling_world_fields example_world_fields example_days_ahead MAXORDINAL_def)
qed

lemma point_prediction_seasonal:
  assumes "point_prediction w state prediction_date mtype m features n = (Inr v, k)"
    and "strptime w prediction_date = Inr t"
    and "mtype = ''ARIMA'' \<and> scale = 5 \<or> mtype = ''LSTM'' \<and> scale = 3
         \<or> mtype = ''Prophet'' \<and> scale = 4"
  shows "v = max 0 (of_int (base_usage w state) + 0.1
                    + seasonality (tm_yday \<lparr>ordinal = t, micros = 0\<rparr>) + scale * std_normal w n)"
  using assms by (auto simp: point_prediction_def seasonal_value_Inr)

lemma apoint_prediction_seasonal:
  assumes "apoint_prediction w state prediction_date mtype m features n = (Inr v, k)"
    and "strptime w prediction_date = Inr t"
    and "mtype = ''ARIMA'' \<and> scale = 5 \<or> mtype = ''LSTM'' \<and> scale = 3
         \<or> mtype = ''Prophet'' \<and> scale = 4"
  shows "v = round2 (max 0 (of_int (base_usage w state) + 0.1
                    + seasonality (tm_yday \<lparr>ordinal = t, micros = 0\<rparr>) + scale * std_normal w n))"
  using assms by (auto simp: apoint_prediction_def seasonal_value_Inr max_round2)

lemma predict_seasonal:
  assumes a: "predict w state lat lon prediction_date mtype p = (Inr r, p')"
    and t: "strptime w prediction_date = Inr t"
    and fam: "mtype = ''ARIMA'' \<and> scale = 5 \<or> mtype = ''LSTM'' \<and> scale = 3
         \<or> mtype = ''Prophet'' \<and> scale = 4"
  shows "predicted_usage r
         = spec_usage (of_int (base_usage w state)) 0.1
             (seasonality (tm_yday \<lparr>ordinal = t, micros = 0\<rparr>))
             (scale * std_normal w (rng_pos p))"
proof -
  from a obtain m p1 features v k hist p2 t' fc where
    l: "load_model w state mtype p = (Inr m, p1)"
    and v: "point_prediction w state prediction_date mtype m features (rng_pos p1) = (Inr v, k)"
    and r: "r = \<lparr>predicted_usage = round2 v, model_type = mtype, historical_data = hist,
          forecast_data = fc, features_used = features\<rparr>"
    by (rule predict_Inr)
  have k: "rng_pos p1 = rng_pos p" by (rule load_model_Inr(3) [OF l])
  have "predicted_usage r = round2 v" using r by simp
  then show ?thesis
    using point_prediction_seasonal [OF v t fam] by (simp add: spec_usage_def k)
qed

lemma apredict_seasonal:
  assumes a: "apredict w state lat lon prediction_date mtype p = (Inr r, p')"
    and t: "strptime w prediction_date = Inr t"
    and fam: "mtype = ''ARIMA'' \<and> scale = 5 \<or> mtype = ''LSTM'' \<and> scale = 3
         \<or> mtype = ''Prophet'' \<and> scale = 4"
  shows "predicted_usage r
         = spec_usage (of_int (base_usage w state)) 0.1
             (seasonality (tm_yday \<lparr>ordinal = t, micros = 0\<rparr>))
             (scale * std_normal w (rng_pos p))"
proof -
  from a obtain m p1 features v k hist p2 t' fc where
    l: "aload_model w state mtype p = (Inr m, p1)"
    and v: "apoint_prediction w state prediction_date mtype m features (rng_pos p1) = (Inr v, k)"
    and r: "r = \<lparr>predicted_usage = v, model_type = mtype, historical_data = hist,
          forecast_data = fc, features_used = features, model_loaded = True\<rparr>"
    by (rule apredict_Inr)
  have k: "rng_pos p1 = rng_pos p" by (rule aload_model_Inr(3) [OF l])
  have "predicted_usage r = v" using r by simp
  then show ?thesis
    using apoint_prediction_seasonal [OF v t fam] by (simp add: spec_usage_def k)
qed

text \<open>The three families never look at the loaded model.\<close>

lemma points_without_inference:
  "historical_point (w\<lparr>has_predict := g, model_predict := f\<rparr>) = historical_point w"
  "forecast_point (w\<lparr>has_predict := g, model_predict := f\<rparr>) = forecast_point w"
  "parse_date (w\<lparr>has_predict := g, model_predict := f\<rparr>) = parse_date w"
  "base_usage (w\<lparr>has_predict := g, model_predict := f\<rparr>) = base_usage w"
  "clock (w\<lparr>has_predict := g, model_predict := f\<rparr>) = clock w"
  by (intro ext, simp add: historical_point_def forecast_point_def parse_date_def
        random_normal_def base_usage_def cong: sum.case_cong)+

lemma world_without_inference:
  "load_model (w\<lparr>has_predict := g, model_predict := f\<rparr>) = load_model w"
  "aload_model (w\<lparr>has_predict := g, model_predict := f\<rparr>) = aload_model w"
  "prepare_features (w\<lparr>has_predict := g, model_predict := f\<rparr>) = prepare_features w"
  "aprepare_features (w\<lparr>has_predict := g, model_predict := f\<rparr>) = aprepare_features w"
  "generate_historical_data (w\<lparr>has_predict := g, model_predict := f\<rparr>)
     = generate_historical_data w"
  "generate_forecast_data (w\<lparr>has_predict := g, model_predict := f\<rparr>)
     = generate_forecast_data w"
  "seasonal_value (w\<lparr>has_predict := g, model_predict := f\<rparr>) = seasonal_value w"
  by (intro ext, simp add: load_model_def aload_model_def prepare_features_def
        aprepare_features_def generate_historical_data_def generate_forecast_data_def
        seasonal_value_def points_without_inference random_normal_def
        cong: option.case_cong sum.case_cong if_cong)+

lemma point_prediction_without_inference:
  assumes "mtype = ''ARIMA'' \<or> mtype = ''LSTM'' \<or> mtype = ''Prophet''"
  shows "point_prediction (w\<lparr>has_predict := g, model_predict := f\<rparr>) state pd mtype m fs n
         = point_prediction w state pd mtype m fs n"
    and "apoint_prediction (w\<lparr>has_predict := g, model_predict := f\<rparr>) state pd mtype m fs n
         = apoint_prediction w state pd mtype m fs n"
    and "point_prediction w state pd mtype m fs n = point_prediction w state pd mtype m' fs' n"
    and "apoint_prediction w state pd mtype m fs n = apoint_prediction w state pd mtype m' fs' n"
  using assms
  by (auto simp: point_prediction_def apoint_prediction_def world_without_inference
        points_without_inference)

lemma predict_without_inference:
  assumes "mtype = ''ARIMA'' \<or> mtype = ''LSTM'' \<or> mtype = ''Prophet''"
  shows "predict (w\<lparr>has_predict := g, model_predict := f\<rparr>) state lat lon pd mtype p
         = predict w state lat lon pd mtype p"
    and "apredict (w\<lparr>has_predict := g, model_predict := f\<rparr>) state lat lon pd mtype p
         = apredict w state lat lon pd mtype p"
  unfolding predict_def apredict_def agenerate_historical_data_eq agenerate_forecast_data_eq
    world_without_inference points_without_inference
    point_prediction_without_inference(1,2) [OF assms]
  by (rule refl)+

text \<open>
  C2, as the source has it. For the families ARIMA, LSTM and Prophet, \<open>predict\<close> of either
  class never calls the loaded model: its result is the same whatever the model's
  \<open>predict\<close> does. The predicted usage is the seasonal formula at the target date with the
  constant trend 0.1 (the source's \<^verbatim>\<open>trend = 0.1\<close>, not 0): base usage + 0.1 +
  seasonality + noise, floored at 0 and rounded to 2 decimals, where the noise is the first
  normal draw of the call at scale 5 for ARIMA, 3 for LSTM and 4 for Prophet.
\<close>

theorem seasonal_families_point_prediction:
  "(mtype = ''ARIMA'' \<and> scale = 5 \<or> mtype = ''LSTM'' \<and> scale = 3
      \<or> mtype = ''Prophet'' \<and> scale = 4) \<longrightarrow>
     (predict w state lat lon prediction_date mtype p = (Inr r, p')
        \<and> strptime w prediction_date = Inr t \<longrightarrow>
        predicted_usage r
          = spec_usage (of_int (base_usage w state)) 0.1
              (seasonality (tm_yday \<lparr>ordinal = t, micros = 0\<rparr>))
              (scale * std_normal w (rng_pos p)))
     \<and> (apredict w state lat lon prediction_date mtype p = (Inr ar, ap')
        \<and> strptime w prediction_date = Inr t \<longrightarrow>
        predicted_usage ar
          = spec_usage (of_int (base_usage w state)) 0.1
              (seasonality (tm_yday \<lparr>ordinal = t, micros = 0\<rparr>))
              (scale * std_normal w (rng_pos p)))
     \<and> predict (w\<lparr>has_predict := g, model_predict := f\<rparr>) state lat lon prediction_date mtype p
         = predict w state lat lon prediction_date mtype p
     \<and> apredict (w\<lparr>has_predict := g, model_predict := f\<rparr>) state lat lon prediction_date mtype p
         = apredict w state lat lon prediction_date mtype p"
proof
  assume fam: "mtype = ''ARIMA'' \<and> scale = 5 \<or> mtype = ''LSTM'' \<and> scale = 3
      \<or> mtype = ''Prophet'' \<and> scale = 4"
  then have fam': "mtype = ''ARIMA'' \<or> mtype = ''LSTM'' \<or> mtype = ''Prophet''" by blast
  have A: "predict w state lat lon prediction_date mtype p = (Inr r, p')
        \<and> strptime w prediction_date = Inr t \<longrightarrow>
        predicted_usage r
          = spec_usage (of_int (base_usage w state)) 0.1
              (seasonality (tm_yday \<lparr>ordinal = t, micros = 0\<rparr>))
              (scale * std_normal w (rng_pos p))"
  proof
    assume "predict w state lat lon prediction_date mtype p = (Inr r, p')
        \<and> strptime w prediction_date = Inr t"
    then have a: "predict w state lat lon prediction_date mtype p = (Inr r, p')"
      and t: "strptime w prediction_date = Inr t" by simp_all
    show "predicted_usage r
          = spec_usage (of_int (base_usage w state)) 0.1
              (seasonality (tm_yday \<lparr>ordinal = t, micros = 0\<rparr>))
              (scale * std_normal w (rng_pos p))"
      by (rule predict_seasonal [OF a t fam])
  qed
  have B: "apredict w state lat lon prediction_date mtype p = (Inr ar, ap')
        \<and> strptime w prediction_date = Inr t \<longrightarrow>
        predicted_usage ar
          = spec_usage (of_int (base_usage w state)) 0.1
              (seasonality (tm_yday \<lparr>ordinal = t, micros = 0\<rparr>))
              (scale * std_normal w (rng_pos p))"
  proof
    assume "apredict w state lat lon prediction_date mtype p = (Inr ar, ap')
        \<and> strptime w prediction_date = Inr t"
    then have a: "apredict w state lat lon prediction_date mtype p = (Inr ar, ap')"
      and t: "strptime w prediction_date = Inr t" by simp_all
    show "predicted_usage ar
          = spec_usage (of_int (base_usage w state)) 0.1
              (seasonality (tm_yday \<lparr>ordinal = t, micros = 0\<rparr>))
              (scale * std_normal w (rng_pos p))"
      by (rule apredict_seasonal [OF a t fam])
  qed
  note C = predict_without_inference(1) [OF fam']
  note D = predict_without_inference(2) [OF fam']
  show
    "(predict w state lat lon prediction_date mtype p = (Inr r, p')
        \<and> strptime w prediction_date = Inr t \<longrightarrow>
        predicted_usage r
          = spec_usage (of_int (base_usage w state)) 0.1
              (seasonality (tm_yday \<lparr>ordinal = t, micros = 0\<rparr>))
              (scale * std_normal w (rng_pos p)))
     \<and> (apredict w state lat lon prediction_date mtype p = (Inr ar, ap')
        \<and> strptime w prediction_date = Inr t \<longrightarrow>
        predicted_usage ar
          = spec_usage (of_int (base_usage w state)) 0.1
              (seasonality (tm_yday \<lparr>ordinal = t, micros = 0\<rparr>))
              (scale * std_normal w (rng_pos p)))
     \<and> predict (w\<lparr>has_predict := g, model_predict := f\<rparr>) state lat lon prediction_date mtype p
         = predict w state lat lon prediction_date mtype p
     \<and> apredict (w\<lparr>has_predict := g, model_predict := f\<rparr>) state lat lon prediction_date mtype p
         = apredict w state lat lon prediction_date mtype p"
    by (intro conjI A B C D)
qed

theorem seasonal_families_point_prediction_witness:
  "\<exists>r p' ar ap'.
     predict example_world ''Goa'' 15.3 74.1 ''2024-12-01'' ''ARIMA'' example_proc = (Inr r, p')
     \<and> apredict example_world ''Goa'' 15.3 74.1 ''2024-12-01'' ''ARIMA'' example_proc = (Inr ar, ap')
     \<and> strptime example_world ''2024-12-01'' = Inr 739221
     \<and> predicted_usage r = spec_usage 138 0.1 (seasonality 336) 0
     \<and> predicted_usage ar = spec_usage 138 0.1 (seasonality 336) 0"
proof -
  obtain r p' where
    r: "predict example_world ''Goa'' 15.3 74.1 ''2024-12-01'' ''ARIMA'' example_proc = (Inr r, p')"
    using example_predict_succeeds by blast
  obtain ar ap' where
    ar: "apredict example_world ''Goa'' 15.3 74.1 ''2024-12-01'' ''ARIMA'' example_proc = (Inr ar, ap')"
    using example_apredict_succeeds by blast
  have t: "strptime example_world ''2024-12-01'' = Inr 739221"
    by (simp add: example_world_fields example_strptime_def)
  have fam: "''ARIMA'' = ''ARIMA'' \<and> (5::real) = 5 \<or> ''ARIMA'' = ''LSTM'' \<and> (5::real) = 3
      \<or> ''ARIMA'' = ''Prophet'' \<and> (5::real) = 4" by simp
  note th = seasonal_families_point_prediction [of "''ARIMA''" 5 example_world "''Goa''" "15.3"
      "74.1" "''2024-12-01''" example_proc r p' 739221 ar ap', THEN mp, OF fam]
  have a: "predicted_usage r
          = spec_usage (of_int (base_usage example_world ''Goa'')) 0.1
              (seasonality (tm_yday \<lparr>ordinal = 739221, micros = 0\<rparr>))
              (5 * std_normal example_world (rng_pos example_proc))"
    using th [THEN conjunct1] r t by simp
  have b: "predicted_usage ar
          = spec_usage (of_int (base_usage example_world ''Goa'')) 0.1
              (seasonality (tm_yday \<lparr>ordinal = 739221, micros = 0\<rparr>))
              (5 * std_normal example_world (rng_pos example_proc))"
    using th [THEN conjunct2, THEN conjunct1] ar t by simp
  have a': "predicted_usage r = spec_usage 138 0.1 (seasonality 336) 0"
    using a by (simp add: example_base_usage example_yday example_world_fields)
  have b': "predicted_usage ar = spec_usage 138 0.1 (seasonality 336) 0"
    using b by (simp add: example_base_usage example_yday example_world_fields)
  from r ar t a' b' show ?thesis by blast
qed

text \<open>
  With a normal draw that cancels the seasonal term of 2024-12-01 (day 336 of the year) at
  scale 5, the ARIMA prediction for the base usage 138 is 138.1; the formula with trend
  \<open>0 * 0.1\<close> gives 138.
\<close>

theorem seasonal_families_counterexample:
  "map_option predicted_usage
     (result_of (predict (cancelling_world 336 5) ''Goa'' 15.3 74.1 ''2024-12-01'' ''ARIMA''
                   example_proc)) = Some 138.1
   \<and> spec_usage (of_int (base_usage (cancelling_world 336 5) ''Goa'')) (0 * 0.1)
        (seasonality (tm_yday \<lparr>ordinal = 739221, micros = 0\<rparr>))
        (random_normal (cancelling_world 336 5) (rng_pos example_proc) 0 5) = 138"
proof -
  obtain r p' where
    r: "predict (cancelling_world 336 5) ''Goa'' 15.3 74.1 ''2024-12-01'' ''ARIMA'' example_proc
          = (Inr r, p')"
    using cancelling_predict_succeeds by blast
  have t: "strptime (cancelling_world 336 5) ''2024-12-01'' = Inr 739221"
    by (simp add: cancelling_world_fields example_strptime_def)
  have fam: "''ARIMA'' = ''ARIMA'' \<and> (5::real) = 5 \<or> ''ARIMA'' = ''LSTM'' \<and> (5::real) = 3
      \<or> ''ARIMA'' = ''Prophet'' \<and> (5::real) = 4" by simp
  have base: "base_usage (cancelling_world 336 5) ''Goa'' = 138"
    by (simp add: base_usage_def cancelling_world_fields example_world_fields)
  have "predicted_usage r
          = spec_usage (of_int (base_usage (cancelling_world 336 5) ''Goa'')) 0.1
              (seasonality (tm_yday \<lparr>ordinal = 739221, micros = 0\<rparr>))
              (5 * std_normal (cancelling_world 336 5) (rng_pos example_proc))"
    by (rule predict_seasonal [OF r t fam])
  then have "predicted_usage r = round2 (max 0 (138 + 0.1 + seasonality 336 + 5 * (- seasonality 336 / 5)))"
    by (simp add: base example_yday cancelling_world_fields spec_usage_def)
  also have "138 + 0.1 + seasonality 336 + 5 * (- seasonality 336 / 5) = (138.1::real)" by simp
  also have "round2 (max 0 138.1) = 138.1" by (simp add: round2_def round_half_even_def)
  finally have a: "map_option predicted_usage
     (result_of (predict (cancelling_world 336 5) ''Goa'' 15.3 74.1 ''2024-12-01'' ''ARIMA''
                   example_proc)) = Some 138.1"
    using r by (simp add: result_of_def)
  have "spec_usage (of_int (base_usage (cancelling_world 336 5) ''Goa'')) (0 * 0.1)
        (seasonality (tm_yday \<lparr>ordinal = 739221, micros = 0\<rparr>))
        (random_normal (cancelling_world 336 5) (rng_pos example_proc) 0 5)
        = round2 (max 0 (138 + 0 + seasonality 336 + (0 + 5 * (- seasonality 336 / 5))))"
    by (simp add: base example_yday cancelling_world_fields spec_usage_def random_normal_def)
  also have "138 + 0 + seasonality 336 + (0 + 5 * (- seasonality 336 / 5)) = (138::real)" by simp
  also have "round2 (max 0 138) = 138" by (simp add: round2_def round_half_even_def)
  finally have b: "spec_usage (of_int (base_usage (cancelling_world 336 5) ''Goa'')) (0 * 0.1)
        (seasonality (tm_yday \<lparr>ordinal = 739221, micros = 0\<rparr>))
        (random_normal (cancelling_world 336 5) (rng_pos example_proc) 0 5) = 138" .
  from a b show ?thesis by (rule conjI)
qed

subsection \<open>An unrecognised model family\<close>

lemma point_prediction_unsupported:
  assumes "mtype \<notin> {''ARIMA'', ''XGBoost'', ''LSTM'', ''Prophet''}"
  shows "point_prediction w state pd mtype m fs n
           = (Inl (ValueError (''Unsupported model type: '' @ mtype)), n)"
    and "apoint_prediction w state pd mtype m fs n
           = (Inl (ValueError (''Unsupported model type: '' @ mtype)), n)"
  using assms by (simp_all add: point_prediction_def apoint_prediction_def)

lemma predict_unsupported:
  assumes fam: "mtype \<notin> {''ARIMA'', ''XGBoost'', ''LSTM'', ''Prophet''}"
  shows "\<exists>msg. fst (predict w state lat lon pd mtype p)
                 = Inl (RuntimeError (''Prediction failed: '' @ msg))"
    and "load_model w state mtype p = (Inr m, p1) \<Longrightarrow> strptime w pd = Inr t \<Longrightarrow>
           fst (predict w state lat lon pd mtype p)
             = Inl (RuntimeError (''Prediction failed: Unsupported model type: '' @ mtype))"
    and "\<not> path_exists w (get_model_path (models_dir p) state mtype) \<Longrightarrow>
           fst (predict w state lat lon pd mtype p)
             = Inl (RuntimeError (''Prediction failed: Model not found: ''
                                  @ get_model_path (models_dir p) state mtype))"
proof -
  show "\<exists>msg. fst (predict w state lat lon pd mtype p)
                 = Inl (RuntimeError (''Prediction failed: '' @ msg))"
    by (simp add: predict_def prediction_failed_def point_prediction_unsupported [OF fam]
          split: prod.splits sum.splits)
  show "load_model w state mtype p = (Inr m, p1) \<Longrightarrow> strptime w pd = Inr t \<Longrightarrow>
           fst (predict w state lat lon pd mtype p)
             = Inl (RuntimeError (''Prediction failed: Unsupported model type: '' @ mtype))"
    by (simp add: predict_def prediction_failed_def point_prediction_unsupported [OF fam]
          prepare_features_def parse_date_def)
  show "\<not> path_exists w (get_model_path (models_dir p) state mtype) \<Longrightarrow>
           fst (predict w state lat lon pd mtype p)
             = Inl (RuntimeError (''Prediction failed: Model not found: ''
                                  @ get_model_path (models_dir p) state mtype))"
    by (simp add: predict_def prediction_failed_def load_model_def)
qed

lemma apredict_unsupported:
  assumes fam: "mtype \<notin> {''ARIMA'', ''XGBoost'', ''LSTM'', ''Prophet''}"
  shows "\<exists>msg. fst (apredict w state lat lon pd mtype p)
                 = Inl (RuntimeError (''Prediction failed: '' @ msg))"
    and "aload_model w state mtype p = (Inr m, p1) \<Longrightarrow> strptime w pd = Inr t \<Longrightarrow>
           fst (apredict w state lat lon pd mtype p)
             = Inl (RuntimeError (''Prediction failed: Unsupported model type: '' @ mtype))"
    and "\<not> path_exists w (get_model_path (models_dir p) state mtype) \<Longrightarrow>
           fst (apredict w state lat lon pd mtype p)
             = Inl (RuntimeError (''Prediction failed: Model not found: ''
                                  @ get_model_path (models_dir p) state mtype))"
proof -
  show "\<exists>msg. fst (apredict w state lat lon pd mtype p)
                 = Inl (RuntimeError (''Prediction failed: '' @ msg))"
    by (simp add: apredict_def prediction_failed_def point_prediction_unsupported [OF fam]
          split: prod.splits sum.splits)
  show "aload_model w state mtype p = (Inr m, p1) \<Longrightarrow> strptime w pd = Inr t \<Longrightarrow>
           fst (apredict w state lat lon pd mtype p)
             = Inl (RuntimeError (''Prediction failed: Unsupported model type: '' @ mtype))"
    by (simp add: apredict_def prediction_failed_def point_prediction_unsupported [OF fam]
          aprepare_features_def parse_date_def)
  show "\<not> path_exists w (get_model_path (models_dir p) state mtype) \<Longrightarrow>
           fst (apredict w state lat lon pd mtype p)
             = Inl (RuntimeError (''Prediction failed: Model not found: ''
                                  @ get_model_path (models_dir p) state mtype))"
    by (simp add: apredict_def prediction_failed_def aload_model_def)
qed

lemma main_unsupported:
  assumes "length argv = 2" and "parse_request w (argv ! 1) = Inr req"
    and "req_model_type req \<notin> {''ARIMA'', ''XGBoost'', ''LSTM'', ''Prophet''}"
  shows "\<exists>msg. main w argv = (Error_object (''Prediction failed: '' @ msg), 1)"
proof -
  from apredict_unsupported(1) [OF assms(3)]
  obtain msg where "fst (apredict w (req_state req) (req_lat req) (req_lon req)
        (req_prediction_date req) (req_model_type req) (new_predictor 0 0))
      = Inl (RuntimeError (''Prediction failed: '' @ msg))" by blast
  then show ?thesis using assms(1,2) by (simp add: main_def)
qed

text \<open>
  C1, as the source has it. With a model family other than ARIMA, XGBoost, LSTM and
  Prophet, \<open>predict\<close> of either class always fails with
  \<^verbatim>\<open>RuntimeError("Prediction failed: ...")\<close>, and \<open>main\<close> prints a single error object
  and exits with code 1, so no series is emitted. The family is checked after the model is
  loaded and the features are built: the message names the unsupported family when the
  artifact loads and the date parses, and it is the message of the missing artifact when
  the artifact path does not exist.
\<close>

theorem unsupported_family_fails:
  "mtype \<notin> {''ARIMA'', ''XGBoost'', ''LSTM'', ''Prophet''} \<longrightarrow>
     (\<exists>msg. fst (predict w state lat lon pd mtype p)
              = Inl (RuntimeError (''Prediction failed: '' @ msg)))
     \<and> (\<exists>msg. fst (apredict w state lat lon pd mtype p)
              = Inl (RuntimeError (''Prediction failed: '' @ msg)))
     \<and> (length argv = 2 \<and> parse_request w (argv ! 1) = Inr req \<and> req_model_type req = mtype
          \<longrightarrow> (\<exists>msg. main w argv = (Error_object (''Prediction failed: '' @ msg), 1)))
     \<and> (load_model w state mtype p = (Inr m, p1) \<and> strptime w pd = Inr t \<longrightarrow>
           fst (predict w state lat lon pd mtype p)
             = Inl (RuntimeError (''Prediction failed: Unsupported model type: '' @ mtype)))
     \<and> (aload_model w state mtype p = (Inr am, ap1) \<and> strptime w pd = Inr t \<longrightarrow>
           fst (apredict w state lat lon pd mtype p)
             = Inl (RuntimeError (''Prediction failed: Unsupported model type: '' @ mtype)))
     \<and> (\<not> path_exists w (get_model_path (models_dir p) state mtype) \<longrightarrow>
           fst (predict w state lat lon pd mtype p)
             = Inl (RuntimeError (''Prediction failed: Model not found: ''
                                  @ get_model_path (models_dir p) state mtype))
           \<and> fst (apredict w state lat lon pd mtype p)
             = Inl (RuntimeError (''Prediction failed: Model not found: ''
                                  @ get_model_path (models_dir p) state mtype)))"
proof
  assume fam: "mtype \<notin> {''ARIMA'', ''XGBoost'', ''LSTM'', ''Prophet''}"
  note P = predict_unsupported [OF fam]
  note A = apredict_unsupported [OF fam]
  have M: "length argv = 2 \<and> parse_request w (argv ! 1) = Inr req \<and> req_model_type req = mtype
          \<longrightarrow> (\<exists>msg. main w argv = (Error_object (''Prediction failed: '' @ msg), 1))"
  proof
    assume h: "length argv = 2 \<and> parse_request w (argv ! 1) = Inr req
               \<and> req_model_type req = mtype"
    then have "req_model_type req \<notin> {''ARIMA'', ''XGBoost'', ''LSTM'', ''Prophet''}"
      using fam by simp
    with h show "\<exists>msg. main w argv = (Error_object (''Prediction failed: '' @ msg), 1)"
      using main_unsupported by blast
  qed
  have PL: "load_model w state mtype p = (Inr m, p1) \<and> strptime w pd = Inr t \<longrightarrow>
           fst (predict w state lat lon pd mtype p)
             = Inl (RuntimeError (''Prediction failed: Unsupported model type: '' @ mtype))"
    using P(2) by blast
  have AL: "aload_model w state mtype p = (Inr am, ap1) \<and> strptime w pd = Inr t \<longrightarrow>
           fst (apredict w state lat lon pd mtype p)
             = Inl (RuntimeError (''Prediction failed: Unsupported model type: '' @ mtype))"
    using A(2) by blast
  have NF: "\<not> path_exists w (get_model_path (models_dir p) state mtype) \<longrightarrow>
           fst (predict w state lat lon pd mtype p)
             = Inl (RuntimeError (''Prediction failed: Model not found: ''
                                  @ get_model_path (models_dir p) state mtype))
           \<and> fst (apredict w state lat lon pd mtype p)
             = Inl (RuntimeError (''Prediction failed: Model not found: ''
                                  @ get_model_path (models_dir p) state mtype))"
    using P(3) A(3) by blast
  show "(\<exists>msg. fst (predict w state lat lon pd mtype p)
              = Inl (RuntimeError (''Prediction failed: '' @ msg)))
     \<and> (\<exists>msg. fst (apredict w state lat lon pd mtype p)
              = Inl (RuntimeError (''Prediction failed: '' @ msg)))
     \<and> (length argv = 2 \<and> parse_request w (argv ! 1) = Inr req \<and> req_model_type req = mtype
          \<longrightarrow> (\<exists>msg. main w argv = (Error_object (''Prediction failed: '' @ msg), 1)))
     \<and> (load_model w state mtype p = (Inr m, p1) \<and> strptime w pd = Inr t \<longrightarrow>
           fst (predict w state lat lon pd mtype p)
             = Inl (RuntimeError (''Prediction failed: Unsupported model type: '' @ mtype)))
     \<and> (aload_model w state mtype p = (Inr am, ap1) \<and> strptime w pd = Inr t \<longrightarrow>
           fst (apredict w state lat lon pd mtype p)
             = Inl (RuntimeError (''Prediction failed: Unsupported model type: '' @ mtype)))
     \<and> (\<not> path_exists w (get_model_path (models_dir p) state mtype) \<longrightarrow>
           fst (predict w state lat lon pd mtype p)
             = Inl (RuntimeError (''Prediction failed: Model not found: ''
                                  @ get_model_path (models_dir p) state mtype))
           \<and> fst (apredict w state lat lon pd mtype p)
             = Inl (RuntimeError (''Prediction failed: Model not found: ''
                                  @ get_model_path (models_dir p) state mtype)))"
    by (intro conjI P(1) A(1) M PL AL NF)
qed

lemma example_unsupported:
  "''Unsupported'' \<notin> {''ARIMA'', ''XGBoost'', ''LSTM'', ''Prophet''}"
  by simp

lemma example_load_unsupported:
  "load_model example_world ''Goa'' ''Unsupported'' example_proc
     = (Inr (Artifact 0),
        example_proc\<lparr>model_cache := (model_cache example_proc)(''Goa_Unsupported'' \<mapsto> Artifact 0)\<rparr>)"
  "aload_model example_world ''Goa'' ''Unsupported'' example_proc
     = (Inr (Artifact 0),
        example_proc\<lparr>loaded_models := (loaded_models example_proc)(''Goa_Unsupported'' \<mapsto> Artifact 0)\<rparr>)"
  by (simp_all add: load_model_def aload_model_def example_proc_fields example_paths
        example_world_fields example_files_def)

lemma example_main_args:
  "length [''advanced-model-predictor.py'', ''REQUEST''] = 2"
  "parse_request example_world ''REQUEST'' = Inr example_request"
  "parse_request empty_store_world ''REQUEST'' = Inr example_request"
  "req_model_type example_request = ''Unsupported''"
  "req_state example_request = ''Goa''"
  "req_prediction_date example_request = ''2024-12-01''"
  by (simp_all add: example_world_def empty_store_world_def example_request_def)

theorem unsupported_family_fails_witness:
  "''Unsupported'' \<notin> {''ARIMA'', ''XGBoost'', ''LSTM'', ''Prophet''}
   \<and> fst (predict example_world ''Goa'' 15.3 74.1 ''2024-12-01'' ''Unsupported'' example_proc)
       = Inl (RuntimeError ''Prediction failed: Unsupported model type: Unsupported'')
   \<and> fst (apredict example_world ''Goa'' 15.3 74.1 ''2024-12-01'' ''Unsupported'' example_proc)
       = Inl (RuntimeError ''Prediction failed: Unsupported model type: Unsupported'')
   \<and> (\<exists>msg. main example_world [''advanced-model-predictor.py'', ''REQUEST'']
             = (Error_object (''Prediction failed: '' @ msg), 1))"
proof -
  note th = unsupported_family_fails [of "''Unsupported''" example_world "''Goa''" "15.3" "74.1"
      "''2024-12-01''" example_proc "[''advanced-model-predictor.py'', ''REQUEST'']"
      example_request "Artifact 0"
      "example_proc\<lparr>model_cache := (model_cache example_proc)(''Goa_Unsupported'' \<mapsto> Artifact 0)\<rparr>"
      739221 "Artifact 0"
      "example_proc\<lparr>loaded_models := (loaded_models example_proc)(''Goa_Unsupported'' \<mapsto> Artifact 0)\<rparr>",
      THEN mp, OF example_unsupported]
  have t: "strptime example_world ''2024-12-01'' = Inr 739221"
    by (simp add: example_world_fields example_strptime_def)
  have a: "fst (predict example_world ''Goa'' 15.3 74.1 ''2024-12-01'' ''Unsupported'' example_proc)
       = Inl (RuntimeError ''Prediction failed: Unsupported model type: Unsupported'')"
    using th [THEN conjunct2, THEN conjunct2, THEN conjunct2, THEN conjunct1]
      example_load_unsupported(1) t by simp
  have b: "fst (apredict example_world ''Goa'' 15.3 74.1 ''2024-12-01'' ''Unsupported'' example_proc)
       = Inl (RuntimeError ''Prediction failed: Unsupported model type: Unsupported'')"
    using th [THEN conjunct2, THEN conjunct2, THEN conjunct2, THEN conjunct2, THEN conjunct1]
      example_load_unsupported(2) t by simp
  have c: "\<exists>msg. main example_world [''advanced-model-predictor.py'', ''REQUEST'']
             = (Error_object (''Prediction failed: '' @ msg), 1)"
    using th [THEN conjunct2, THEN conjunct2, THEN conjunct1] example_main_args(1,2,4)
    by simp
  from example_unsupported a b c show ?thesis by (intro conjI)
qed

text \<open>
  With an empty artifact store the request for the family \<^verbatim>\<open>Unsupported\<close> fails with the
  message of the missing artifact, not with the message of the unsupported family.
\<close>

theorem unsupported_family_counterexample:
  "main empty_store_world [''advanced-model-predictor.py'', ''REQUEST'']
     = (Error_object ''Prediction failed: Model not found: models/Goa_unsupported_model.joblib'', 1)
   \<and> fst (predict empty_store_world ''Goa'' 15.3 74.1 ''2024-12-01'' ''Unsupported'' example_proc)
     = Inl (RuntimeError ''Prediction failed: Model not found: models/Goa_unsupported_model.joblib'')
   \<and> req_model_type example_request = ''Unsupported''"
proof -
  have ne: "\<not> path_exists empty_store_world
              (get_model_path (models_dir example_proc) ''Goa'' ''Unsupported'')"
    by (simp add: empty_store_world_def)
  have a: "fst (apredict empty_store_world ''Goa'' (req_lat example_request)
                 (req_lon example_request) ''2024-12-01'' ''Unsupported'' example_proc)
     = Inl (RuntimeError ''Prediction failed: Model not found: models/Goa_unsupported_model.joblib'')"
    using apredict_unsupported(3) [OF example_unsupported ne]
    by (simp add: example_proc_fields example_paths)
  have b: "fst (predict empty_store_world ''Goa'' 15.3 74.1 ''2024-12-01'' ''Unsupported'' example_proc)
     = Inl (RuntimeError ''Prediction failed: Model not found: models/Goa_unsupported_model.joblib'')"
    using predict_unsupported(3) [OF example_unsupported ne]
    by (simp add: example_proc_fields example_paths)
  have m: "main empty_store_world [''advanced-model-predictor.py'', ''REQUEST'']
     = (Error_object ''Prediction failed: Model not found: models/Goa_unsupported_model.joblib'', 1)"
    using a by (simp add: main_def example_main_args example_proc_def)
  from m b example_main_args(4) show ?thesis by (intro conjI)
qed

subsection \<open>The model cache\<close>

lemma load_model_again:
  assumes "load_model w1 state mtype p = (Inr m, p1)"
  shows "load_model w2 state mtype p1
         = (if path_exists w2 (get_model_path (models_dir p1) state mtype) then (Inr m, p1)
            else (Inl (FileNotFoundError
                        (''Model not found: '' @ get_model_path (models_dir p1) state mtype)), p1))"
  using load_model_Inr(2) [OF assms] by (simp add: load_model_def)

lemma aload_model_again:
  assumes "aload_model w1 state mtype p = (Inr m, p1)"
  shows "aload_model w2 state mtype p1
         = (if path_exists w2 (get_model_path (models_dir p1) state mtype) then (Inr m, p1)
            else (Inl (FileNotFoundError
                        (''Model not found: '' @ get_model_path (models_dir p1) state mtype)), p1))"
  using aload_model_Inr(2) [OF assms] by (simp add: aload_model_def)

lemma cache_hit_general:
  assumes "model_cache q (state @ ''_'' @ mtype) = Some m"
  shows "load_model w state mtype q
         = (if path_exists w (get_model_path (models_dir q) state mtype) then (Inr m, q)
            else (Inl (FileNotFoundError
                        (''Model not found: '' @ get_model_path (models_dir q) state mtype)), q))"
  using assms by (simp add: load_model_def)

lemma acache_hit_general:
  assumes "loaded_models q (state @ ''_'' @ mtype) = Some m"
  shows "aload_model w state mtype q
         = (if path_exists w (get_model_path (models_dir q) state mtype) then (Inr m, q)
            else (Inl (FileNotFoundError
                        (''Model not found: '' @ get_model_path (models_dir q) state mtype)), q))"
  using assms by (simp add: aload_model_def)

lemma load_model_keeps:
  "models_dir (snd (load_model w state mtype p)) = models_dir p"
  "loaded_models (snd (load_model w state mtype p)) = loaded_models p"
  "model_cache p key = Some m \<Longrightarrow> model_cache (snd (load_model w state mtype p)) key = Some m"
  by (auto simp: load_model_def Let_def split: option.splits sum.splits)

lemma aload_model_keeps:
  "models_dir (snd (aload_model w state mtype p)) = models_dir p"
  "model_cache (snd (aload_model w state mtype p)) = model_cache p"
  "loaded_models p key = Some m \<Longrightarrow> loaded_models (snd (aload_model w state mtype p)) key = Some m"
  by (auto simp: aload_model_def Let_def split: option.splits sum.splits)

lemma generate_historical_data_keeps:
  "models_dir (snd (generate_historical_data w state days p)) = models_dir p"
  "model_cache (snd (generate_historical_data w state days p)) = model_cache p"
  "loaded_models (snd (generate_historical_data w state days p)) = loaded_models p"
  by (simp_all add: generate_historical_data_def Let_def split: prod.splits)

lemma generate_forecast_data_keeps:
  "models_dir (snd (generate_forecast_data w state pd n p)) = models_dir p"
  "model_cache (snd (generate_forecast_data w state pd n p)) = model_cache p"
  "loaded_models (snd (generate_forecast_data w state pd n p)) = loaded_models p"
  by (simp_all add: generate_forecast_data_def Let_def split: prod.splits sum.splits)

lemma generate_historical_data_result:
  assumes "generate_historical_data w state days q = (r, q')"
  shows "models_dir q' = models_dir q \<and> model_cache q' = model_cache q
         \<and> loaded_models q' = loaded_models q"
  using generate_historical_data_keeps [of w state days q] assms by simp

lemma generate_forecast_data_result:
  assumes "generate_forecast_data w state pd n q = (r, q')"
  shows "models_dir q' = models_dir q \<and> model_cache q' = model_cache q
         \<and> loaded_models q' = loaded_models q"
  using generate_forecast_data_keeps [of w state pd n q] assms by simp

lemma predict_keeps:
  "models_dir (snd (predict w state lat lon pd mtype p)) = models_dir p"
  "loaded_models (snd (predict w state lat lon pd mtype p)) = loaded_models p"
  "model_cache (snd (predict w state lat lon pd mtype p))
     = model_cache (snd (load_model w state mtype p))"
proof -
  have "models_dir (snd (predict w state lat lon pd mtype p))
          = models_dir (snd (load_model w state mtype p))
        \<and> loaded_models (snd (predict w state lat lon pd mtype p))
          = loaded_models (snd (load_model w state mtype p))
        \<and> model_cache (snd (predict w state lat lon pd mtype p))
          = model_cache (snd (load_model w state mtype p))"
    unfolding predict_def Let_def
    by (auto split: prod.splits sum.splits
          dest!: generate_historical_data_result generate_forecast_data_result)
  then show "models_dir (snd (predict w state lat lon pd mtype p)) = models_dir p"
    and "loaded_models (snd (predict w state lat lon pd mtype p)) = loaded_models p"
    and "model_cache (snd (predict w state lat lon pd mtype p))
          = model_cache (snd (load_model w state mtype p))"
    by (simp_all add: load_model_keeps)
qed

lemma apredict_keeps:
  "models_dir (snd (apredict w state lat lon pd mtype p)) = models_dir p"
  "model_cache (snd (apredict w state lat lon pd mtype p)) = model_cache p"
  "loaded_models (snd (apredict w state lat lon pd mtype p))
     = loaded_models (snd (aload_model w state mtype p))"
proof -
  have "models_dir (snd (apredict w state lat lon pd mtype p))
          = models_dir (snd (aload_model w state mtype p))
        \<and> model_cache (snd (apredict w state lat lon pd mtype p))
          = model_cache (snd (aload_model w state mtype p))
        \<and> loaded_models (snd (apredict w state lat lon pd mtype p))
          = loaded_models (snd (aload_model w state mtype p))"
    unfolding apredict_def Let_def agenerate_historical_data_eq agenerate_forecast_data_eq
    by (auto split: prod.splits sum.splits
          dest!: generate_historical_data_result generate_forecast_data_result)
  then show "models_dir (snd (apredict w state lat lon pd mtype p)) = models_dir p"
    and "model_cache (snd (apredict w state lat lon pd mtype p)) = model_cache p"
    and "loaded_models (snd (apredict w state lat lon pd mtype p))
          = loaded_models (snd (aload_model w state mtype p))"
    by (simp_all add: aload_model_keeps)
qed

lemma run_call_keeps:
  "models_dir (run_call c p) = models_dir p"
  "model_cache p key = Some m \<Longrightarrow> model_cache (run_call c p) key = Some m"
  by (cases c; simp add: load_model_keeps predict_keeps)+

lemma arun_call_keeps:
  "models_dir (arun_call c p) = models_dir p"
  "loaded_models p key = Some m \<Longrightarrow> loaded_models (arun_call c p) key = Some m"
  by (cases c; simp add: aload_model_keeps apredict_keeps)+

lemma run_calls_keep:
  "models_dir (fold run_call calls p) = models_dir p"
  "model_cache p key = Some m \<Longrightarrow> model_cache (fold run_call calls p) key = Some m"
  by (induction calls arbitrary: p) (simp_all add: run_call_keeps)

lemma arun_calls_keep:
  "models_dir (fold arun_call calls p) = models_dir p"
  "loaded_models p key = Some m \<Longrightarrow> loaded_models (fold arun_call calls p) key = Some m"
  by (induction calls arbitrary: p) (simp_all add: arun_call_keeps)

lemma example_load_xgboost:
  "load_model example_world ''Goa'' ''XGBoost'' example_proc
     = (Inr (Artifact 0),
        example_proc\<lparr>model_cache := (model_cache example_proc)(''Goa_XGBoost'' \<mapsto> Artifact 0)\<rparr>)"
  "aload_model example_world ''Goa'' ''XGBoost'' example_proc
     = (Inr (Artifact 0),
        example_proc\<lparr>loaded_models := (loaded_models example_proc)(''Goa_XGBoost'' \<mapsto> Artifact 0)\<rparr>)"
  by (simp_all add: load_model_def aload_model_def example_proc_fields example_paths
        example_world_fields example_files_def)

lemma broken_joblib_world_fields:
  "path_exists broken_joblib_world path = (path \<in> set example_files)"
  "joblib_load broken_joblib_world path = Inl ''invalid load key''"
  by (simp_all add: broken_joblib_world_def example_world_def)

text \<open>
  C3, as the source has it. Once a load of a (region, family) key has succeeded, the handle
  stays in the cache of that predictor through every later call of the process (loads of
  any key and predictions, returning or raising). Every later load of the key returns that
  handle and leaves the predictor as it is, whatever joblib would do now, provided the
  artifact path still exists: the existence of the path is checked before the cache is
  consulted, and when the file is gone the call fails with FileNotFoundError although the
  key is cached. The same holds of any predictor state whose cache holds the key.
\<close>

theorem cached_load_checks_path_first:
  "(load_model w1 state mtype p = (Inr m, p1) \<longrightarrow>
      model_cache (fold run_call calls p1) (state @ ''_'' @ mtype) = Some m
      \<and> models_dir (fold run_call calls p1) = models_dir p
      \<and> load_model w2 state mtype (fold run_call calls p1)
        = (if path_exists w2 (get_model_path (models_dir p) state mtype)
           then (Inr m, fold run_call calls p1)
           else (Inl (FileNotFoundError
                       (''Model not found: '' @ get_model_path (models_dir p) state mtype)),
                 fold run_call calls p1)))
   \<and> (model_cache q (state @ ''_'' @ mtype) = Some m \<longrightarrow>
      load_model w2 state mtype q
        = (if path_exists w2 (get_model_path (models_dir q) state mtype) then (Inr m, q)
           else (Inl (FileNotFoundError
                       (''Model not found: '' @ get_model_path (models_dir q) state mtype)), q)))
   \<and> (aload_model w1 state mtype p = (Inr am, ap1) \<longrightarrow>
      loaded_models (fold arun_call calls ap1) (state @ ''_'' @ mtype) = Some am
      \<and> models_dir (fold arun_call calls ap1) = models_dir p
      \<and> aload_model w2 state mtype (fold arun_call calls ap1)
        = (if path_exists w2 (get_model_path (models_dir p) state mtype)
           then (Inr am, fold arun_call calls ap1)
           else (Inl (FileNotFoundError
                       (''Model not found: '' @ get_model_path (models_dir p) state mtype)),
                 fold arun_call calls ap1)))
   \<and> (loaded_models q (state @ ''_'' @ mtype) = Some am \<longrightarrow>
      aload_model w2 state mtype q
        = (if path_exists w2 (get_model_path (models_dir q) state mtype) then (Inr am, q)
           else (Inl (FileNotFoundError
                       (''Model not found: '' @ get_model_path (models_dir q) state mtype)), q)))"
proof (intro conjI impI)
  assume l: "load_model w1 state mtype p = (Inr m, p1)"
  have c: "model_cache (fold run_call calls p1) (state @ ''_'' @ mtype) = Some m"
    using load_model_Inr(2) [OF l] by (rule run_calls_keep(2))
  have d: "models_dir (fold run_call calls p1) = models_dir p"
    using run_calls_keep(1) [of calls p1] load_model_Inr(5) [OF l] by simp
  show "model_cache (fold run_call calls p1) (state @ ''_'' @ mtype) = Some m" by (rule c)
  show "models_dir (fold run_call calls p1) = models_dir p" by (rule d)
  show "load_model w2 state mtype (fold run_call calls p1)
        = (if path_exists w2 (get_model_path (models_dir p) state mtype)
           then (Inr m, fold run_call calls p1)
           else (Inl (FileNotFoundError
                       (''Model not found: '' @ get_model_path (models_dir p) state mtype)),
                 fold run_call calls p1))"
    using cache_hit_general [OF c, of w2] unfolding d .
next
  assume "model_cache q (state @ ''_'' @ mtype) = Some m"
  then show "load_model w2 state mtype q
        = (if path_exists w2 (get_model_path (models_dir q) state mtype) then (Inr m, q)
           else (Inl (FileNotFoundError
                       (''Model not found: '' @ get_model_path (models_dir q) state mtype)), q))"
    by (rule cache_hit_general)
next
  assume l: "aload_model w1 state mtype p = (Inr am, ap1)"
  have c: "loaded_models (fold arun_call calls ap1) (state @ ''_'' @ mtype) = Some am"
    using aload_model_Inr(2) [OF l] by (rule arun_calls_keep(2))
  have d: "models_dir (fold arun_call calls ap1) = models_dir p"
    using arun_calls_keep(1) [of calls ap1] aload_model_Inr(5) [OF l] by simp
  show "loaded_models (fold arun_call calls ap1) (state @ ''_'' @ mtype) = Some am" by (rule c)
  show "models_dir (fold arun_call calls ap1) = models_dir p" by (rule d)
  show "aload_model w2 state mtype (fold arun_call calls ap1)
        = (if path_exists w2 (get_model_path (models_dir p) state mtype)
           then (Inr am, fold arun_call calls ap1)
           else (Inl (FileNotFoundError
                       (''Model not found: '' @ get_model_path (models_dir p) state mtype)),
                 fold arun_call calls ap1))"
    using acache_hit_general [OF c, of w2] unfolding d .
next
  assume "loaded_models q (state @ ''_'' @ mtype) = Some am"
  then show "aload_model w2 state mtype q
        = (if path_exists w2 (get_model_path (models_dir q) state mtype) then (Inr am, q)
           else (Inl (FileNotFoundError
                       (''Model not found: '' @ get_model_path (models_dir q) state mtype)), q))"
    by (rule acache_hit_general)
qed

theorem cached_load_checks_path_first_witness:
  "load_model example_world ''Goa'' ''XGBoost'' example_proc
     = (Inr (Artifact 0),
        example_proc\<lparr>model_cache := (model_cache example_proc)(''Goa_XGBoost'' \<mapsto> Artifact 0)\<rparr>)
   \<and> model_cache
        (fold run_call example_calls
          (example_proc\<lparr>model_cache := (model_cache example_proc)(''Goa_XGBoost'' \<mapsto> Artifact 0)\<rparr>))
        ''Goa_XGBoost'' = Some (Artifact 0)
   \<and> fst (load_model broken_joblib_world ''Goa'' ''XGBoost''
        (fold run_call example_calls
          (example_proc\<lparr>model_cache := (model_cache example_proc)(''Goa_XGBoost'' \<mapsto> Artifact 0)\<rparr>)))
     = Inr (Artifact 0)
   \<and> fst (load_model broken_joblib_world ''Goa'' ''XGBoost'' example_proc)
     = Inl (RuntimeError ''Failed to load model models/Goa_xgboost_model.joblib: invalid load key'')
   \<and> model_cache
        (example_proc\<lparr>model_cache := (model_cache example_proc)(''Goa_XGBoost'' \<mapsto> Artifact 0)\<rparr>)
        ''Goa_XGBoost'' = Some (Artifact 0)
   \<and> fst (load_model broken_joblib_world ''Goa'' ''XGBoost''
        (example_proc\<lparr>model_cache := (model_cache example_proc)(''Goa_XGBoost'' \<mapsto> Artifact 0)\<rparr>))
     = Inr (Artifact 0)
   \<and> aload_model example_world ''Goa'' ''XGBoost'' example_proc
     = (Inr (Artifact 0),
        example_proc\<lparr>loaded_models := (loaded_models example_proc)(''Goa_XGBoost'' \<mapsto> Artifact 0)\<rparr>)
   \<and> loaded_models
        (fold arun_call example_calls
          (example_proc\<lparr>loaded_models := (loaded_models example_proc)(''Goa_XGBoost'' \<mapsto> Artifact 0)\<rparr>))
        ''Goa_XGBoost'' = Some (Artifact 0)
   \<and> fst (aload_model broken_joblib_world ''Goa'' ''XGBoost''
        (fold arun_call example_calls
          (example_proc\<lparr>loaded_models := (loaded_models example_proc)(''Goa_XGBoost'' \<mapsto> Artifact 0)\<rparr>)))
     = Inr (Artifact 0)
   \<and> loaded_models
        (example_proc\<lparr>loaded_models := (loaded_models example_proc)(''Goa_XGBoost'' \<mapsto> Artifact 0)\<rparr>)
        ''Goa_XGBoost'' = Some (Artifact 0)
   \<and> fst (aload_model broken_joblib_world ''Goa'' ''XGBoost''
        (example_proc\<lparr>loaded_models := (loaded_models example_proc)(''Goa_XGBoost'' \<mapsto> Artifact 0)\<rparr>))
     = Inr (Artifact 0)"
proof -
  let ?P1 = "example_proc\<lparr>model_cache := (model_cache example_proc)(''Goa_XGBoost'' \<mapsto> Artifact 0)\<rparr>"
  let ?AP1 = "example_proc\<lparr>loaded_models := (loaded_models example_proc)(''Goa_XGBoost'' \<mapsto> Artifact 0)\<rparr>"
  note th = cached_load_checks_path_first [where ?w1.0 = example_world and state = "''Goa''"
      and mtype = "''XGBoost''" and p = example_proc and m = "Artifact 0" and ?p1.0 = ?P1
      and calls = example_calls and ?w2.0 = broken_joblib_world and q = ?P1
      and am = "Artifact 0" and ?ap1.0 = ?AP1]
  note th2 = cached_load_checks_path_first [where state = "''Goa''"
      and mtype = "''XGBoost''" and ?w2.0 = broken_joblib_world and q = ?AP1
      and am = "Artifact 0"]
  have ex: "path_exists broken_joblib_world (get_model_path (models_dir example_proc) ''Goa'' ''XGBoost'')"
    by (simp add: example_proc_fields example_paths broken_joblib_world_fields example_files_def)
  have ex1: "path_exists broken_joblib_world (get_model_path (models_dir ?P1) ''Goa'' ''XGBoost'')"
    "path_exists broken_joblib_world (get_model_path (models_dir ?AP1) ''Goa'' ''XGBoost'')"
    by (simp_all add: example_proc_fields example_paths broken_joblib_world_fields
          example_files_def)
  have k: "''Goa'' @ ''_'' @ ''XGBoost'' = ''Goa_XGBoost''" by simp
  note a = th [THEN conjunct1, THEN mp, OF example_load_xgboost(1), unfolded k]
  have a1: "model_cache (fold run_call example_calls ?P1) ''Goa_XGBoost'' = Some (Artifact 0)"
    using a by (rule conjunct1)
  have a2: "fst (load_model broken_joblib_world ''Goa'' ''XGBoost''
              (fold run_call example_calls ?P1)) = Inr (Artifact 0)"
    using a [THEN conjunct2, THEN conjunct2] ex by simp
  have q1: "model_cache ?P1 ''Goa_XGBoost'' = Some (Artifact 0)" by simp
  have a3: "fst (load_model broken_joblib_world ''Goa'' ''XGBoost'' ?P1) = Inr (Artifact 0)"
    using th [THEN conjunct2, THEN conjunct1, THEN mp, unfolded k, OF q1] ex1(1) by simp
  note b = th [THEN conjunct2, THEN conjunct2, THEN conjunct1, THEN mp,
      OF example_load_xgboost(2), unfolded k]
  have b1: "loaded_models (fold arun_call example_calls ?AP1) ''Goa_XGBoost'' = Some (Artifact 0)"
    using b by (rule conjunct1)
  have b2: "fst (aload_model broken_joblib_world ''Goa'' ''XGBoost''
              (fold arun_call example_calls ?AP1)) = Inr (Artifact 0)"
    using b [THEN conjunct2, THEN conjunct2] ex by simp
  have q2: "loaded_models ?AP1 ''Goa_XGBoost'' = Some (Artifact 0)" by simp
  have b3: "fst (aload_model broken_joblib_world ''Goa'' ''XGBoost'' ?AP1) = Inr (Artifact 0)"
    using th2 [THEN conjunct2, THEN conjunct2, THEN conjunct2, THEN mp, unfolded k, OF q2]
      ex1(2) by simp
  have c: "fst (load_model broken_joblib_world ''Goa'' ''XGBoost'' example_proc)
     = Inl (RuntimeError ''Failed to load model models/Goa_xgboost_model.joblib: invalid load key'')"
    by (simp add: load_model_def example_proc_fields example_paths broken_joblib_world_fields
          example_files_def)
  from example_load_xgboost(1) a1 a2 c q1 a3 example_load_xgboost(2) b1 b2 q2 b3
  show ?thesis by (intro conjI)
qed

text \<open>
  The XGBoost artifact of Goa is loaded and cached; then the file disappears, and the next
  load of the same key fails although the key is in the cache.
\<close>

theorem cached_load_counterexample:
  "fst (load_model example_world ''Goa'' ''XGBoost'' example_proc) = Inr (Artifact 0)
   \<and> model_cache (snd (load_model example_world ''Goa'' ''XGBoost'' example_proc)) ''Goa_XGBoost''
       = Some (Artifact 0)
   \<and> fst (load_model empty_store_world ''Goa'' ''XGBoost''
            (snd (load_model example_world ''Goa'' ''XGBoost'' example_proc)))
       = Inl (FileNotFoundError ''Model not found: models/Goa_xgboost_model.joblib'')
   \<and> fst (aload_model empty_store_world ''Goa'' ''XGBoost''
            (snd (aload_model example_world ''Goa'' ''XGBoost'' example_proc)))
       = Inl (FileNotFoundError ''Model not found: models/Goa_xgboost_model.joblib'')"
proof -
  have ne: "\<not> path_exists empty_store_world path" for path
    by (simp add: empty_store_world_def)
  have a: "fst (load_model empty_store_world ''Goa'' ''XGBoost''
            (snd (load_model example_world ''Goa'' ''XGBoost'' example_proc)))
       = Inl (FileNotFoundError ''Model not found: models/Goa_xgboost_model.joblib'')"
    unfolding example_load_xgboost snd_conv
      load_model_again [OF example_load_xgboost(1), of empty_store_world]
    by (simp add: ne example_proc_fields example_paths)
  have b: "fst (aload_model empty_store_world ''Goa'' ''XGBoost''
            (snd (aload_model example_world ''Goa'' ''XGBoost'' example_proc)))
       = Inl (FileNotFoundError ''Model not found: models/Goa_xgboost_model.joblib'')"
    unfolding example_load_xgboost snd_conv
      aload_model_again [OF example_load_xgboost(2), of empty_store_world]
    by (simp add: ne example_proc_fields example_paths)
  have c: "fst (load_model example_world ''Goa'' ''XGBoost'' example_proc) = Inr (Artifact 0)"
    "model_cache (snd (load_model example_world ''Goa'' ''XGBoost'' example_proc)) ''Goa_XGBoost''
       = Some (Artifact 0)"
    by (simp_all add: example_load_xgboost)
  from c a b show ?thesis by (intro conjI)
qed

subsection \<open>The LSTM placeholder\<close>

lemma load_model_lstm:
  assumes "path_exists w (get_model_path (models_dir p) state ''LSTM'')"
  shows "\<exists>m p1. load_model w state ''LSTM'' p = (Inr m, p1)"
    and "model_cache p (state @ ''_'' @ ''LSTM'') = None \<Longrightarrow>
           fst (load_model w state ''LSTM'' p) = Inr (PyStr (''LSTM_MODEL_'' @ state))"
  using assms by (auto simp: load_model_def Let_def split: option.splits)

lemma aload_model_lstm:
  assumes "path_exists w (get_model_path (models_dir p) state ''LSTM'')"
  shows "TENSORFLOW_AVAILABLE w \<or> loaded_models p (state @ ''_'' @ ''LSTM'') \<noteq> None \<Longrightarrow>
           \<exists>m p1. aload_model w state ''LSTM'' p = (Inr m, p1)"
    and "TENSORFLOW_AVAILABLE w \<Longrightarrow> loaded_models p (state @ ''_'' @ ''LSTM'') = None \<Longrightarrow>
           fst (aload_model w state ''LSTM'' p) = Inr (PyStr (''LSTM_MODEL_'' @ state))"
    and "\<not> TENSORFLOW_AVAILABLE w \<Longrightarrow> loaded_models p (state @ ''_'' @ ''LSTM'') = None \<Longrightarrow>
           fst (aload_model w state ''LSTM'' p)
             = Inl (RuntimeError (''Failed to load model ''
                     @ get_model_path (models_dir p) state ''LSTM''
                     @ '': TensorFlow not available for LSTM models''))"
  using assms by (auto simp: aload_model_def Let_def split: option.splits)

lemma load_model_lstm_no_joblib:
  "load_model (w\<lparr>joblib_load := jl\<rparr>) state ''LSTM'' p = load_model w state ''LSTM'' p"
  "aload_model (w\<lparr>joblib_load := jl\<rparr>) state ''LSTM'' p = aload_model w state ''LSTM'' p"
  by (simp_all add: load_model_def aload_model_def Let_def split: option.splits)

text \<open>
  C7, as the source has it. For the family LSTM no deserialisation is attempted (joblib is
  not called), and the point prediction is computed without the loaded model. In
  ModelPredictor the load succeeds whenever the artifact path exists, and on a cache miss
  the handle is the placeholder \<^verbatim>\<open>"LSTM_MODEL_" + region\<close>. In AdvancedModelPredictor the
  same holds when TensorFlow could be imported or the key is already cached; without
  TensorFlow a load on a cache miss fails with
  \<^verbatim>\<open>RuntimeError("Failed to load model ...: TensorFlow not available for LSTM models")\<close>.
\<close>

theorem lstm_placeholder:
  "(path_exists w (get_model_path (models_dir p) state ''LSTM'') \<longrightarrow>
      (\<exists>m p1. load_model w state ''LSTM'' p = (Inr m, p1))
      \<and> (model_cache p (state @ ''_'' @ ''LSTM'') = None \<longrightarrow>
           fst (load_model w state ''LSTM'' p) = Inr (PyStr (''LSTM_MODEL_'' @ state)))
      \<and> (TENSORFLOW_AVAILABLE w \<or> loaded_models p (state @ ''_'' @ ''LSTM'') \<noteq> None \<longrightarrow>
           (\<exists>m p1. aload_model w state ''LSTM'' p = (Inr m, p1)))
      \<and> (TENSORFLOW_AVAILABLE w \<and> loaded_models p (state @ ''_'' @ ''LSTM'') = None \<longrightarrow>
           fst (aload_model w state ''LSTM'' p) = Inr (PyStr (''LSTM_MODEL_'' @ state)))
      \<and> (\<not> TENSORFLOW_AVAILABLE w \<and> loaded_models p (state @ ''_'' @ ''LSTM'') = None \<longrightarrow>
           fst (aload_model w state ''LSTM'' p)
             = Inl (RuntimeError (''Failed to load model ''
                     @ get_model_path (models_dir p) state ''LSTM''
                     @ '': TensorFlow not available for LSTM models''))))
   \<and> load_model (w\<lparr>joblib_load := jl\<rparr>) state ''LSTM'' p = load_model w state ''LSTM'' p
   \<and> aload_model (w\<lparr>joblib_load := jl\<rparr>) state ''LSTM'' p = aload_model w state ''LSTM'' p
   \<and> point_prediction w state pd ''LSTM'' m fs n = point_prediction w state pd ''LSTM'' m' fs' n
   \<and> apoint_prediction w state pd ''LSTM'' m fs n = apoint_prediction w state pd ''LSTM'' m' fs' n
   \<and> predict (w\<lparr>has_predict := g, model_predict := f\<rparr>) state lat lon pd ''LSTM'' p
       = predict w state lat lon pd ''LSTM'' p
   \<and> apredict (w\<lparr>has_predict := g, model_predict := f\<rparr>) state lat lon pd ''LSTM'' p
       = apredict w state lat lon pd ''LSTM'' p"
proof -
  have fam: "''LSTM'' = ''ARIMA'' \<or> ''LSTM'' = ''LSTM'' \<or> ''LSTM'' = ''Prophet''" by simp
  have L: "path_exists w (get_model_path (models_dir p) state ''LSTM'') \<longrightarrow>
      (\<exists>m p1. load_model w state ''LSTM'' p = (Inr m, p1))
      \<and> (model_cache p (state @ ''_'' @ ''LSTM'') = None \<longrightarrow>
           fst (load_model w state ''LSTM'' p) = Inr (PyStr (''LSTM_MODEL_'' @ state)))
      \<and> (TENSORFLOW_AVAILABLE w \<or> loaded_models p (state @ ''_'' @ ''LSTM'') \<noteq> None \<longrightarrow>
           (\<exists>m p1. aload_model w state ''LSTM'' p = (Inr m, p1)))
      \<and> (TENSORFLOW_AVAILABLE w \<and> loaded_models p (state @ ''_'' @ ''LSTM'') = None \<longrightarrow>
           fst (aload_model w state ''LSTM'' p) = Inr (PyStr (''LSTM_MODEL_'' @ state)))
      \<and> (\<not> TENSORFLOW_AVAILABLE w \<and> loaded_models p (state @ ''_'' @ ''LSTM'') = None \<longrightarrow>
           fst (aload_model w state ''LSTM'' p)
             = Inl (RuntimeError (''Failed to load model ''
                     @ get_model_path (models_dir p) state ''LSTM''
                     @ '': TensorFlow not available for LSTM models'')))"
  proof
    assume ex: "path_exists w (get_model_path (models_dir p) state ''LSTM'')"
    note a = load_model_lstm [OF ex] 
    note b = aload_model_lstm [OF ex]
    show "(\<exists>m p1. load_model w state ''LSTM'' p = (Inr m, p1))
      \<and> (model_cache p (state @ ''_'' @ ''LSTM'') = None \<longrightarrow>
           fst (load_model w state ''LSTM'' p) = Inr (PyStr (''LSTM_MODEL_'' @ state)))
      \<and> (TENSORFLOW_AVAILABLE w \<or> loaded_models p (state @ ''_'' @ ''LSTM'') \<noteq> None \<longrightarrow>
           (\<exists>m p1. aload_model w state ''LSTM'' p = (Inr m, p1)))
      \<and> (TENSORFLOW_AVAILABLE w \<and> loaded_models p (state @ ''_'' @ ''LSTM'') = None \<longrightarrow>
           fst (aload_model w state ''LSTM'' p) = Inr (PyStr (''LSTM_MODEL_'' @ state)))
      \<and> (\<not> TENSORFLOW_AVAILABLE w \<and> loaded_models p (state @ ''_'' @ ''LSTM'') = None \<longrightarrow>
           fst (aload_model w state ''LSTM'' p)
             = Inl (RuntimeError (''Failed to load model ''
                     @ get_model_path (models_dir p) state ''LSTM''
                     @ '': TensorFlow not available for LSTM models'')))"
      using a(1) a(2) b(1) b(2) b(3) by (intro conjI impI; (elim conjE)?; assumption?)
  qed
  show ?thesis
    by (intro conjI L load_model_lstm_no_joblib point_prediction_without_inference(3,4) [OF fam]
          predict_without_inference [OF fam])
qed

lemma no_tensorflow_world_fields:
  "path_exists no_tensorflow_world path = (path \<in> set example_files)"
  "\<not> TENSORFLOW_AVAILABLE no_tensorflow_world"
  by (simp_all add: no_tensorflow_world_def example_world_def)

lemma example_lstm_path:
  "path_exists example_world (get_model_path (models_dir example_proc) ''Goa'' ''LSTM'')"
  "path_exists no_tensorflow_world (get_model_path (models_dir example_proc) ''Goa'' ''LSTM'')"
  by (simp_all add: example_proc_fields example_paths example_world_fields
        no_tensorflow_world_fields example_files_def)

theorem lstm_placeholder_witness:
  "path_exists example_world (get_model_path (models_dir example_proc) ''Goa'' ''LSTM'')
   \<and> model_cache example_proc (''Goa'' @ ''_'' @ ''LSTM'') = None
   \<and> fst (load_model example_world ''Goa'' ''LSTM'' example_proc) = Inr (PyStr ''LSTM_MODEL_Goa'')
   \<and> TENSORFLOW_AVAILABLE example_world
   \<and> loaded_models example_proc (''Goa'' @ ''_'' @ ''LSTM'') = None
   \<and> fst (aload_model example_world ''Goa'' ''LSTM'' example_proc) = Inr (PyStr ''LSTM_MODEL_Goa'')
   \<and> path_exists no_tensorflow_world (get_model_path (models_dir example_proc) ''Goa'' ''LSTM'')
   \<and> \<not> TENSORFLOW_AVAILABLE no_tensorflow_world
   \<and> fst (aload_model no_tensorflow_world ''Goa'' ''LSTM'' example_proc)
       = Inl (RuntimeError
          ''Failed to load model models/Goa_lstm_model.h5: TensorFlow not available for LSTM models'')"
proof -
  note th1 = lstm_placeholder [of example_world example_proc "''Goa''", THEN conjunct1, THEN mp,
      OF example_lstm_path(1)]
  note th2 = lstm_placeholder [of no_tensorflow_world example_proc "''Goa''", THEN conjunct1,
      THEN mp, OF example_lstm_path(2)]
  have c1: "model_cache example_proc (''Goa'' @ ''_'' @ ''LSTM'') = None"
    and c2: "loaded_models example_proc (''Goa'' @ ''_'' @ ''LSTM'') = None"
    by (simp_all add: example_proc_fields)
  have tf: "TENSORFLOW_AVAILABLE example_world" by (rule example_world_fields)
  have ntf: "\<not> TENSORFLOW_AVAILABLE no_tensorflow_world" by (rule no_tensorflow_world_fields)
  have a: "fst (load_model example_world ''Goa'' ''LSTM'' example_proc)
           = Inr (PyStr ''LSTM_MODEL_Goa'')"
    using th1 [THEN conjunct2, THEN conjunct1, THEN mp, OF c1] by simp
  have b: "fst (aload_model example_world ''Goa'' ''LSTM'' example_proc)
           = Inr (PyStr ''LSTM_MODEL_Goa'')"
    using th1 [THEN conjunct2, THEN conjunct2, THEN conjunct2, THEN conjunct1, THEN mp,
      OF conjI [OF tf c2]] by simp
  have c: "fst (aload_model no_tensorflow_world ''Goa'' ''LSTM'' example_proc)
       = Inl (RuntimeError
          ''Failed to load model models/Goa_lstm_model.h5: TensorFlow not available for LSTM models'')"
    using th2 [THEN conjunct2, THEN conjunct2, THEN conjunct2, THEN conjunct2, THEN mp,
      OF conjI [OF ntf c2]] by (simp add: example_proc_fields example_paths)
  from example_lstm_path(1) c1 a tf c2 b example_lstm_path(2) ntf c
  show ?thesis by (intro conjI)
qed

text \<open>
  Without TensorFlow, AdvancedModelPredictor fails to load the LSTM artifact of Goa although
  its path exists, and the prediction fails with that load error.
\<close>

theorem lstm_placeholder_counterexample:
  "path_exists no_tensorflow_world (get_model_path (models_dir example_proc) ''Goa'' ''LSTM'')
   \<and> fst (aload_model no_tensorflow_world ''Goa'' ''LSTM'' example_proc)
       = Inl (RuntimeError
          ''Failed to load model models/Goa_lstm_model.h5: TensorFlow not available for LSTM models'')
   \<and> fst (apredict no_tensorflow_world ''Goa'' 15.3 74.1 ''2024-12-01'' ''LSTM'' example_proc)
       = Inl (RuntimeError
          ''Prediction failed: Failed to load model models/Goa_lstm_model.h5: TensorFlow not available for LSTM models'')"
proof -
  have c2: "loaded_models example_proc (''Goa'' @ ''_'' @ ''LSTM'') = None"
    by (simp add: example_proc_fields)
  have a: "aload_model no_tensorflow_world ''Goa'' ''LSTM'' example_proc
       = (Inl (RuntimeError
          ''Failed to load model models/Goa_lstm_model.h5: TensorFlow not available for LSTM models''),
          example_proc)"
    by (simp add: aload_model_def example_proc_fields example_paths no_tensorflow_world_fields
          example_files_def)
  have b: "fst (apredict no_tensorflow_world ''Goa'' 15.3 74.1 ''2024-12-01'' ''LSTM'' example_proc)
       = Inl (RuntimeError
          ''Prediction failed: Failed to load model models/Goa_lstm_model.h5: TensorFlow not available for LSTM models'')"
    by (simp add: apredict_def a prediction_failed_def)
  have a': "fst (aload_model no_tensorflow_world ''Goa'' ''LSTM'' example_proc)
       = Inl (RuntimeError
          ''Failed to load model models/Goa_lstm_model.h5: TensorFlow not available for LSTM models'')"
    by (simp add: a)
  from example_lstm_path(2) a' b show ?thesis by (intro conjI)
qed

subsection \<open>The trend of the historical series\<close>

lemma ahistorical_point_Inr:
  "ahistorical_point w base today i k = Inr pt \<Longrightarrow>
     date pt = ordinal today - i
     \<and> usage pt = spec_usage (of_int base) (historical_trend i)
                    (seasonality (tm_yday (today\<lparr>ordinal := ordinal today - i\<rparr>)))
                    (5 * std_normal w k)"
  unfolding ahistorical_point_eq by (rule historical_point_Inr)

lemma trend_values:
  "historical_trend k = 0.1 * of_int k"
  "shistorical_trend k = 0.1 * of_int (90 - k)"
  by (simp_all add: historical_trend_def shistorical_trend_def)

lemma trend_order:
  assumes "k < k'"
  shows "historical_trend k < historical_trend k'" and "shistorical_trend k' < shistorical_trend k"
  using assms by (simp_all add: historical_trend_def shistorical_trend_def)

text \<open>
  C5, as the source has it. The historical point \<open>k\<close> days before today is the seasonal
  formula with the trend term \<open>0.1 * k\<close> in ModelPredictor and AdvancedModelPredictor
  (\<^verbatim>\<open>trend = i * 0.1\<close> with \<open>i\<close> counting down from 90 to 1), so there the trend is
  positive and gets smaller as the dates approach today; in the simplified predictor the
  trend term is \<open>0.1 * (90 - k)\<close>, which grows as the dates approach today. In no file is
  it \<open>- 0.1 * k\<close>. The point at index \<open>j\<close> of the historical series is the one
  \<open>days - j\<close> days before today.
\<close>

theorem historical_trend_term:
  "(historical_point w base today k n = Inr pt \<longrightarrow>
      date pt = ordinal today - k
      \<and> usage pt = spec_usage (of_int base) (historical_trend k)
                     (seasonality (tm_yday (today\<lparr>ordinal := ordinal today - k\<rparr>)))
                     (5 * std_normal w n))
   \<and> (ahistorical_point w base today k n = Inr apt \<longrightarrow>
      date apt = ordinal today - k
      \<and> usage apt = spec_usage (of_int base) (historical_trend k)
                     (seasonality (tm_yday (today\<lparr>ordinal := ordinal today - k\<rparr>)))
                     (5 * std_normal w n))
   \<and> (shistorical_point w base today k n = Inr spt \<longrightarrow>
      date spt = ordinal today - k
      \<and> usage spt = spec_usage (of_int base + 300) (shistorical_trend k)
                     (seasonality (tm_yday (today\<lparr>ordinal := ordinal today - k\<rparr>)))
                     ((uniform w n - 0.5) * 10))
   \<and> (generate_historical_data w state days p = (Inr hist, p') \<and> j < nat days \<longrightarrow>
        historical_point w (base_usage w state) (clock w (clock_pos p)) (days - int j)
          (rng_pos p + j) = Inr (hist ! j))
   \<and> historical_trend k = 0.1 * of_int k
   \<and> shistorical_trend k = 0.1 * of_int (90 - k)
   \<and> (k < k' \<longrightarrow> historical_trend k < historical_trend k'
                  \<and> shistorical_trend k' < shistorical_trend k)"
proof -
  have A: "historical_point w base today k n = Inr pt \<longrightarrow>
      date pt = ordinal today - k
      \<and> usage pt = spec_usage (of_int base) (historical_trend k)
                     (seasonality (tm_yday (today\<lparr>ordinal := ordinal today - k\<rparr>)))
                     (5 * std_normal w n)"
    using historical_point_Inr by (rule impI)
  have B: "ahistorical_point w base today k n = Inr apt \<longrightarrow>
      date apt = ordinal today - k
      \<and> usage apt = spec_usage (of_int base) (historical_trend k)
                     (seasonality (tm_yday (today\<lparr>ordinal := ordinal today - k\<rparr>)))
                     (5 * std_normal w n)"
    using ahistorical_point_Inr by (rule impI)
  have C: "shistorical_point w base today k n = Inr spt \<longrightarrow>
      date spt = ordinal today - k
      \<and> usage spt = spec_usage (of_int base + 300) (shistorical_trend k)
                     (seasonality (tm_yday (today\<lparr>ordinal := ordinal today - k\<rparr>)))
                     ((uniform w n - 0.5) * 10)"
    using shistorical_point_Inr by (rule impI)
  have D: "generate_historical_data w state days p = (Inr hist, p') \<and> j < nat days \<longrightarrow>
        historical_point w (base_usage w state) (clock w (clock_pos p)) (days - int j)
          (rng_pos p + j) = Inr (hist ! j)"
    using generate_historical_data_Inr(3) by blast
  have E: "k < k' \<longrightarrow> historical_trend k < historical_trend k'
                  \<and> shistorical_trend k' < shistorical_trend k"
    using trend_order by blast
  show ?thesis by (intro conjI A B C D E trend_values)
qed

lemma example_sub_days:
  "sub_days \<lparr>ordinal = 738886, micros = 43200000000\<rparr> 90
     = Inr \<lparr>ordinal = 738796, micros = 43200000000\<rparr>"
  by (simp add: sub_days_def add_days_def MAXORDINAL_def)

lemma cancelling_historical_point:
  "historical_point (cancelling_world 276 5) 138 \<lparr>ordinal = 738886, micros = 43200000000\<rparr> 90 0
     = Inr \<lparr>date = 738796, usage = 147\<rparr>"
proof -
  have "138 + historical_trend 90 + seasonality 276 + (0 + 5 * (- seasonality 276 / 5))
        = (147::real)"
    by (simp add: historical_trend_def)
  moreover have "round2 (max 0 147) = 147" by (simp add: round2_def round_half_even_def)
  ultimately show ?thesis
    by (simp add: historical_point_def example_sub_days example_yday random_normal_def
          cancelling_world_fields)
qed

lemma cancelling_generate_historical:
  "\<exists>hist p'. generate_historical_data (cancelling_world 276 5) ''Goa'' 90 example_proc
                = (Inr hist, p')"
  by (rule generate_historical_data_succeeds)
     (simp_all add: cancelling_world_fields example_world_fields MAXORDINAL_def)

lemma cancelling_base_usage: "base_usage (cancelling_world d s) ''Goa'' = 138"
  by (simp add: base_usage_def cancelling_world_fields example_world_fields)

lemma cancelling_first_point:
  assumes "generate_historical_data (cancelling_world 276 5) ''Goa'' 90 example_proc
             = (Inr hist, p')"
  shows "hist ! 0 = \<lparr>date = 738796, usage = 147\<rparr>" and "hist \<noteq> []"
proof -
  have "historical_point (cancelling_world 276 5) (base_usage (cancelling_world 276 5) ''Goa'')
          (clock (cancelling_world 276 5) (clock_pos example_proc)) (90 - int 0)
          (rng_pos example_proc + 0) = Inr (hist ! 0)"
    by (rule generate_historical_data_Inr(3) [OF assms]) simp
  then show "hist ! 0 = \<lparr>date = 738796, usage = 147\<rparr>"
    by (simp add: cancelling_base_usage cancelling_world_fields example_world_fields
          example_proc_fields cancelling_historical_point)
  have "length hist = 90" using generate_historical_data_Inr(1) [OF assms] by simp
  then show "hist \<noteq> []" by auto
qed

theorem historical_trend_term_witness:
  "\<exists>hist p' spt.
     historical_point (cancelling_world 276 5) 138 \<lparr>ordinal = 738886, micros = 43200000000\<rparr> 90 0
       = Inr \<lparr>date = 738796, usage = 147\<rparr>
     \<and> 147 = spec_usage 138 (historical_trend 90) (seasonality 276) (5 * (- seasonality 276 / 5))
     \<and> ahistorical_point (cancelling_world 276 5) 138
          \<lparr>ordinal = 738886, micros = 43200000000\<rparr> 90 0
       = Inr \<lparr>date = 738796, usage = 147\<rparr>
     \<and> shistorical_point example_world 138 \<lparr>ordinal = 738886, micros = 43200000000\<rparr> 90 0
       = Inr spt
     \<and> date spt = 738796
     \<and> usage spt = spec_usage 438 (shistorical_trend 90) (seasonality 276) 0
     \<and> generate_historical_data (cancelling_world 276 5) ''Goa'' 90 example_proc = (Inr hist, p')
     \<and> historical_point (cancelling_world 276 5) 138
          \<lparr>ordinal = 738886, micros = 43200000000\<rparr> 90 0 = Inr (hist ! 0)
     \<and> historical_trend 90 = 9 \<and> shistorical_trend 90 = 0
     \<and> historical_trend 1 < historical_trend 90
     \<and> shistorical_trend 90 < shistorical_trend 1"
proof -
  let ?T = "\<lparr>ordinal = 738886, micros = 43200000000\<rparr>"
  let ?pt = "\<lparr>date = 738796, usage = 147\<rparr>"
  obtain hist p' where
    g: "generate_historical_data (cancelling_world 276 5) ''Goa'' 90 example_proc = (Inr hist, p')"
    using cancelling_generate_historical by blast
  obtain spt where s: "shistorical_point example_world 138 ?T 90 0 = Inr spt"
    by (simp add: shistorical_point_def example_sub_days)
  have a: "ahistorical_point (cancelling_world 276 5) 138 ?T 90 0 = Inr ?pt"
    unfolding ahistorical_point_eq by (rule cancelling_historical_point)
  have A: "147 = spec_usage 138 (historical_trend 90) (seasonality 276) (5 * (- seasonality 276 / 5))"
    using historical_trend_term [where w = "cancelling_world 276 5" and base = 138
        and today = ?T and k = 90 and n = 0 and pt = ?pt, THEN conjunct1,
      THEN mp, OF cancelling_historical_point]
    by (simp add: example_yday cancelling_world_fields)
  have C: "date spt = 738796 \<and> usage spt = spec_usage 438 (shistorical_trend 90) (seasonality 276) 0"
    using historical_trend_term [where w = example_world and base = 138
        and today = ?T and k = 90 and n = 0 and spt = spt,
      THEN conjunct2, THEN conjunct2, THEN conjunct1, THEN mp, OF s]
    by (simp add: example_yday example_world_def)
  have j: "(0::nat) < nat 90" by simp
  have D: "historical_point (cancelling_world 276 5) 138 ?T 90 0 = Inr (hist ! 0)"
    using historical_trend_term [where w = "cancelling_world 276 5" and state = "''Goa''"
        and days = 90 and p = example_proc and hist = hist and p' = p' and j = 0,
      THEN conjunct2, THEN conjunct2, THEN conjunct2, THEN conjunct1, THEN mp,
      OF conjI [OF g j]]
    by (simp add: cancelling_base_usage cancelling_world_fields example_world_fields
          example_proc_fields)
  have E: "historical_trend 90 = 9" "shistorical_trend 90 = 0"
    "historical_trend 1 < historical_trend 90" "shistorical_trend 90 < shistorical_trend 1"
    by (simp_all add: historical_trend_def shistorical_trend_def)
  from cancelling_historical_point A a s C g D E show ?thesis by blast
qed

text \<open>
  With today 2024-01-01, base usage 138 and a normal draw that cancels the seasonal term of
  2023-10-03 (day 276 of the year), the historical point 90 days before today carries the
  usage 147 = 138 + 0.1 * 90; the formula with the trend \<open>- 0.1 * 90\<close> gives 129. The
  trend of the point 90 days back (9) is larger than that of the point 1 day back (0.1).
\<close>

theorem historical_trend_counterexample:
  "historical_point (cancelling_world 276 5) 138 \<lparr>ordinal = 738886, micros = 43200000000\<rparr> 90 0
     = Inr \<lparr>date = 738796, usage = 147\<rparr>
   \<and> map_option hd (result_of (generate_historical_data (cancelling_world 276 5) ''Goa'' 90
                                 example_proc))
     = Some \<lparr>date = 738796, usage = 147\<rparr>
   \<and> spec_usage 138 (- 0.1 * 90)
        (seasonality (tm_yday \<lparr>ordinal = 738796, micros = 43200000000\<rparr>))
        (random_normal (cancelling_world 276 5) 0 0 5) = 129
   \<and> historical_trend 90 = 9
   \<and> historical_trend 1 < historical_trend 90"
proof -
  obtain hist p' where
    g: "generate_historical_data (cancelling_world 276 5) ''Goa'' 90 example_proc = (Inr hist, p')"
    using cancelling_generate_historical by blast
  have "hd hist = \<lparr>date = 738796, usage = 147\<rparr>"
    using cancelling_first_point [OF g] by (simp add: hd_conv_nth)
  then have a: "map_option hd (result_of (generate_historical_data (cancelling_world 276 5)
                  ''Goa'' 90 example_proc)) = Some \<lparr>date = 738796, usage = 147\<rparr>"
    using g by (simp add: result_of_def)
  have "138 + - 0.1 * 90 + seasonality 276 + (0 + 5 * (- seasonality 276 / 5)) = (129::real)"
    by simp
  moreover have "round2 (max 0 129) = 129" by (simp add: round2_def round_half_even_def)
  ultimately have b: "spec_usage 138 (- 0.1 * 90)
        (seasonality (tm_yday \<lparr>ordinal = 738796, micros = 43200000000\<rparr>))
        (random_normal (cancelling_world 276 5) 0 0 5) = 129"
    by (simp add: spec_usage_def example_yday random_normal_def cancelling_world_fields)
  have c: "historical_trend 90 = 9" "historical_trend 1 < historical_trend 90"
    by (simp_all add: historical_trend_def)
  from cancelling_historical_point a b c show ?thesis by (intro conjI)
qed

end
